(* ===== verification/Js_Base.thy ===== *)
theory Js_Base
  imports Main "HOL-Library.Sublist"
begin

text \<open>
  The JavaScript runtime the backend (\<^verbatim>\<open>src/backend/server.js\<close>) relies on, as far as the
  handlers observe it: the values a parsed JSON document or a request body can hold
  (\<open>jsval\<close>), truthiness, the string conversion a template literal applies, property reads
  that throw on \<open>null\<close> and \<open>undefined\<close>, the exceptions the handlers catch (\<open>exn\<close>),
  a state-and-exception combinator for sequential \<open>await\<close>s and \<open>try\<close>/\<open>catch\<close>
  (\<open>js_bind\<close>, \<open>js_catch\<close>), and the string built-ins the code calls (\<open>trim\<close>,
  \<open>toLowerCase\<close>, \<open>includes\<close>).

  Strings are Isabelle strings; each character is read as a UTF-16 code unit below 256
  (Latin-1). Whitespace and lower-casing are those of ECMAScript restricted to that range.
  Numbers are integers: a fractional number in a JSON document is outside the model.
\<close>

named_theorems js_simps "evaluation rules of the JavaScript runtime model"

section \<open>Values\<close>

datatype jsval =
    JUndef
  | JNull
  | JBool bool
  | JNum int
  | JStr string
  | JArr "jsval list"
  | JObj "(string \<times> jsval) list"

fun truthy :: "jsval \<Rightarrow> bool" where
  "truthy JUndef = False"
| "truthy JNull = False"
| "truthy (JBool b) = b"
| "truthy (JNum n) = (n \<noteq> 0)"
| "truthy (JStr s) = (s \<noteq> [])"
| "truthy (JArr _) = True"
| "truthy (JObj _) = True"

text \<open>\<open>a || b\<close>.\<close>

definition js_or :: "jsval \<Rightarrow> jsval \<Rightarrow> jsval" where
  "js_or a b = (if truthy a then a else b)"

definition nullish :: "jsval \<Rightarrow> bool" where
  "nullish v \<longleftrightarrow> v = JUndef \<or> v = JNull"

subsection \<open>Decimal numerals\<close>

fun nat_str :: "nat \<Rightarrow> string" where
  "nat_str n =
     (if n < 10 then [char_of (48 + n)]
      else nat_str (n div 10) @ [char_of (48 + n mod 10)])"

declare nat_str.simps [simp del]

definition int_str :: "int \<Rightarrow> string" where
  "int_str i = (if i < 0 then CHR ''-'' # nat_str (nat (- i)) else nat_str (nat i))"

text \<open>Reading a numeral back, the inverse used to show that numerals are distinct.\<close>

fun digits_val :: "string \<Rightarrow> nat" where
  "digits_val [] = 0"
| "digits_val (c # cs) = (of_char c - 48) * 10 ^ length cs + digits_val cs"

subsection \<open>String conversion (template literals, \<open>Array.prototype.join\<close>)\<close>

fun join_with :: "string \<Rightarrow> string list \<Rightarrow> string" where
  "join_with sep [] = []"
| "join_with sep [s] = s"
| "join_with sep (s # ss) = s @ sep @ join_with sep ss"

fun js_to_string :: "jsval \<Rightarrow> string" where
  "js_to_string JUndef = ''undefined''"
| "js_to_string JNull = ''null''"
| "js_to_string (JBool b) = (if b then ''true'' else ''false'')"
| "js_to_string (JNum n) = int_str n"
| "js_to_string (JStr s) = s"
| "js_to_string (JArr vs) =
     join_with '','' (map (\<lambda>v. if v = JUndef \<or> v = JNull then [] else js_to_string v) vs)"
| "js_to_string (JObj _) = ''[object Object]''"

section \<open>Exceptions\<close>

text \<open>
  What a handler can catch: the engine's own errors, an \<open>Error\<close> thrown by the code,
  a JSON syntax error, an axios error (the HTTP status of \<open>error.response\<close> if the server
  answered, and its body), and an error of the Gemini client library.
\<close>

datatype exn =
    ReferenceError string
  | TypeError string
  | Error string
  | SyntaxError string
  | AxiosError "nat option" jsval
  | GeminiError string
  | RangeError string

text \<open>\<open>error.message\<close>: axios words its own message from the status.\<close>

fun exn_message :: "exn \<Rightarrow> string" where
  "exn_message (ReferenceError m) = m"
| "exn_message (TypeError m) = m"
| "exn_message (Error m) = m"
| "exn_message (SyntaxError m) = m"
| "exn_message (AxiosError (Some st) _) = ''Request failed with status code '' @ nat_str st"
| "exn_message (AxiosError None _) = ''Network Error''"
| "exn_message (GeminiError m) = m"
| "exn_message (RangeError m) = m"

text \<open>\<open>error.response?.status\<close>: only an axios error carries a response.\<close>

fun exn_status :: "exn \<Rightarrow> nat option" where
  "exn_status (AxiosError st _) = st"
| "exn_status _ = None"

section \<open>Property access\<close>

text \<open>
  \<open>v.k\<close>: reading a property of \<open>null\<close> or \<open>undefined\<close> throws a \<open>TypeError\<close>;
  an object answers its last binding of the key (the one \<open>JSON.parse\<close> keeps); strings
  and arrays answer \<open>length\<close>; every other read is \<open>undefined\<close> (no key the backend
  reads is a built-in property of a primitive).
\<close>

fun prop_of :: "jsval \<Rightarrow> string \<Rightarrow> jsval" where
  "prop_of (JObj kvs) k = (case map_of (rev kvs) k of Some v \<Rightarrow> v | None \<Rightarrow> JUndef)"
| "prop_of (JStr s) k = (if k = ''length'' then JNum (int (length s)) else JUndef)"
| "prop_of (JArr vs) k = (if k = ''length'' then JNum (int (length vs)) else JUndef)"
| "prop_of _ k = JUndef"

definition js_get :: "jsval \<Rightarrow> string \<Rightarrow> exn + jsval" where
  "js_get v k =
     (if nullish v then Inl (TypeError (''Cannot read properties of '' @ js_to_string v))
      else Inr (prop_of v k))"

text \<open>\<open>v[n]\<close> for a numeric index.\<close>

fun index_of :: "jsval \<Rightarrow> nat \<Rightarrow> jsval" where
  "index_of (JArr vs) n = (if n < length vs then vs ! n else JUndef)"
| "index_of (JStr s) n = (if n < length s then JStr [s ! n] else JUndef)"
| "index_of (JObj kvs) n = prop_of (JObj kvs) (nat_str n)"
| "index_of _ n = JUndef"

definition js_index :: "jsval \<Rightarrow> nat \<Rightarrow> exn + jsval" where
  "js_index v n =
     (if nullish v then Inl (TypeError (''Cannot read properties of '' @ js_to_string v))
      else Inr (index_of v n))"

section \<open>Sequential code with exceptions\<close>

text \<open>
  An \<open>async\<close> function of the backend runs against a world \<open>'w\<close> (the providers it
  calls, the clock) and ends with a value or a thrown exception. \<open>js_bind\<close> is one
  \<open>await\<close> followed by the rest of the body; \<open>js_catch\<close> is \<open>try\<close>/\<open>catch\<close>.
\<close>

type_synonym ('w, 'a) js = "'w \<Rightarrow> (exn + 'a) \<times> 'w"

definition js_return :: "'a \<Rightarrow> ('w, 'a) js" where
  "js_return x w = (Inr x, w)"

definition js_throw :: "exn \<Rightarrow> ('w, 'a) js" where
  "js_throw e w = (Inl e, w)"

definition js_lift :: "exn + 'a \<Rightarrow> ('w, 'a) js" where
  "js_lift r w = (r, w)"

definition js_bind :: "('w, 'a) js \<Rightarrow> ('a \<Rightarrow> ('w, 'b) js) \<Rightarrow> ('w, 'b) js" where
  "js_bind m f w = (case m w of (Inl e, w') \<Rightarrow> (Inl e, w') | (Inr x, w') \<Rightarrow> f x w')"

definition js_catch :: "('w, 'a) js \<Rightarrow> (exn \<Rightarrow> ('w, 'a) js) \<Rightarrow> ('w, 'a) js" where
  "js_catch m h w = (case m w of (Inl e, w') \<Rightarrow> h e w' | (Inr x, w') \<Rightarrow> (Inr x, w'))"

text \<open>Reading an identifier that is declared nowhere in scope.\<close>

definition undeclared :: "string \<Rightarrow> ('w, 'a) js" where
  "undeclared x = js_throw (ReferenceError (x @ '' is not defined''))"

declare js_return_def [js_simps] js_throw_def [js_simps] js_lift_def [js_simps]
  js_bind_def [js_simps] js_catch_def [js_simps] undeclared_def [js_simps]

section \<open>String built-ins\<close>

text \<open>ECMAScript \<open>WhiteSpace\<close> and \<open>LineTerminator\<close> below 256: TAB, LF, VT, FF, CR, SP, NBSP.\<close>

definition js_space :: "char \<Rightarrow> bool" where
  "js_space c \<longleftrightarrow> of_char c \<in> {9, 10, 11, 12, 13, 32, 160 :: nat}"

definition js_trim :: "string \<Rightarrow> string" where
  "js_trim s = rev (dropWhile js_space (rev (dropWhile js_space s)))"

text \<open>\<open>toLowerCase\<close> on Latin-1: A--Z and the accented capitals (but the multiplication sign).\<close>

definition js_lower_char :: "char \<Rightarrow> char" where
  "js_lower_char c =
     (let n = (of_char c :: nat)
      in if (65 \<le> n \<and> n \<le> 90) \<or> (192 \<le> n \<and> n \<le> 222 \<and> n \<noteq> 215) then char_of (n + 32) else c)"

definition js_lower :: "string \<Rightarrow> string" where
  "js_lower s = map js_lower_char s"

fun starts_with :: "string \<Rightarrow> string \<Rightarrow> bool" where
  "starts_with s [] = True"
| "starts_with [] (c # cs) = False"
| "starts_with (d # ds) (c # cs) = (d = c \<and> starts_with ds cs)"

text \<open>\<open>hay.includes(needle)\<close>.\<close>

fun js_includes :: "string \<Rightarrow> string \<Rightarrow> bool" where
  "js_includes [] needle = (needle = [])"
| "js_includes (c # cs) needle = (starts_with (c # cs) needle \<or> js_includes cs needle)"

section \<open>Lemmas\<close>

subsection \<open>The combinators\<close>

lemma js_bind_return [simp]: "js_bind (js_return x) f = f x"
  by (simp add: fun_eq_iff js_bind_def js_return_def)

lemma js_bind_throw [simp]: "js_bind (js_throw e) f = js_throw e"
  by (simp add: fun_eq_iff js_bind_def js_throw_def)

lemma js_catch_return [simp]: "js_catch (js_return x) h = js_return x"
  by (simp add: fun_eq_iff js_catch_def js_return_def)

lemma js_catch_throw [simp]: "js_catch (js_throw e) h = h e"
  by (simp add: fun_eq_iff js_catch_def js_throw_def)

lemma js_lift_Inl [simp]: "js_lift (Inl e) = js_throw e"
  by (simp add: fun_eq_iff js_lift_def js_throw_def)

lemma js_lift_Inr [simp]: "js_lift (Inr x) = js_return x"
  by (simp add: fun_eq_iff js_lift_def js_return_def)

lemma js_bind_assoc:
  "js_bind (js_bind m f) g = js_bind m (\<lambda>x. js_bind (f x) g)"
  by (simp add: fun_eq_iff js_bind_def split: prod.splits sum.splits)

subsection \<open>Property access\<close>

lemma js_get_Inl_iff: "(\<exists>e. js_get v k = Inl e) \<longleftrightarrow> nullish v"
  by (simp add: js_get_def)

lemma js_get_obj [simp]:
  "js_get (JObj kvs) k = Inr (case map_of (rev kvs) k of Some v \<Rightarrow> v | None \<Rightarrow> JUndef)"
  by (simp add: js_get_def nullish_def)

lemma js_get_nullish [simp]:
  "js_get JUndef k = Inl (TypeError ''Cannot read properties of undefined'')"
  "js_get JNull k = Inl (TypeError ''Cannot read properties of null'')"
  by (simp_all add: js_get_def nullish_def)

lemma nullish_simps [simp]:
  "nullish JUndef" "nullish JNull" "\<not> nullish (JBool b)" "\<not> nullish (JNum n)"
  "\<not> nullish (JStr s)" "\<not> nullish (JArr vs)" "\<not> nullish (JObj kvs)"
  by (simp_all add: nullish_def)

lemma truthy_not_nullish: "truthy v \<Longrightarrow> \<not> nullish v"
  by (cases v) (auto simp: nullish_def)

lemma js_or_truthy [simp]: "truthy a \<Longrightarrow> js_or a b = a"
  and js_or_falsy [simp]: "\<not> truthy a \<Longrightarrow> js_or a b = b"
  by (simp_all add: js_or_def)

subsection \<open>Strings\<close>

lemma starts_with_prefix: "starts_with s p \<longleftrightarrow> prefix p s"
  by (induction s p rule: starts_with.induct) auto

lemma starts_with_append [simp]: "starts_with (p @ s) p"
  by (simp add: starts_with_prefix)

text \<open>\<open>js_includes\<close> is the contiguous-sublist relation of the library.\<close>

lemma js_includes_sublist: "js_includes s p \<longleftrightarrow> sublist p s"
proof (induction s)
  case Nil
  then show ?case by simp
next
  case (Cons c cs)
  then show ?case by (simp add: starts_with_prefix sublist_Cons_right)
qed

lemma js_includes_append_middle [simp]: "js_includes (a @ p @ b) p"
  by (simp add: js_includes_sublist)

lemma last_dropWhile_nonempty:
  "dropWhile P xs \<noteq> [] \<Longrightarrow> last (dropWhile P xs) = last xs"
  by (induction xs) auto

lemma js_trim_ends:
  assumes "js_trim s \<noteq> []"
  shows "\<not> js_space (hd (js_trim s))" and "\<not> js_space (last (js_trim s))"
proof -
  let ?t = "dropWhile js_space s"
  let ?u = "dropWhile js_space (rev ?t)"
  have u: "?u \<noteq> []" and tr: "js_trim s = rev ?u"
    using assms by (auto simp: js_trim_def)
  have "?t \<noteq> []"
  proof
    assume "?t = []"
    with u show False by simp
  qed
  have "hd (js_trim s) = last ?u" using u tr by (simp add: hd_rev)
  also have "\<dots> = last (rev ?t)" using u by (rule last_dropWhile_nonempty)
  also have "\<dots> = hd ?t" using \<open>?t \<noteq> []\<close> by (simp add: last_rev)
  finally show "\<not> js_space (hd (js_trim s))"
    using \<open>?t \<noteq> []\<close> hd_dropWhile by metis
  have "last (js_trim s) = hd ?u" using u tr by (simp add: last_rev)
  then show "\<not> js_space (last (js_trim s))"
    using u hd_dropWhile by metis
qed

lemma js_trim_length: "length (js_trim s) \<le> length s"
proof -
  have "length (dropWhile js_space (rev (dropWhile js_space s))) \<le> length (rev (dropWhile js_space s))"
    by (rule length_dropWhile_le)
  also have "\<dots> \<le> length s" by (simp add: length_dropWhile_le)
  finally show ?thesis by (simp add: js_trim_def)
qed

lemma dropWhile_none: "\<forall>c \<in> set xs. \<not> P c \<Longrightarrow> dropWhile P xs = xs"
  by (induction xs) auto

lemma js_trim_no_space [simp]: "\<forall>c \<in> set s. \<not> js_space c \<Longrightarrow> js_trim s = s"
  by (simp add: js_trim_def dropWhile_none)

lemma js_trim_spaces_around:
  assumes a: "\<forall>c \<in> set a. js_space c" and b: "\<forall>c \<in> set b. js_space c"
  shows "js_trim (a @ s @ b) = js_trim s"
proof (cases "\<exists>c \<in> set s. \<not> js_space c")
  case True
  then obtain c where c: "c \<in> set s" "\<not> js_space c" by blast
  have "dropWhile js_space (a @ s @ b) = dropWhile js_space s @ b"
    using a c by (simp add: dropWhile_append1 dropWhile_append2)
  moreover have "dropWhile js_space (rev b @ t) = dropWhile js_space t" for t
    by (rule dropWhile_append2) (use b in auto)
  ultimately show ?thesis by (simp add: js_trim_def)
next
  case False
  have all: "js_trim x = []" if "\<forall>c \<in> set x. js_space c" for x
  proof -
    have "dropWhile js_space x = []" using that by (induction x) auto
    then show ?thesis by (simp add: js_trim_def del: dropWhile_eq_Nil_conv)
  qed
  have "\<forall>c \<in> set (a @ s @ b). js_space c" using a b False by auto
  then show ?thesis using False by (simp add: all)
qed

lemma digits_val_snoc: "digits_val (xs @ [c]) = digits_val xs * 10 + (of_char c - 48)"
  by (induction xs) (simp_all add: algebra_simps)

lemma digits_val_nat_str: "digits_val (nat_str n) = n"
proof (induction n rule: nat_str.induct)
  case (1 n)
  show ?case
  proof (cases "n < 10")
    case True
    then show ?thesis by (subst nat_str.simps) (simp add: of_char_of)
  next
    case False
    then show ?thesis using "1" by (subst nat_str.simps) (simp add: digits_val_snoc of_char_of)
  qed
qed

lemma nat_str_digit: "n < 10 \<Longrightarrow> nat_str n = [char_of (48 + n)]"
  by (subst nat_str.simps) simp

lemma nat_str_step: "10 \<le> n \<Longrightarrow> nat_str n = nat_str (n div 10) @ [char_of (48 + n mod 10)]"
  by (subst nat_str.simps) simp

lemma nat_str_inj: "nat_str m = nat_str n \<longleftrightarrow> m = n"
  by (metis digits_val_nat_str)

end
