(* ===== verification/Encoding.thy ===== *)
theory Encoding
  imports Js_Base "HOL-Library.Word"
begin

text \<open>
  Base64, as \<^verbatim>\<open>Buffer.from(bytes).toString('base64')\<close> produces it in the backend
  (the audio of a voiceover, the reference image of a visual concept, the
  \<^verbatim>\<open>data:audio/mpeg;base64,\<close> URL of \<^verbatim>\<open>generateVoice\<close>): three bytes become four
  characters of the standard alphabet, a final group of one or two bytes is padded with
  \<open>=\<close>. Bytes are \<open>8 word\<close>s. The strict decoder \<open>base64_decode\<close> is what the client's
  audio element applies to the payload; the round trip shows no audio byte is lost in
  transfer, and the length law gives the size of the payload.
\<close>

section \<open>Definitions\<close>

definition b64_digit :: "nat \<Rightarrow> char" where
  "b64_digit n =
     char_of (if n < 26 then 65 + n else if n < 52 then 71 + n
              else if n < 62 then n - 4 else if n = 62 then 43 else 47 :: nat)"

definition b64_value :: "char \<Rightarrow> nat option" where
  "b64_value c =
     (let k = (of_char c :: nat) in
      if 65 \<le> k \<and> k \<le> 90 then Some (k - 65)
      else if 97 \<le> k \<and> k \<le> 122 then Some (k - 71)
      else if 48 \<le> k \<and> k \<le> 57 then Some (k + 4)
      else if k = 43 then Some 62 else if k = 47 then Some 63 else None)"

definition b64_quad :: "nat \<Rightarrow> string" where
  "b64_quad n =
     [b64_digit (n div 262144), b64_digit (n div 4096 mod 64),
      b64_digit (n div 64 mod 64), b64_digit (n mod 64)]"

definition triple_val :: "8 word \<Rightarrow> 8 word \<Rightarrow> 8 word \<Rightarrow> nat" where
  "triple_val a b c = unat a * 65536 + unat b * 256 + unat c"

fun base64_encode :: "8 word list \<Rightarrow> string" where
  "base64_encode [] = []"
| "base64_encode [a] = take 2 (b64_quad (triple_val a 0 0)) @ ''==''"
| "base64_encode [a, b] = take 3 (b64_quad (triple_val a b 0)) @ ''=''"
| "base64_encode (a # b # c # rest) = b64_quad (triple_val a b c) @ base64_encode rest"

definition quad_bytes :: "nat \<Rightarrow> 8 word list" where
  "quad_bytes n = [of_nat (n div 65536), of_nat (n div 256 mod 256), of_nat (n mod 256)]"

fun base64_decode :: "string \<Rightarrow> 8 word list option" where
  "base64_decode [] = Some []"
| "base64_decode [c1, c2, c3, c4] =
     (case (b64_value c1, b64_value c2) of
        (Some v1, Some v2) \<Rightarrow>
          if c3 = CHR ''='' then
            (if c4 = CHR ''='' then Some (take 1 (quad_bytes (v1 * 262144 + v2 * 4096))) else None)
          else
            (case b64_value c3 of
               None \<Rightarrow> None
             | Some v3 \<Rightarrow>
                 if c4 = CHR ''='' then Some (take 2 (quad_bytes (v1 * 262144 + v2 * 4096 + v3 * 64)))
                 else (case b64_value c4 of
                         None \<Rightarrow> None
                       | Some v4 \<Rightarrow> Some (quad_bytes (v1 * 262144 + v2 * 4096 + v3 * 64 + v4))))
      | _ \<Rightarrow> None)"
| "base64_decode (c1 # c2 # c3 # c4 # c5 # rest) =
     (case (b64_value c1, b64_value c2, b64_value c3, b64_value c4) of
        (Some v1, Some v2, Some v3, Some v4) \<Rightarrow>
          map_option (\<lambda>bs. quad_bytes (v1 * 262144 + v2 * 4096 + v3 * 64 + v4) @ bs)
            (base64_decode (c5 # rest))
      | _ \<Rightarrow> None)"
| "base64_decode _ = None"

section \<open>Lemmas\<close>

lemma b64_value_digit: "n < 64 \<Longrightarrow> b64_value (b64_digit n) = Some n"
  by (auto simp: b64_digit_def b64_value_def Let_def)

lemma b64_value_pad: "b64_value (CHR ''='') = None"
  by (simp add: b64_value_def)

lemma b64_digit_not_pad: "n < 64 \<Longrightarrow> b64_digit n \<noteq> CHR ''=''"
  using b64_value_digit b64_value_pad by force

lemma triple_val_bound: "triple_val a b c < 16777216"
proof -
  have "unat a < 256" "unat b < 256" "unat c < 256"
    using unsigned_less [of a] unsigned_less [of b] unsigned_less [of c] by simp_all
  then show ?thesis by (simp add: triple_val_def)
qed

lemma sextets_recombine:
  "(n div 262144) * 262144 + (n div 4096 mod 64) * 4096 + (n div 64 mod 64) * 64 + n mod 64 = (n::nat)"
proof -
  have d1: "n div 4096 = n div 64 div 64" by (simp add: div_mult2_eq)
  have d2: "n div 262144 = n div 4096 div 64" by (simp add: div_mult2_eq)
  have "n = n div 64 * 64 + n mod 64" by simp
  moreover have "n div 64 = n div 4096 * 64 + n div 64 mod 64" using d1 by simp
  moreover have "n div 4096 = n div 262144 * 64 + n div 4096 mod 64" using d2 by simp
  ultimately show ?thesis by linarith
qed

lemma byte_split: "c < 256 \<Longrightarrow> (q * 256 + c) div 256 = q \<and> (q * 256 + c) mod 256 = (c::nat)"
  by simp

lemma quad_bytes_triple: "quad_bytes (triple_val a b c) = [a, b, c]"
proof -
  have a: "unat a < 256" and b: "unat b < 256" and c: "unat c < 256"
    using unsigned_less [of a] unsigned_less [of b] unsigned_less [of c] by simp_all
  have n: "triple_val a b c = (unat a * 256 + unat b) * 256 + unat c"
    by (simp add: triple_val_def)
  have hi: "triple_val a b c div 256 = unat a * 256 + unat b"
    and lo: "triple_val a b c mod 256 = unat c"
    using byte_split [OF c, of "unat a * 256 + unat b"] n by simp_all
  have "triple_val a b c div 65536 = unat a"
    using hi byte_split [OF b, of "unat a"] by (simp add: div_mult2_eq [of _ 256 256, simplified])
  moreover have "triple_val a b c div 256 mod 256 = unat b"
    using hi byte_split [OF b, of "unat a"] by simp
  ultimately show ?thesis using lo by (simp add: quad_bytes_def)
qed


lemma sextet_bounds:
  assumes "n < 16777216"
  shows "n div 262144 < 64" "n div 4096 mod 64 < 64" "n div 64 mod 64 < 64" "n mod 64 < (64::nat)"
  using assms by simp_all

lemma base64_encode_Nil_iff: "base64_encode bs = [] \<longleftrightarrow> bs = []"
  by (induction bs rule: base64_encode.induct) (simp_all add: b64_quad_def)

lemma triple_val_low:
  "triple_val a 0 0 mod 4096 = 0" "triple_val a b 0 mod 64 = 0"
  by (simp_all add: triple_val_def mod_add_eq [symmetric])

lemma base64_roundtrip: "base64_decode (base64_encode bs) = Some bs"
proof (induction bs rule: base64_encode.induct)
  case 1
  then show ?case by simp
next
  case (2 a)
  let ?n = "triple_val a 0 0"
  have b: "?n < 16777216" by (rule triple_val_bound)
  have "?n div 262144 * 262144 + ?n div 4096 mod 64 * 4096 = ?n"
  proof -
    have "?n mod 4096 = 64 * (?n div 64 mod 64) + ?n mod 64"
      using mod_mult2_eq [of ?n 64 64] by simp
    then have "?n div 64 mod 64 = 0" "?n mod 64 = 0" using triple_val_low(1) [of a] by simp_all
    then show ?thesis using sextets_recombine [of ?n] by simp
  qed
  then show ?case
    using sextet_bounds [OF b] quad_bytes_triple [of a 0 0]
    by (simp add: b64_quad_def b64_value_digit b64_digit_not_pad)
next
  case (3 a b)
  let ?n = "triple_val a b 0"
  have bd: "?n < 16777216" by (rule triple_val_bound)
  have "?n div 262144 * 262144 + ?n div 4096 mod 64 * 4096 + ?n div 64 mod 64 * 64 = ?n"
    using sextets_recombine [of ?n] triple_val_low(2) [of a b] by simp
  then show ?case
    using sextet_bounds [OF bd] quad_bytes_triple [of a b 0]
    by (simp add: b64_quad_def b64_value_digit b64_digit_not_pad)
next
  case (4 a b c rest)
  let ?n = "triple_val a b c"
  have bd: "?n < 16777216" by (rule triple_val_bound)
  have q: "?n div 262144 * 262144 + ?n div 4096 mod 64 * 4096 + ?n div 64 mod 64 * 64 + ?n mod 64 = ?n"
    by (rule sextets_recombine)
  show ?case
  proof (cases rest)
    case Nil
    then show ?thesis
      using sextet_bounds [OF bd] quad_bytes_triple [of a b c] q
      by (simp add: b64_quad_def b64_value_digit b64_digit_not_pad)
  next
    case (Cons r rs)
    then obtain c5 cs where e: "base64_encode rest = c5 # cs"
      using base64_encode_Nil_iff by (cases "base64_encode rest") auto
    show ?thesis
      using sextet_bounds [OF bd] quad_bytes_triple [of a b c] q 4 e
      by (simp add: b64_quad_def b64_value_digit)
  qed
qed


lemma div3_step: "(5 + n) div 3 = Suc ((2 + n) div (3::nat))"
proof -
  have "5 + n = (2 + n) + 3" by simp
  then show ?thesis by (simp only: div_add_self2)
qed

lemma base64_encode_length: "length (base64_encode bs) = 4 * ((length bs + 2) div 3)"
  by (induction bs rule: base64_encode.induct) (simp_all add: b64_quad_def div3_step)

end
