(* ===== verification/Providers.thy ===== *)
theory Providers
  imports Js_Base "HOL-Library.Word"
begin

text \<open>
  The world the backend talks to. The three providers are remote services whose answers
  the code cannot predict, so the model takes them as given: each provider has a queue of
  replies that the next calls receive in order, and every outbound request is appended to
  a log (\<open>calls\<close>), so that properties can count and order the calls a handler makes.
  A call finding its queue empty gets no response (a network error). The clock is
  \<^verbatim>\<open>Date.now()\<close> in milliseconds; a request reads it but does not advance it.

  \<^item> \<open>gemini_generate\<close>: \<^verbatim>\<open>model.generateContent(prompt)\<close> followed by
    \<^verbatim>\<open>result.response.text()\<close> (Google Generative AI SDK);
  \<^item> \<open>dalle_post\<close>: \<^verbatim>\<open>axios.post('https://api.openai.com/v1/images/generations', ...)\<close>;
  \<^item> \<open>voices_get\<close>: \<^verbatim>\<open>axios.get('https://api.elevenlabs.io/v1/voices')\<close>;
  \<^item> \<open>tts_post\<close>: \<^verbatim>\<open>axios\<close> POST to \<^verbatim>\<open>/v1/text-to-speech/...\<close> with
    \<^verbatim>\<open>responseType: 'arraybuffer'\<close>.
  axios resolves on a 2xx status and rejects otherwise, with \<^verbatim>\<open>error.response\<close> set
  when the server answered.

  A handler's reply is a status and a JSON body (\<^verbatim>\<open>res.status(st).json(body)\<close>).
\<close>

section \<open>Requests and replies\<close>

text \<open>Voice settings in hundredths (\<^verbatim>\<open>stability: 0.75\<close> is 75).\<close>

record voice_settings =
  stability :: nat
  similarity_boost :: nat
  style :: nat
  use_speaker_boost :: bool

datatype call =
    GeminiCall string string
  | DalleCall string string
  | VoicesCall
  | TtsCall string jsval string voice_settings
  | FetchCall string
  | GeminiVisionCall string string string string

datatype gemini_reply = GeminiText string | GeminiFailure string

datatype json_reply = JsonResponse nat jsval | JsonNoResponse

datatype audio_reply = AudioResponse nat "8 word list" | AudioNoResponse

text \<open>A reply to \<^verbatim>\<open>fetch\<close>: a response of any status with its body, or a network failure.\<close>

datatype fetch_reply = FetchResponse nat "8 word list" | FetchFailure

record world =
  gemini_queue :: "gemini_reply list"
  dalle_queue :: "json_reply list"
  voices_queue :: "json_reply list"
  tts_queue :: "audio_reply list"
  fetch_queue :: "fetch_reply list"
  clock :: nat
  calls :: "call list"

record http_response =
  status :: nat
  body :: jsval

definition json_error :: "nat \<Rightarrow> string \<Rightarrow> http_response" where
  "json_error st msg = \<lparr>status = st, body = JObj [(''error'', JStr msg)]\<rparr>"

section \<open>The calls\<close>

definition success_status :: "nat \<Rightarrow> bool" where
  "success_status st \<longleftrightarrow> 200 \<le> st \<and> st < 300"

fun gemini_result :: "gemini_reply list \<Rightarrow> exn + string" where
  "gemini_result (GeminiText t # _) = Inr t"
| "gemini_result (GeminiFailure m # _) = Inl (GeminiError m)"
| "gemini_result [] = Inl (GeminiError ''fetch failed'')"

fun axios_json_result :: "json_reply list \<Rightarrow> exn + jsval" where
  "axios_json_result (JsonResponse st d # _) =
     (if success_status st then Inr d else Inl (AxiosError (Some st) d))"
| "axios_json_result (JsonNoResponse # _) = Inl (AxiosError None JUndef)"
| "axios_json_result [] = Inl (AxiosError None JUndef)"

fun axios_audio_result :: "audio_reply list \<Rightarrow> exn + 8 word list" where
  "axios_audio_result (AudioResponse st d # _) =
     (if success_status st then Inr d else Inl (AxiosError (Some st) JUndef))"
| "axios_audio_result (AudioNoResponse # _) = Inl (AxiosError None JUndef)"
| "axios_audio_result [] = Inl (AxiosError None JUndef)"

definition gemini_generate :: "string \<Rightarrow> string \<Rightarrow> (world, string) js" where
  "gemini_generate model prompt w =
     (gemini_result (gemini_queue w),
      w\<lparr>gemini_queue := drop 1 (gemini_queue w), calls := calls w @ [GeminiCall model prompt]\<rparr>)"

definition dalle_post :: "string \<Rightarrow> string \<Rightarrow> (world, jsval) js" where
  "dalle_post prompt sz w =
     (axios_json_result (dalle_queue w),
      w\<lparr>dalle_queue := drop 1 (dalle_queue w), calls := calls w @ [DalleCall prompt sz]\<rparr>)"

definition voices_get :: "(world, jsval) js" where
  "voices_get w =
     (axios_json_result (voices_queue w),
      w\<lparr>voices_queue := drop 1 (voices_queue w), calls := calls w @ [VoicesCall]\<rparr>)"

definition tts_post :: "string \<Rightarrow> jsval \<Rightarrow> string \<Rightarrow> voice_settings \<Rightarrow> (world, 8 word list) js" where
  "tts_post url text model_id settings w =
     (axios_audio_result (tts_queue w),
      w\<lparr>tts_queue := drop 1 (tts_queue w), calls := calls w @ [TtsCall url text model_id settings]\<rparr>)"

text \<open>\<^verbatim>\<open>model.generateContent([textPrompt, ...imageParts])\<close>: a prompt with one inline
  image, given by its MIME type and its base64 text.\<close>

definition gemini_generate_vision :: "string \<Rightarrow> string \<Rightarrow> string \<Rightarrow> string \<Rightarrow> (world, string) js" where
  "gemini_generate_vision model prompt mime data w =
     (gemini_result (gemini_queue w),
      w\<lparr>gemini_queue := drop 1 (gemini_queue w),
        calls := calls w @ [GeminiVisionCall model prompt mime data]\<rparr>)"

text \<open>\<^verbatim>\<open>fetch(url).then(r => r.arrayBuffer())\<close>: \<^verbatim>\<open>fetch\<close> resolves for every
  HTTP status, and the body is read whatever the status; only a network failure rejects.\<close>

fun fetch_result :: "fetch_reply list \<Rightarrow> exn + 8 word list" where
  "fetch_result (FetchResponse st d # _) = Inr d"
| "fetch_result (FetchFailure # _) = Inl (TypeError ''fetch failed'')"
| "fetch_result [] = Inl (TypeError ''fetch failed'')"

definition fetch_bytes :: "string \<Rightarrow> (world, 8 word list) js" where
  "fetch_bytes url w =
     (fetch_result (fetch_queue w),
      w\<lparr>fetch_queue := drop 1 (fetch_queue w), calls := calls w @ [FetchCall url]\<rparr>)"

definition date_now :: "(world, nat) js" where
  "date_now w = (Inr (clock w), w)"

text \<open>A world in which no provider has a reply left.\<close>

definition quiet_world :: world where
  "quiet_world =
     \<lparr>gemini_queue = [], dalle_queue = [], voices_queue = [], tts_queue = [], fetch_queue = [],
      clock = 0, calls = []\<rparr>"

lemmas provider_simps = gemini_generate_def dalle_post_def voices_get_def tts_post_def date_now_def
  gemini_generate_vision_def fetch_bytes_def

section \<open>Lemmas\<close>

text \<open>Every call appends exactly its own request to the log and leaves the clock alone.\<close>

lemma provider_calls:
  "calls (snd (gemini_generate m p w)) = calls w @ [GeminiCall m p]"
  "calls (snd (dalle_post p sz w)) = calls w @ [DalleCall p sz]"
  "calls (snd (voices_get w)) = calls w @ [VoicesCall]"
  "calls (snd (tts_post u t mi st w)) = calls w @ [TtsCall u t mi st]"
  by (simp_all add: provider_simps)

lemma provider_clock:
  "clock (snd (gemini_generate m p w)) = clock w"
  "clock (snd (dalle_post p sz w)) = clock w"
  "clock (snd (voices_get w)) = clock w"
  "clock (snd (tts_post u t mi st w)) = clock w"
  by (simp_all add: provider_simps)

end
