(* ===== verification/Voice.thy ===== *)
theory Voice
  imports Providers Encoding
begin

text \<open>
  Voice selection and synthesis: step 3 of \<^verbatim>\<open>POST /api/generate\<close>
  (\<^verbatim>\<open>src/backend/server.js\<close>, lines 566--780). The stage fetches the ElevenLabs voice
  catalog, classifies the brand personality into one of four categories, picks the first
  catalog voice whose name is in the category's list (else the first voice), synthesises
  the slogan, and on failure retries once with a fallback voice. Its reply is the whole
  HTTP response of the request.

  The file does not parse as it stands: lines 641--662 are the tail of an earlier
  \<^verbatim>\<open>axios.post\<close> call left behind when the synthesis call of lines 621--640 was put
  in. The model reads the stage with those fragments removed and the inner \<^verbatim>\<open>try\<close>
  (closed by the \<^verbatim>\<open>catch (elevenlabsError)\<close> of line 681) opening at the synthesis
  call. Every other statement is modelled as written, including the two identifiers that
  are declared nowhere: \<^verbatim>\<open>elevenlabsResponse\<close> (line 665) and \<^verbatim>\<open>voices\<close> (line 697).
  Reading either throws a \<open>ReferenceError\<close>.

  The brand identity handed to the stage is not \<open>null\<close> or \<open>undefined\<close>: the handler
  has read \<^verbatim>\<open>brandIdentity.brandName\<close> before, so its property reads here are \<open>prop_of\<close>.
\<close>

section \<open>Definitions\<close>

subsection \<open>Categories and selection (lines 582--615)\<close>

datatype voice_category = Professional | Friendly | Energetic | Warm

fun category_voices :: "voice_category \<Rightarrow> string list" where
  "category_voices Professional = [''Rachel'', ''Adam'', ''Christina'']"
| "category_voices Friendly = [''Bella'', ''Antoni'', ''Josh'']"
| "category_voices Energetic = [''Sam'', ''Ella'', ''Thomas'']"
| "category_voices Warm = [''Grace'', ''Daniel'', ''Charlotte'']"

text \<open>\<^verbatim>\<open>(brandIdentity.brandPersonality || '').toLowerCase()\<close>.\<close>

definition brand_personality :: "jsval \<Rightarrow> exn + string" where
  "brand_personality identity =
     (case js_or (prop_of identity ''brandPersonality'') (JStr []) of
        JStr s \<Rightarrow> Inr (js_lower s)
      | _ \<Rightarrow> Inl (TypeError ''toLowerCase is not a function''))"

definition classify_personality :: "string \<Rightarrow> voice_category" where
  "classify_personality p =
     (if js_includes p ''friendly'' \<or> js_includes p ''casual'' then Friendly
      else if js_includes p ''energetic'' \<or> js_includes p ''dynamic'' then Energetic
      else if js_includes p ''warm'' \<or> js_includes p ''welcoming'' then Warm
      else Professional)"

text \<open>The \<^verbatim>\<open>find\<close> callback: \<^verbatim>\<open>voiceCategories[category].includes(voice.name)\<close>.\<close>

definition voice_matches :: "voice_category \<Rightarrow> jsval \<Rightarrow> exn + bool" where
  "voice_matches cat voice =
     (case js_get voice ''name'' of
        Inl e \<Rightarrow> Inl e
      | Inr (JStr n) \<Rightarrow> Inr (n \<in> set (category_voices cat))
      | Inr _ \<Rightarrow> Inr False)"

text \<open>\<^verbatim>\<open>Array.prototype.find\<close>: the first element the callback accepts, else
  \<open>undefined\<close>; an exception of the callback ends the search.\<close>

fun js_find :: "(jsval \<Rightarrow> exn + bool) \<Rightarrow> jsval list \<Rightarrow> exn + jsval" where
  "js_find p [] = Inr JUndef"
| "js_find p (v # vs) =
     (case p v of Inl e \<Rightarrow> Inl e | Inr True \<Rightarrow> Inr v | Inr False \<Rightarrow> js_find p vs)"

definition select_voice :: "voice_category \<Rightarrow> jsval \<Rightarrow> exn + jsval" where
  "select_voice cat available =
     (case available of
        JArr vs \<Rightarrow>
          (case js_find (voice_matches cat) vs of
             Inl e \<Rightarrow> Inl e
           | Inr found \<Rightarrow>
               (let sel = (if \<not> truthy found \<and> 0 < length vs then vs ! 0 else found)
                in if \<not> truthy sel then Inl (Error ''No suitable voice found in ElevenLabs'')
                   else Inr sel))
      | _ \<Rightarrow> Inl (TypeError ''availableVoices.find is not a function''))"

text \<open>Lines 577--579 and 590: the catalog must carry a truthy \<^verbatim>\<open>voices\<close> field.\<close>

definition catalog_voices :: "jsval \<Rightarrow> exn + jsval" where
  "catalog_voices data =
     (if \<not> truthy data \<or> \<not> truthy (prop_of data ''voices'')
      then Inl (Error ''No voices available from ElevenLabs API'')
      else Inr (prop_of data ''voices''))"

text \<open>Lines 594--601: the category of the brand's personality.\<close>

definition personality_category :: "jsval \<Rightarrow> exn + voice_category" where
  "personality_category identity =
     (case brand_personality identity of
        Inl e \<Rightarrow> Inl e
      | Inr p \<Rightarrow> Inr (classify_personality p))"

subsection \<open>Synthesis and its retry (lines 620--771)\<close>

definition primary_settings :: voice_settings where
  "primary_settings =
     \<lparr>stability = 75, similarity_boost = 75, style = 100, use_speaker_boost = True\<rparr>"

definition fallback_settings :: voice_settings where
  "fallback_settings =
     \<lparr>stability = 70, similarity_boost = 70, style = 30, use_speaker_boost = True\<rparr>"

definition tts_base :: string where
  "tts_base = ''https://api.elevenlabs.io/v1/text-to-speech/''"

text \<open>Lines 749--755: the message for a failed retry, by the HTTP status of the error.\<close>

definition voice_error_message :: "exn \<Rightarrow> string" where
  "voice_error_message e =
     (case exn_status e of
        Some st \<Rightarrow>
          if st = 401 then ''ElevenLabs API authentication failed. Please check your API key.''
          else if st = 429 then ''ElevenLabs API rate limit exceeded. Please try again later.''
          else ''ElevenLabs API error. Please try again.''
      | None \<Rightarrow> ''ElevenLabs API error. Please try again.'')"

definition audio_response :: "jsval \<Rightarrow> jsval list \<Rightarrow> string \<Rightarrow> http_response" where
  "audio_response identity urls audio =
     \<lparr>status = 200,
      body = JObj [(''imageUrls'', JArr urls), (''audioBase64'', JStr audio),
                   (''adSlogan'', prop_of identity ''adSlogan''),
                   (''mascotDescription'', prop_of identity ''mascotDescription''),
                   (''visualStyle'', prop_of identity ''visualStyle''),
                   (''useElevenLabs'', JBool True)]\<rparr>"

definition no_audio_response :: "jsval \<Rightarrow> jsval list \<Rightarrow> string \<Rightarrow> http_response" where
  "no_audio_response identity urls msg =
     \<lparr>status = 200,
      body = JObj [(''imageUrls'', JArr urls), (''audioBase64'', JNull),
                   (''adSlogan'', prop_of identity ''adSlogan''),
                   (''mascotDescription'', prop_of identity ''mascotDescription''),
                   (''visualStyle'', prop_of identity ''visualStyle''),
                   (''elevenlabsError'', JStr msg)]\<rparr>"

text \<open>
  The fallback attempt (lines 695--735) and the reply once it has failed too
  (lines 736--770).
\<close>

definition retry_with_fallback :: "jsval \<Rightarrow> jsval list \<Rightarrow> (world, http_response) js" where
  "retry_with_fallback identity urls =
     js_catch
       (js_bind (undeclared ''voices'') (\<lambda>voices.
        js_bind (js_lift (js_get voices ''rachel'')) (\<lambda>fallbackVoice.
        js_bind (tts_post (tts_base @ js_to_string fallbackVoice) (prop_of identity ''adSlogan'')
                   ''eleven_monolingual_v1'' fallback_settings) (\<lambda>retry.
        js_return (audio_response identity urls (base64_encode retry))))))
       (\<lambda>retryError. js_return (no_audio_response identity urls (voice_error_message retryError)))"

text \<open>The primary attempt (lines 621--680), the retry as its handler.\<close>

definition synthesize_voiceover :: "jsval \<Rightarrow> jsval list \<Rightarrow> jsval \<Rightarrow> (world, http_response) js" where
  "synthesize_voiceover identity urls selected =
     js_catch
       (js_bind (js_lift (js_get selected ''voice_id'')) (\<lambda>voice_id.
        js_bind (tts_post (tts_base @ js_to_string voice_id @ ''/stream'') (prop_of identity ''adSlogan'')
                   ''eleven_multilingual_v2'' primary_settings) (\<lambda>voiceResponse.
        js_bind (undeclared ''elevenlabsResponse'') (\<lambda>elevenlabsResponse.
        js_return (audio_response identity urls (base64_encode elevenlabsResponse))))))
       (\<lambda>elevenlabsError. retry_with_fallback identity urls)"

subsection \<open>The stage (lines 566--619 and 773--780)\<close>

definition voice_stage :: "jsval \<Rightarrow> jsval list \<Rightarrow> (world, http_response) js" where
  "voice_stage identity urls =
     js_catch
       (js_bind voices_get (\<lambda>data.
        js_bind (js_lift (catalog_voices data)) (\<lambda>available.
        js_bind (js_lift (personality_category identity)) (\<lambda>category.
        js_bind (js_lift (select_voice category available)) (\<lambda>selected.
        synthesize_voiceover identity urls selected)))))
       (\<lambda>audioError. js_return (json_error 500 ''Failed to generate voiceover. Please try again.''))"

subsection \<open>Sample data\<close>

definition bella :: jsval where
  "bella = JObj [(''name'', JStr ''Bella''), (''voice_id'', JStr ''EXAVITQu4vr4xnSDxMaL'')]"

definition sample_identity :: jsval where
  "sample_identity =
     JObj [(''mascotDescription'', JStr ''A cheerful fox''), (''visualStyle'', JStr ''Modern''),
           (''adSlogan'', JStr ''Smart choices''), (''brandPersonality'', JStr ''Friendly'')]"

section \<open>Lemmas\<close>

lemma retry_with_fallback_result:
  "retry_with_fallback identity urls w =
     (Inr (no_audio_response identity urls ''ElevenLabs API error. Please try again.''), w)"
  by (simp add: retry_with_fallback_def voice_error_message_def undeclared_def js_return_def)

lemma synthesize_voiceover_eq:
  "synthesize_voiceover identity urls selected w =
     (Inr (no_audio_response identity urls ''ElevenLabs API error. Please try again.''),
      if nullish selected then w
      else snd (tts_post (tts_base @ js_to_string (prop_of selected ''voice_id'') @ ''/stream'')
                  (prop_of identity ''adSlogan'') ''eleven_multilingual_v2'' primary_settings w))"
  by (auto simp: synthesize_voiceover_def js_simps js_get_def retry_with_fallback_result
      tts_post_def split: sum.splits)

lemma js_find_result:
  "js_find p vs = Inr x \<Longrightarrow>
     (x = JUndef \<and> (\<forall>u \<in> set vs. p u = Inr False)) \<or> (x \<in> set vs \<and> p x = Inr True)"
  by (induction vs) (auto split: sum.splits bool.splits)

lemma voice_matches_obj: "voice_matches c v = Inr True \<Longrightarrow> \<exists>kvs. v = JObj kvs"
  by (cases v) (auto simp: voice_matches_def js_get_def split: jsval.splits if_splits)

lemma voice_matches_total: "\<not> nullish u \<Longrightarrow> \<exists>b. voice_matches c u = Inr b"
  by (auto simp: voice_matches_def js_get_def split: jsval.splits)

lemma js_find_voice:
  "\<forall>u \<in> set vs. \<not> nullish u \<Longrightarrow>
   js_find (voice_matches c) vs =
     Inr (case find (\<lambda>u. voice_matches c u = Inr True) vs of Some v \<Rightarrow> v | None \<Rightarrow> JUndef)"
proof (induction vs)
  case (Cons u vs)
  obtain b where "voice_matches c u = Inr b" using Cons.prems voice_matches_total [of u c] by auto
  then show ?case using Cons by (cases b) auto
qed simp

text \<open>
  C9: on a catalog of voice objects, \<^verbatim>\<open>availableVoices.find\<close> and its fallback select
  the first voice of the personality's category; when there is none, the first voice of the
  catalog; and when that is missing or falsy, the request fails with ``No suitable voice
  found in ElevenLabs''.
\<close>

theorem select_voice_choice:
  assumes "\<forall>u \<in> set vs. \<not> nullish u"
  shows "select_voice c (JArr vs) =
     (case find (\<lambda>u. voice_matches c u = Inr True) vs of
        Some v \<Rightarrow> Inr v
      | None \<Rightarrow>
          if vs \<noteq> [] \<and> truthy (hd vs) then Inr (hd vs)
          else Inl (Error ''No suitable voice found in ElevenLabs''))"
proof (cases "find (\<lambda>u. voice_matches c u = Inr True) vs")
  case None
  then show ?thesis using js_find_voice [OF assms, of c]
    by (cases vs) (auto simp: select_voice_def Let_def)
next
  case (Some v)
  then have "voice_matches c v = Inr True" by (auto dest: find_Some_iff [THEN iffD1])
  then obtain kvs where "v = JObj kvs" using voice_matches_obj by blast
  then show ?thesis using Some js_find_voice [OF assms, of c] by (simp add: select_voice_def Let_def)
qed

lemma js_lower_char_idem: "js_lower_char (js_lower_char c) = js_lower_char c"
  by (auto simp: js_lower_char_def Let_def)

lemma js_lower_idem: "js_lower (js_lower s) = js_lower s"
  by (simp add: js_lower_def js_lower_char_idem)

lemma voice_stage_status:
  "\<exists>r. fst (voice_stage identity urls w) = Inr r \<and> status r \<in> {200, 500}"
  by (auto simp: voice_stage_def js_simps synthesize_voiceover_eq json_error_def no_audio_response_def
      split: prod.splits sum.splits)

text \<open>
  C10: the voice category does not depend on the case of the brand personality.
\<close>

theorem personality_category_case_insensitive:
  "personality_category (JObj [(''brandPersonality'', JStr s)]) =
   personality_category (JObj [(''brandPersonality'', JStr (js_lower s))])"
  by (cases s) (simp_all add: personality_category_def brand_personality_def js_or_def
      js_lower_def js_lower_char_idem comp_def)

lemma select_voice_truthy: "select_voice c av = Inr v \<Longrightarrow> truthy v"
  by (auto simp: select_voice_def Let_def split: jsval.splits sum.splits if_splits)

text \<open>
  C7: a failed catalog request fails the whole request with a 500 reply and no
  synthesis request, where the spec has the pipeline continue without audio.
\<close>

theorem voice_stage_catalog_error:
  assumes "voices_queue w = JsonResponse st d # q" and "\<not> success_status st"
  shows "voice_stage identity urls w =
           (Inr (json_error 500 ''Failed to generate voiceover. Please try again.''),
            w\<lparr>voices_queue := q, calls := calls w @ [VoicesCall]\<rparr>)"
  using assms by (simp add: voice_stage_def js_simps voices_get_def)

text \<open>
  C8: with a healthy catalog and a selected voice, the stage makes exactly the catalog
  request and one synthesis request with the selected voice's id and the slogan, and
  answers 200 without audio.
\<close>

theorem voice_stage_healthy_catalog:
  assumes "voices_queue w = JsonResponse st d # q" and "success_status st"
    and "catalog_voices d = Inr av" and "personality_category identity = Inr c"
    and "select_voice c av = Inr sel"
  shows "voice_stage identity urls w =
           (Inr (no_audio_response identity urls ''ElevenLabs API error. Please try again.''),
            w\<lparr>voices_queue := q, tts_queue := drop 1 (tts_queue w),
              calls := calls w @ [VoicesCall,
                TtsCall (tts_base @ js_to_string (prop_of sel ''voice_id'') @ ''/stream'')
                  (prop_of identity ''adSlogan'') ''eleven_multilingual_v2'' primary_settings]\<rparr>)"
proof -
  have "\<not> nullish sel" using select_voice_truthy [OF assms(5)] truthy_not_nullish by blast
  then show ?thesis
    using assms by (simp add: voice_stage_def js_simps voices_get_def synthesize_voiceover_eq tts_post_def)
qed

subsection \<open>Properties\<close>

text \<open>
  C4: the stage never delivers audio. Whatever the provider answers, the primary attempt
  ends in the \<open>ReferenceError\<close> of \<^verbatim>\<open>elevenlabsResponse\<close> (line 665), the retry in
  the one of \<^verbatim>\<open>voices\<close> (line 697), and the reply is the 200 response without audio,
  with the generic message: the status-based messages for 401 and 429 are never chosen.
\<close>

theorem synthesize_never_delivers_audio:
  "fst (synthesize_voiceover identity urls selected w) =
     Inr (no_audio_response identity urls ''ElevenLabs API error. Please try again.'')"
  by (simp add: synthesize_voiceover_eq)

text \<open>
  C5: the retry never reaches the provider. Synthesis makes at most one request, the
  primary one with the primary settings; the fallback voice and settings are never sent.
\<close>

theorem synthesize_single_request:
  "calls (snd (synthesize_voiceover identity urls selected w)) =
     calls w @ (if nullish selected then []
                else [TtsCall (tts_base @ js_to_string (prop_of selected ''voice_id'') @ ''/stream'')
                        (prop_of identity ''adSlogan'') ''eleven_multilingual_v2'' primary_settings])"
  by (simp add: synthesize_voiceover_eq provider_calls)

text \<open>
  C6: the stage always answers, and only in one of two ways: the 500 reply of its outer
  \<^verbatim>\<open>catch (audioError)\<close>, or the 200 reply without audio.
\<close>

theorem voice_stage_outcome:
  "fst (voice_stage identity urls w) = Inr (json_error 500 ''Failed to generate voiceover. Please try again.'')
   \<or> fst (voice_stage identity urls w) =
       Inr (no_audio_response identity urls ''ElevenLabs API error. Please try again.'')"
  by (auto simp: voice_stage_def js_simps synthesize_voiceover_eq split: prod.splits sum.splits)

text \<open>The classifications of the example personalities: friendly and casual (in any case), bold and energetic, warm and welcoming.\<close>

lemma personality_category_examples:
  "personality_category (JObj [(''brandPersonality'', JStr ''Friendly and Casual'')]) = Inr Friendly \<and>
   personality_category (JObj [(''brandPersonality'', JStr ''bold and energetic'')]) = Inr Energetic \<and>
   personality_category (JObj [(''brandPersonality'', JStr ''warm, welcoming'')]) = Inr Warm \<and>
   personality_category (JObj [(''brandPersonality'', JStr '''')]) = Inr Professional \<and>
   personality_category (JObj []) = Inr Professional"
  by (simp add: personality_category_def brand_personality_def classify_personality_def
      js_lower_def js_lower_char_def char_of_eq_iff)


subsection \<open>Witnesses\<close>

theorem select_voice_choice_witness:
  "select_voice Friendly (JArr [bella]) = Inr bella \<and>
   select_voice Professional (JArr [bella]) = Inr bella \<and>
   select_voice Professional (JArr [JNum 0, bella]) = Inl (Error ''No suitable voice found in ElevenLabs'') \<and>
   select_voice Warm (JArr []) = Inl (Error ''No suitable voice found in ElevenLabs'')"
  using select_voice_choice [of "[bella]" Friendly] select_voice_choice [of "[bella]" Professional]
    select_voice_choice [of "[JNum 0, bella]" Professional] select_voice_choice [of "[]" Warm]
  by (simp add: bella_def voice_matches_def js_get_def nullish_def)

theorem voice_stage_catalog_error_witness:
  "voice_stage sample_identity [] (quiet_world\<lparr>voices_queue := [JsonResponse 401 JNull]\<rparr>) =
     (Inr (json_error 500 ''Failed to generate voiceover. Please try again.''),
      quiet_world\<lparr>calls := [VoicesCall]\<rparr>)"
  using voice_stage_catalog_error [of "quiet_world\<lparr>voices_queue := [JsonResponse 401 JNull]\<rparr>"
      401 JNull "[]" sample_identity "[]"]
  by (simp add: success_status_def quiet_world_def)

theorem voice_stage_healthy_catalog_witness:
  "voice_stage sample_identity [JStr ''u1'', JStr ''u2'']
      (quiet_world\<lparr>voices_queue := [JsonResponse 200 (JObj [(''voices'', JArr [bella])])]\<rparr>) =
     (Inr (no_audio_response sample_identity [JStr ''u1'', JStr ''u2'']
             ''ElevenLabs API error. Please try again.''),
      quiet_world\<lparr>calls := [VoicesCall,
        TtsCall (tts_base @ ''EXAVITQu4vr4xnSDxMaL'' @ ''/stream'') (JStr ''Smart choices'')
          ''eleven_multilingual_v2'' primary_settings]\<rparr>)"
proof -
  let ?w = "quiet_world\<lparr>voices_queue := [JsonResponse 200 (JObj [(''voices'', JArr [bella])])]\<rparr>"
  have c: "catalog_voices (JObj [(''voices'', JArr [bella])]) = Inr (JArr [bella])"
    by (simp add: catalog_voices_def)
  have p: "personality_category sample_identity = Inr Friendly"
    by (simp add: personality_category_def brand_personality_def classify_personality_def
        sample_identity_def js_lower_def js_lower_char_def char_of_eq_iff)
  have v: "select_voice Friendly (JArr [bella]) = Inr bella"
    by (simp add: select_voice_def voice_matches_def js_get_def bella_def Let_def)
  show ?thesis
    using voice_stage_healthy_catalog [of ?w 200 _ "[]", OF _ _ c p v]
    by (simp add: success_status_def quiet_world_def bella_def sample_identity_def)
qed

end
