(* ===== verification/Json.thy ===== *)
theory Json
  imports Js_Base
begin

text \<open>
  \<^verbatim>\<open>JSON.parse\<close> and \<^verbatim>\<open>JSON.stringify\<close> on the model's values. The backend
  parses the cleaned Gemini replies with \<^verbatim>\<open>JSON.parse\<close> (server.js lines 556 and 849) and
  Express's \<^verbatim>\<open>res.json\<close> serialises every reply with \<^verbatim>\<open>JSON.stringify\<close>; both
  are library code, modelled from the ECMAScript specification. Numbers are the integers of
  \<open>jsval\<close>: a fraction or an exponent is a syntax error of the model, where
  \<^verbatim>\<open>JSON.parse\<close> accepts it. No theorem relies on that restriction: those that
  assume a failed parse assume a text that does not begin like a JSON value
  (\<open>json_start\<close>), which both refuse. The parser is a
  recursive descent with fuel (\<open>parse_value\<close>, \<open>parse_elems\<close>, \<open>parse_members\<close>);
  \<open>json_parse\<close> gives it \<open>2 * length s + 1\<close>, which is enough because every level of
  nesting and every element consumes at least one character.

  Lemmas: numerals read back (\<open>parse_number_int_str\<close>), escaped strings read back
  (\<open>parse_chars_quote\<close>), the round trip \<open>json_parse (json_stringify v) = Inr v\<close> for every
  value without \<^verbatim>\<open>undefined\<close>, and that more fuel never changes a successful parse.
\<close>

section \<open>Parsing\<close>

definition json_ws :: "char \<Rightarrow> bool" where
  "json_ws c \<longleftrightarrow> c \<in> {CHR 0x09, CHR 0x0A, CHR 0x0D, CHR 0x20}"

definition skip_ws :: "string \<Rightarrow> string" where
  "skip_ws s = dropWhile json_ws s"

definition is_digit :: "char \<Rightarrow> bool" where
  "is_digit c \<longleftrightarrow> 48 \<le> (of_char c :: nat) \<and> (of_char c :: nat) \<le> 57"

definition hex_val :: "char \<Rightarrow> nat option" where
  "hex_val c =
     (let k = (of_char c :: nat) in
      if 48 \<le> k \<and> k \<le> 57 then Some (k - 48)
      else if 97 \<le> k \<and> k \<le> 102 then Some (k - 87)
      else if 65 \<le> k \<and> k \<le> 70 then Some (k - 55) else None)"

fun hex4 :: "string \<Rightarrow> nat option" where
  "hex4 [a, b, c, d] =
     (case (hex_val a, hex_val b, hex_val c, hex_val d) of
        (Some w, Some x, Some y, Some z) \<Rightarrow> Some (((w * 16 + x) * 16 + y) * 16 + z)
      | _ \<Rightarrow> None)"
| "hex4 _ = None"

fun escape_val :: "char \<Rightarrow> char option" where
  "escape_val c =
     (if c = CHR 0x22 then Some (CHR 0x22) else if c = CHR 0x5C then Some (CHR 0x5C)
      else if c = CHR ''/'' then Some (CHR ''/'') else if c = CHR ''b'' then Some (CHR 0x08)
      else if c = CHR ''f'' then Some (CHR 0x0C) else if c = CHR ''n'' then Some (CHR 0x0A)
      else if c = CHR ''r'' then Some (CHR 0x0D) else if c = CHR ''t'' then Some (CHR 0x09)
      else None)"

function parse_chars :: "string \<Rightarrow> string \<Rightarrow> (string \<times> string) option" where
  "parse_chars acc [] = None"
| "parse_chars acc (c # cs) =
     (if c = CHR 0x22 then Some (rev acc, cs)
      else if c = CHR 0x5C then
        (case cs of
           [] \<Rightarrow> None
         | e # rest \<Rightarrow>
             (case escape_val e of
                Some d \<Rightarrow> parse_chars (d # acc) rest
              | None \<Rightarrow>
                  if e = CHR ''u'' then
                    (case hex4 (take 4 rest) of
                       Some n \<Rightarrow> if n < 256 then parse_chars (char_of n # acc) (drop 4 rest) else None
                     | None \<Rightarrow> None)
                  else None))
      else if (of_char c :: nat) < 32 then None
      else parse_chars (c # acc) cs)"
  by pat_completeness auto
termination by (relation "measure (\<lambda>(acc, s). length s)") auto

definition digits_int :: "string \<Rightarrow> int" where
  "digits_int ds = int (digits_val ds)"

definition parse_number :: "string \<Rightarrow> (jsval \<times> string) option" where
  "parse_number s =
     (let neg = (s \<noteq> [] \<and> hd s = CHR ''-'');
          s1 = (if neg then tl s else s);
          ds = takeWhile is_digit s1
      in if ds = [] \<or> (hd ds = CHR ''0'' \<and> length ds > 1) then None
         else Some (JNum (if neg then - digits_int ds else digits_int ds), dropWhile is_digit s1))"

fun parse_value :: "nat \<Rightarrow> string \<Rightarrow> (jsval \<times> string) option"
and parse_elems :: "nat \<Rightarrow> jsval list \<Rightarrow> string \<Rightarrow> (jsval list \<times> string) option"
and parse_members :: "nat \<Rightarrow> (string \<times> jsval) list \<Rightarrow> string \<Rightarrow> ((string \<times> jsval) list \<times> string) option"
where
  "parse_value 0 s = None"
| "parse_value (Suc n) s =
     (case skip_ws s of
        [] \<Rightarrow> None
      | c # r \<Rightarrow>
          if c = CHR ''['' then
            (case skip_ws r of
               d # r' \<Rightarrow> if d = CHR '']'' then Some (JArr [], r') else map_option (\<lambda>(vs, r''). (JArr vs, r'')) (parse_elems n [] r)
             | [] \<Rightarrow> None)
          else if c = CHR ''{'' then
            (case skip_ws r of
               d # r' \<Rightarrow> if d = CHR ''}'' then Some (JObj [], r') else map_option (\<lambda>(kvs, r''). (JObj kvs, r'')) (parse_members n [] r)
             | [] \<Rightarrow> None)
          else if c = CHR 0x22 then
            (case parse_chars [] r of Some (t, r') \<Rightarrow> Some (JStr t, r') | None \<Rightarrow> None)
          else if starts_with (c # r) ''true'' then Some (JBool True, drop 4 (c # r))
          else if starts_with (c # r) ''false'' then Some (JBool False, drop 5 (c # r))
          else if starts_with (c # r) ''null'' then Some (JNull, drop 4 (c # r))
          else parse_number (c # r))"
| "parse_elems 0 acc s = None"
| "parse_elems (Suc n) acc s =
     (case parse_value n s of
        None \<Rightarrow> None
      | Some (v, r) \<Rightarrow>
          (case skip_ws r of
             d # r' \<Rightarrow>
               if d = CHR '','' then parse_elems n (v # acc) r'
               else if d = CHR '']'' then Some (rev (v # acc), r') else None
           | [] \<Rightarrow> None))"
| "parse_members 0 acc s = None"
| "parse_members (Suc n) acc s =
     (case skip_ws s of
        c # r \<Rightarrow>
          if c \<noteq> CHR 0x22 then None
          else
            (case parse_chars [] r of
               None \<Rightarrow> None
             | Some (k, r1) \<Rightarrow>
                 (case skip_ws r1 of
                    d # r2 \<Rightarrow>
                      if d \<noteq> CHR '':'' then None
                      else
                        (case parse_value n r2 of
                           None \<Rightarrow> None
                         | Some (v, r3) \<Rightarrow>
                             (case skip_ws r3 of
                                e # r4 \<Rightarrow>
                                  if e = CHR '','' then parse_members n ((k, v) # acc) r4
                                  else if e = CHR ''}'' then Some (rev ((k, v) # acc), r4) else None
                              | [] \<Rightarrow> None))
                  | [] \<Rightarrow> None))
      | [] \<Rightarrow> None)"

definition json_parse :: "string \<Rightarrow> exn + jsval" where
  "json_parse s =
     (case parse_value (Suc (2 * length s)) s of
        Some (v, r) \<Rightarrow> if skip_ws r = [] then Inr v else Inl (SyntaxError ''Unexpected non-whitespace character after JSON'')
      | None \<Rightarrow> Inl (SyntaxError ''Unexpected token''))"


text \<open>The characters a JSON text can begin with, after blanks (ECMA-404): those of an
  object, an array, a string, \<^verbatim>\<open>true\<close>, \<^verbatim>\<open>false\<close>, \<^verbatim>\<open>null\<close> or a number.
  A text beginning otherwise is refused by \<^verbatim>\<open>JSON.parse\<close>, whatever follows; the
  model refuses it too (\<open>json_parse_bad_start\<close>), so a theorem assuming such a text
  makes no use of the model's restriction to integers.\<close>

definition json_start :: "char \<Rightarrow> bool" where
  "json_start c \<longleftrightarrow>
     c \<in> {CHR ''{'', CHR ''['', CHR 0x22, CHR ''t'', CHR ''f'', CHR ''n'', CHR ''-''} \<or> is_digit c"

section \<open>Serialising\<close>

definition hex_digit :: "nat \<Rightarrow> char" where
  "hex_digit d = char_of (if d < 10 then 48 + d else 87 + d)"

definition esc_char :: "char \<Rightarrow> string" where
  "esc_char c =
     (if c = CHR 0x22 then [CHR 0x5C, CHR 0x22]
      else if c = CHR 0x5C then [CHR 0x5C, CHR 0x5C]
      else if c = CHR 0x08 then [CHR 0x5C, CHR ''b'']
      else if c = CHR 0x0C then [CHR 0x5C, CHR ''f'']
      else if c = CHR 0x0A then [CHR 0x5C, CHR ''n'']
      else if c = CHR 0x0D then [CHR 0x5C, CHR ''r'']
      else if c = CHR 0x09 then [CHR 0x5C, CHR ''t'']
      else if (of_char c :: nat) < 32 then
        [CHR 0x5C, CHR ''u'', CHR ''0'', CHR ''0'', hex_digit (of_char c div 16), hex_digit (of_char c mod 16)]
      else [c])"

definition quote :: "string \<Rightarrow> string" where
  "quote s = CHR 0x22 # concat (map esc_char s) @ [CHR 0x22]"

fun json_stringify :: "jsval \<Rightarrow> string" where
  "json_stringify JUndef = ''null''"
| "json_stringify JNull = ''null''"
| "json_stringify (JBool b) = (if b then ''true'' else ''false'')"
| "json_stringify (JNum i) = int_str i"
| "json_stringify (JStr s) = quote s"
| "json_stringify (JArr vs) = ''['' @ join_with '','' (map json_stringify vs) @ '']''"
| "json_stringify (JObj kvs) =
     ''{'' @ join_with '','' (map (\<lambda>kv. quote (fst kv) @ '':'' @ json_stringify (snd kv))
                               (filter (\<lambda>kv. snd kv \<noteq> JUndef) kvs)) @ ''}''"

fun json_value :: "jsval \<Rightarrow> bool" where
  "json_value JUndef = False"
| "json_value (JArr vs) = (\<forall>v \<in> set vs. json_value v)"
| "json_value (JObj kvs) = (\<forall>kv \<in> set kvs. json_value (snd kv))"
| "json_value _ = True"

fun json_fuel :: "jsval \<Rightarrow> nat" where
  "json_fuel (JArr vs) = Suc (sum_list (map (\<lambda>v. Suc (json_fuel v)) vs))"
| "json_fuel (JObj kvs) = Suc (sum_list (map (\<lambda>kv. Suc (json_fuel (snd kv))) kvs))"
| "json_fuel _ = 0"

text \<open>The value \<^verbatim>\<open>JSON.parse(JSON.stringify(v))\<close> gives back: \<^verbatim>\<open>undefined\<close> members
  dropped, \<^verbatim>\<open>undefined\<close> elsewhere read as \<^verbatim>\<open>null\<close>.\<close>

fun json_normalize :: "jsval \<Rightarrow> jsval" where
  "json_normalize JUndef = JNull"
| "json_normalize (JArr vs) = JArr (map json_normalize vs)"
| "json_normalize (JObj kvs) =
     JObj (map (\<lambda>kv. (fst kv, json_normalize (snd kv))) (filter (\<lambda>kv. snd kv \<noteq> JUndef) kvs))"
| "json_normalize v = v"

section \<open>Lemmas\<close>

lemma json_parse_example_array: "json_parse ''[1, -20, true, null, []]'' =
  Inr (JArr [JNum 1, JNum (-20), JBool True, JNull, JArr []])"
  by code_simp

lemma json_parse_example_escape: "json_parse ([CHR 0x22] @ ''ab'' @ [CHR 0x5C, CHR ''n'', CHR 0x22]) = Inr (JStr ''ab\<newline>'')"
  by code_simp

lemma json_parse_rejects_leading_zero: "json_parse (''{'' @ [CHR 0x22] @ ''k'' @ [CHR 0x22] @ '': 01}'') = Inl (SyntaxError ''Unexpected token'')"
  by code_simp


lemma is_digit_char: "(n::nat) < 10 \<Longrightarrow> is_digit (char_of (48 + n))"
  by (simp add: is_digit_def of_char_of)

lemma nat_str_digits: "\<forall>c \<in> set (nat_str n). is_digit c"
  by (induction n rule: nat_str.induct) (subst nat_str.simps, simp add: is_digit_char)

lemma nat_str_ne: "nat_str n \<noteq> []"
  by (subst nat_str.simps) simp

lemma nat_str_hd: "hd (nat_str n) = CHR ''0'' \<Longrightarrow> n = 0"
proof (induction n rule: nat_str.induct)
  case (1 n)
  show ?case
  proof (cases "n < 10")
    case True
    then have "char_of (48 + n) = CHR ''0''" using "1.prems" by (subst (asm) nat_str.simps) simp
    then have "of_char (char_of (48 + n) :: char) = (of_char (CHR ''0'') :: nat)" by simp
    then show ?thesis using True by (simp add: of_char_of)
  next
    case False
    then have "hd (nat_str (n div 10)) = CHR ''0''"
      using "1.prems" nat_str_ne [of "n div 10"] by (subst (asm) nat_str.simps) simp
    then have "n div 10 = 0" using "1.IH" False by blast
    then show ?thesis using False by simp
  qed
qed

lemma nat_str_zero: "nat_str 0 = ''0''"
  by (subst nat_str.simps) (simp add: char_of_eq_iff)

lemma nat_str_long: "1 < length (nat_str n) \<Longrightarrow> hd (nat_str n) \<noteq> CHR ''0''"
  using nat_str_hd [of n] by (auto simp: nat_str_zero)

lemma dropWhile_stop: "ys = [] \<or> \<not> P (hd ys) \<Longrightarrow> dropWhile P ys = ys"
  by (cases ys) auto

lemma takeWhile_stop2: "ys = [] \<or> \<not> P (hd ys) \<Longrightarrow> takeWhile P ys = []"
  by (cases ys) auto

lemma takeWhile_all_then_stop:
  "\<forall>c \<in> set xs. P c \<Longrightarrow> ys = [] \<or> \<not> P (hd ys) \<Longrightarrow> takeWhile P (xs @ ys) = xs"
  by (simp add: takeWhile_append2 takeWhile_stop2)

lemma dropWhile_all_then_stop:
  "\<forall>c \<in> set xs. P c \<Longrightarrow> ys = [] \<or> \<not> P (hd ys) \<Longrightarrow> dropWhile P (xs @ ys) = ys"
  by (simp add: dropWhile_append2 dropWhile_stop)

lemma nat_str_not_minus: "hd (nat_str k) \<noteq> CHR ''-''"
proof
  assume "hd (nat_str k) = CHR ''-''"
  moreover have "is_digit (hd (nat_str k))" using nat_str_digits [of k] nat_str_ne [of k] by simp
  ultimately show False by (simp add: is_digit_def)
qed

lemma parse_value_bad_start:
  assumes "skip_ws s = [] \<or> \<not> json_start (hd (skip_ws s))"
  shows "parse_value n s = None"
proof (cases n)
  case (Suc m)
  show ?thesis
  proof (cases "skip_ws s")
    case (Cons c r)
    then have c: "\<not> json_start c" using assms by simp
    then have "\<not> starts_with (c # r) ''true'' \<and> \<not> starts_with (c # r) ''false'' \<and>
               \<not> starts_with (c # r) ''null''" by (auto simp: json_start_def)
    moreover have "parse_number (c # r) = None" using c by (simp add: parse_number_def json_start_def)
    ultimately show ?thesis using Suc Cons c by (simp add: json_start_def)
  qed (simp add: Suc)
qed simp

lemma json_parse_bad_start:
  "skip_ws s = [] \<or> \<not> json_start (hd (skip_ws s)) \<Longrightarrow> json_parse s = Inl (SyntaxError ''Unexpected token'')"
  using parse_value_bad_start [of s "Suc (2 * length s)"] by (simp add: json_parse_def del: parse_value.simps)

lemma parse_number_nat_str:
  assumes "rest = [] \<or> \<not> is_digit (hd rest)"
  shows "takeWhile is_digit (nat_str m @ rest) = nat_str m"
    and "dropWhile is_digit (nat_str m @ rest) = rest"
  using takeWhile_all_then_stop [OF nat_str_digits assms] dropWhile_all_then_stop [OF nat_str_digits assms]
  by auto

lemma nat_str_no_leading_zero:
  "\<not> (nat_str m = [] \<or> (hd (nat_str m) = CHR ''0'' \<and> 1 < length (nat_str m)))"
  using nat_str_ne [of m] nat_str_long [of m] by blast

lemma parse_number_nat:
  assumes "rest = [] \<or> \<not> is_digit (hd rest)" "s = [] \<or> hd s \<noteq> CHR ''-''"
    and "s = nat_str m @ rest"
  shows "parse_number s = Some (JNum (int m), rest)"
proof -
  have "\<not> (s \<noteq> [] \<and> hd s = CHR ''-'')" using assms(2) by blast
  then show ?thesis unfolding parse_number_def Let_def
    using parse_number_nat_str [OF assms(1), of m] nat_str_no_leading_zero [of m]
    by (simp only: assms(3) if_False digits_int_def digits_val_nat_str)
qed

lemma parse_number_int_str:
  assumes "rest = [] \<or> \<not> is_digit (hd rest)"
  shows "parse_number (int_str i @ rest) = Some (JNum i, rest)"
proof (cases "i < 0")
  case True
  have eq: "int_str i @ rest = CHR ''-'' # (nat_str (nat (- i)) @ rest)" by (simp add: int_str_def True)
  show ?thesis unfolding eq parse_number_def Let_def
    using parse_number_nat_str [OF assms, of "nat (- i)"] nat_str_no_leading_zero [of "nat (- i)"] True
    by (simp add: digits_int_def digits_val_nat_str)
next
  case False
  have eq: "int_str i @ rest = nat_str (nat i) @ rest" by (simp add: int_str_def False)
  have "parse_number (nat_str (nat i) @ rest) = Some (JNum (int (nat i)), rest)"
    by (rule parse_number_nat [OF assms _ refl]) (simp add: nat_str_not_minus nat_str_ne hd_append)
  then show ?thesis using False by (simp add: eq)
qed


lemma hex_val_digit: "d < 16 \<Longrightarrow> hex_val (hex_digit d) = Some d"
  by (simp add: hex_val_def hex_digit_def of_char_of Let_def)

lemma escape_val_u: "escape_val (CHR ''u'') = None"
  by simp

lemma parse_chars_esc: "parse_chars acc (esc_char c @ rest) = parse_chars (c # acc) rest"
proof -
  consider "c = CHR 0x22" | "c = CHR 0x5C" | "c = CHR 0x08" | "c = CHR 0x0C" | "c = CHR 0x0A"
    | "c = CHR 0x0D" | "c = CHR 0x09"
    | "c \<notin> {CHR 0x22, CHR 0x5C, CHR 0x08, CHR 0x0C, CHR 0x0A, CHR 0x0D, CHR 0x09}" "(of_char c :: nat) < 32"
    | "c \<notin> {CHR 0x22, CHR 0x5C}" "\<not> (of_char c :: nat) < 32"
    by fastforce
  then show ?thesis
  proof cases
    case 8
    let ?k = "of_char c :: nat"
    have h: "hex4 [CHR ''0'', CHR ''0'', hex_digit (?k div 16), hex_digit (?k mod 16)] = Some ?k"
      using 8(2) by (simp add: hex_val_digit) (simp add: hex_val_def)
    show ?thesis using 8 h by (simp add: esc_char_def)
  next
    case 9
    then show ?thesis by (auto simp: esc_char_def)
  qed (simp_all add: esc_char_def)
qed

lemma parse_chars_quote:
  "parse_chars acc (concat (map esc_char s) @ CHR 0x22 # rest) = Some (rev acc @ s, rest)"
  by (induction s arbitrary: acc) (simp_all add: parse_chars_esc)


lemma int_str_start: "int_str i \<noteq> [] \<and> (hd (int_str i) = CHR ''-'' \<or> is_digit (hd (int_str i)))"
  using nat_str_digits [of "nat i"] nat_str_ne [of "nat i"] hd_in_set [of "nat_str (nat i)"]
  by (simp add: int_str_def)

lemma digit_not_special: "is_digit c \<Longrightarrow> c \<notin> {CHR ''['', CHR ''{'', CHR 0x22, CHR ''t'', CHR ''f'', CHR ''n'', CHR '']'', CHR ''}''}"
  by (auto simp: is_digit_def)

lemma digit_not_ws: "is_digit c \<Longrightarrow> \<not> json_ws c"
  by (auto simp: is_digit_def json_ws_def)

lemma stringify_start: "json_stringify v \<noteq> [] \<and> \<not> json_ws (hd (json_stringify v))"
proof (cases v)
  case (JNum i)
  then show ?thesis using int_str_start [of i] digit_not_ws [of "hd (int_str i)"] by (auto simp: json_ws_def)
qed (auto simp: json_ws_def quote_def)

lemma skip_ws_stringify [simp]: "skip_ws (json_stringify v @ rest) = json_stringify v @ rest"
  using stringify_start [of v] by (cases "json_stringify v") (simp_all add: skip_ws_def)

lemma skip_ws_punct [simp]:
  "skip_ws (CHR '','' # r) = CHR '','' # r" "skip_ws (CHR '']'' # r) = CHR '']'' # r"
  "skip_ws (CHR ''}'' # r) = CHR ''}'' # r" "skip_ws (CHR '':'' # r) = CHR '':'' # r"
  "skip_ws (CHR 0x22 # r) = CHR 0x22 # r"
  by (simp_all add: skip_ws_def json_ws_def)

lemma punct_not_digit [simp]:
  "\<not> is_digit (CHR '','')" "\<not> is_digit (CHR '']'')" "\<not> is_digit (CHR ''}'')"
  by (simp_all add: is_digit_def)

lemma parse_elems_join:
  assumes "vs \<noteq> []"
    and "\<forall>v \<in> set vs. \<forall>n rest. json_fuel v < n \<longrightarrow> (rest = [] \<or> \<not> is_digit (hd rest)) \<longrightarrow>
           parse_value n (json_stringify v @ rest) = Some (v, rest)"
    and "sum_list (map (\<lambda>v. Suc (json_fuel v)) vs) < m"
  shows "parse_elems m acc (join_with '','' (map json_stringify vs) @ CHR '']'' # rest) = Some (rev acc @ vs, rest)"
  using assms
proof (induction vs arbitrary: acc m)
  case Nil
  then show ?case by simp
next
  case (Cons v vs)
  obtain m' where m: "m = Suc m'" using Cons.prems(3) by (cases m) auto
  have fuel: "json_fuel v < m'" using Cons.prems(3) m by simp
  have hv: "parse_value m' (json_stringify v @ d # r) = Some (v, d # r)" if "\<not> is_digit d" for d r
    using Cons.prems(2) fuel that by simp
  show ?case
  proof (cases "vs = []")
    case True
    then show ?thesis using m hv [of "CHR '']''" rest] by simp
  next
    case False
    have "parse_elems m' (v # acc) (join_with '','' (map json_stringify vs) @ CHR '']'' # rest)
          = Some (rev (v # acc) @ vs, rest)"
      using Cons.IH Cons.prems m False by simp
    then show ?thesis
      using m False hv [of "CHR '',''" "join_with '','' (map json_stringify vs) @ CHR '']'' # rest"]
      by (cases vs) simp_all
  qed
qed

lemma quote_append: "quote k @ x = CHR 0x22 # concat (map esc_char k) @ CHR 0x22 # x"
  by (simp add: quote_def)

lemma parse_members_join:
  assumes "kvs \<noteq> []"
    and "\<forall>kv \<in> set kvs. \<forall>n rest. json_fuel (snd kv) < n \<longrightarrow> (rest = [] \<or> \<not> is_digit (hd rest)) \<longrightarrow>
           parse_value n (json_stringify (snd kv) @ rest) = Some (snd kv, rest)"
    and "sum_list (map (\<lambda>kv. Suc (json_fuel (snd kv))) kvs) < m"
  shows "parse_members m acc
           (join_with '','' (map (\<lambda>kv. quote (fst kv) @ '':'' @ json_stringify (snd kv)) kvs) @ CHR ''}'' # rest)
         = Some (rev acc @ kvs, rest)"
  using assms
proof (induction kvs arbitrary: acc m)
  case Nil
  then show ?case by simp
next
  case (Cons kv kvs)
  obtain k v where kv: "kv = (k, v)" by (cases kv)
  obtain m' where m: "m = Suc m'" using Cons.prems(3) by (cases m) auto
  have fuel: "json_fuel v < m'" using Cons.prems(3) m kv by simp
  have hv: "parse_value m' (json_stringify v @ d # r) = Some (v, d # r)" if "\<not> is_digit d" for d r
    using Cons.prems(2) fuel that kv by simp
  have step: "parse_members (Suc m') acc (quote k @ CHR '':'' # json_stringify v @ d # r) =
      (if d = CHR '','' then parse_members m' ((k, v) # acc) r
       else if d = CHR ''}'' then Some (rev ((k, v) # acc), r) else None)"
    if "d = CHR '','' \<or> d = CHR ''}''" for d r
    using hv [of d r] that by (auto simp: quote_append parse_chars_quote)
  show ?case
  proof (cases "kvs = []")
    case True
    then show ?thesis using m kv step [of "CHR ''}''" rest] by simp
  next
    case False
    have "parse_members m' ((k, v) # acc)
            (join_with '','' (map (\<lambda>kv. quote (fst kv) @ '':'' @ json_stringify (snd kv)) kvs) @ CHR ''}'' # rest)
          = Some (rev ((k, v) # acc) @ kvs, rest)"
      using Cons.IH Cons.prems m False by simp
    then show ?thesis
      using m False kv step [of "CHR '',''"] by (cases kvs) simp_all
  qed
qed

lemma stringify_hd:
  "json_stringify v = c # r \<Longrightarrow> \<not> json_ws c \<and> c \<noteq> CHR '']'' \<and> c \<noteq> CHR ''}''"
proof (cases v)
  case (JNum i)
  moreover assume "json_stringify v = c # r"
  ultimately have "c = CHR ''-'' \<or> is_digit c" using int_str_start [of i] by auto
  then show ?thesis
  proof
    assume "is_digit c"
    then show ?thesis using digit_not_ws [of c] digit_not_special [of c] by simp
  qed (simp add: json_ws_def)
qed (auto simp: json_ws_def quote_def split: if_splits)

lemma join_stringify_cons:
  "vs \<noteq> [] \<Longrightarrow> \<exists>c r. join_with '','' (map json_stringify vs) @ x = c # r \<and> \<not> json_ws c \<and> c \<noteq> CHR '']''"
proof -
  assume "vs \<noteq> []"
  then obtain v ws where vs: "vs = v # ws" by (cases vs) auto
  obtain c r where "json_stringify v = c # r" using stringify_start [of v] by (cases "json_stringify v") auto
  then show ?thesis using stringify_hd [of v c r] vs by (cases ws) auto
qed

lemma join_quote_cons:
  "kvs \<noteq> [] \<Longrightarrow> \<exists>r. join_with '','' (map (\<lambda>kv. quote (fst kv) @ '':'' @ json_stringify (snd kv)) kvs) @ x = CHR 0x22 # r"
  by (cases kvs rule: remdups_adj.cases) (auto simp: quote_def)

lemma parse_value_number:
  assumes "c = CHR ''-'' \<or> is_digit c"
  shows "parse_value (Suc m) (c # r) = parse_number (c # r)"
proof -
  have "\<not> json_ws c \<and> c \<notin> {CHR ''['', CHR ''{'', CHR 0x22, CHR ''t'', CHR ''f'', CHR ''n''}"
    using assms
  proof
    assume "is_digit c"
    then show ?thesis using digit_not_special [of c] digit_not_ws [of c] by simp
  qed (simp add: json_ws_def)
  then show ?thesis by (simp add: skip_ws_def)
qed

lemma parse_value_stringify:
  "json_value v \<Longrightarrow> json_fuel v < n \<Longrightarrow> rest = [] \<or> \<not> is_digit (hd rest) \<Longrightarrow>
   parse_value n (json_stringify v @ rest) = Some (v, rest)"
proof (induction v arbitrary: n rest)
  case JUndef
  then show ?case by simp
next
  case JNull
  then show ?case by (cases n) (simp_all add: skip_ws_def json_ws_def)
next
  case (JBool b)
  then show ?case by (cases n) (simp_all add: skip_ws_def json_ws_def)
next
  case (JNum i)
  obtain m where n: "n = Suc m" using JNum.prems(2) by (cases n) auto
  obtain c r where eq: "int_str i @ rest = c # r" using int_str_start [of i] by (cases "int_str i") auto
  have c: "c = CHR ''-'' \<or> is_digit c" using int_str_start [of i] eq by (cases "int_str i") auto
  show ?case using parse_number_int_str [OF JNum.prems(3), of i] parse_value_number [OF c, of m r] n eq
    by simp
next
  case (JStr s)
  then show ?case by (cases n) (simp_all add: quote_def skip_ws_def json_ws_def parse_chars_quote)
next
  case (JArr vs)
  obtain m where n: "n = Suc m" using JArr.prems(2) by (cases n) auto
  show ?case
  proof (cases "vs = []")
    case True
    then show ?thesis using n by (simp add: skip_ws_def json_ws_def)
  next
    case False
    have ih: "\<forall>v \<in> set vs. \<forall>n rest. json_fuel v < n \<longrightarrow> (rest = [] \<or> \<not> is_digit (hd rest)) \<longrightarrow>
           parse_value n (json_stringify v @ rest) = Some (v, rest)"
      using JArr.IH JArr.prems(1) by simp
    have E: "parse_elems m [] (join_with '','' (map json_stringify vs) @ CHR '']'' # rest) = Some (vs, rest)"
      using parse_elems_join [OF False ih, of m "[]" rest] JArr.prems(2) n by simp
    obtain c r where eq: "join_with '','' (map json_stringify vs) @ CHR '']'' # rest = c # r"
      and c: "\<not> json_ws c" "c \<noteq> CHR '']''" using join_stringify_cons [OF False] by blast
    show ?thesis using E c n by (simp add: eq skip_ws_def json_ws_def)
  qed
next
  case (JObj kvs)
  obtain m where n: "n = Suc m" using JObj.prems(2) by (cases n) auto
  have filt: "filter (\<lambda>kv. snd kv \<noteq> JUndef) kvs = kvs"
    using JObj.prems(1) by (intro filter_True) auto
  show ?case
  proof (cases "kvs = []")
    case True
    then show ?thesis using n by (simp add: skip_ws_def json_ws_def)
  next
    case False
    have ih: "\<forall>kv \<in> set kvs. \<forall>n rest. json_fuel (snd kv) < n \<longrightarrow> (rest = [] \<or> \<not> is_digit (hd rest)) \<longrightarrow>
           parse_value n (json_stringify (snd kv) @ rest) = Some (snd kv, rest)"
    proof (intro ballI allI impI)
      fix kv n' rest'
      assume kv: "kv \<in> set kvs" and f: "json_fuel (snd kv) < n'" and r: "rest' = [] \<or> \<not> is_digit (hd rest')"
      have "snd kv \<in> Basic_BNFs.snds kv" by (simp add: prod_set_defs)
      moreover have "json_value (snd kv)" using JObj.prems(1) kv by simp
      ultimately show "parse_value n' (json_stringify (snd kv) @ rest') = Some (snd kv, rest')"
        using JObj.IH [OF kv] f r by blast
    qed
    have E: "parse_members m []
        (join_with '','' (map (\<lambda>kv. quote (fst kv) @ '':'' @ json_stringify (snd kv)) kvs) @ CHR ''}'' # rest)
        = Some (kvs, rest)"
      using parse_members_join [OF False ih, of m "[]" rest] JObj.prems(2) n by simp
    obtain r where eq: "join_with '','' (map (\<lambda>kv. quote (fst kv) @ '':'' @ json_stringify (snd kv)) kvs) @ CHR ''}'' # rest
        = CHR 0x22 # r" using join_quote_cons [OF False] by blast
    have eq': "join_with '','' (map (\<lambda>kv. quote (fst kv) @ CHR '':'' # json_stringify (snd kv)) kvs) @ CHR ''}'' # rest
        = CHR 0x22 # r" using eq by simp
    show ?thesis using E n filt by (simp add: eq' skip_ws_def json_ws_def)
  qed
qed

lemma join_with_length:
  "sum_list (map length xs) + length xs \<le> length (join_with (c # cs) xs) + 1"
  by (induction "c # cs" xs rule: join_with.induct) auto

lemma json_fuel_length: "json_value v \<Longrightarrow> json_fuel v \<le> length (json_stringify v)"
proof (induction v)
  case (JArr vs)
  have "sum_list (map (\<lambda>v. Suc (json_fuel v)) vs) \<le> sum_list (map (\<lambda>v. Suc (length (json_stringify v))) vs)"
    using JArr by (intro sum_list_mono) auto
  also have "\<dots> = sum_list (map length (map json_stringify vs)) + length (map json_stringify vs)"
    by (induction vs) auto
  also have "\<dots> \<le> length (join_with '','' (map json_stringify vs)) + 1" by (rule join_with_length)
  finally show ?case by simp
next
  case (JObj kvs)
  let ?f = "\<lambda>kv. quote (fst kv) @ '':'' @ json_stringify (snd kv)"
  have filt: "filter (\<lambda>kv. snd kv \<noteq> JUndef) kvs = kvs"
    using JObj.prems by (intro filter_True) auto
  have "sum_list (map (\<lambda>kv. Suc (json_fuel (snd kv))) kvs) \<le> sum_list (map (\<lambda>kv. Suc (length (?f kv))) kvs)"
  proof (intro sum_list_mono)
    fix kv assume kv: "kv \<in> set kvs"
    have "snd kv \<in> Basic_BNFs.snds kv" by (simp add: prod_set_defs)
    then have "json_fuel (snd kv) \<le> length (json_stringify (snd kv))" using JObj kv by simp
    then show "Suc (json_fuel (snd kv)) \<le> Suc (length (?f kv))" by simp
  qed
  also have "\<dots> = sum_list (map length (map ?f kvs)) + length (map ?f kvs)"
    by (induction kvs) auto
  also have "\<dots> \<le> length (join_with '','' (map ?f kvs)) + 1" by (rule join_with_length)
  finally show ?case using filt by simp
qed (simp_all add: quote_def)

lemma digit_not_js_space: "is_digit c \<Longrightarrow> \<not> js_space c"
  by (auto simp: is_digit_def js_space_def)

lemma nat_str_last: "is_digit (last (nat_str n))"
  by (subst nat_str.simps) (simp add: is_digit_char)

lemma int_str_last: "is_digit (last (int_str i))"
  using nat_str_last nat_str_ne by (simp add: int_str_def)

lemma stringify_ends: "\<not> js_space (hd (json_stringify v)) \<and> \<not> js_space (last (json_stringify v))"
proof (cases v)
  case (JNum i)
  have "\<not> js_space (hd (int_str i))"
    using int_str_start [of i] digit_not_js_space by (auto simp: js_space_def)
  then show ?thesis using JNum int_str_last digit_not_js_space by simp
qed (simp_all add: js_space_def quote_def)

text \<open>Serialising a value without \<^verbatim>\<open>undefined\<close> and parsing the text back gives the
  same value: \<^verbatim>\<open>JSON.parse(JSON.stringify(v))\<close> is \<open>v\<close>.\<close>

theorem json_parse_stringify: "json_value v \<Longrightarrow> json_parse (json_stringify v) = Inr v"
  using parse_value_stringify [of v "Suc (2 * length (json_stringify v))" "[]"] json_fuel_length [of v]
  by (simp add: json_parse_def skip_ws_def)

lemma parse_fuel_mono:
  "parse_value n s = Some r \<Longrightarrow> parse_value (Suc n) s = Some r"
  "parse_elems n acc s = Some q \<Longrightarrow> parse_elems (Suc n) acc s = Some q"
  "parse_members n acc' s = Some p \<Longrightarrow> parse_members (Suc n) acc' s = Some p"
proof (induction n s and n acc s and n acc' s arbitrary: r and q and p rule: parse_value_parse_elems_parse_members.induct)
  case (2 n s)
  show ?case
  proof (cases "skip_ws s")
    case Nil
    then show ?thesis using "2.prems" by simp
  next
    case (Cons c r0)
    show ?thesis
    proof (cases "c = CHR ''['' \<or> c = CHR ''{''")
      case True
      then show ?thesis using "2.prems" "2.IH" Cons
        by (auto split: list.splits if_splits simp del: parse_elems.simps parse_members.simps)
    next
      case False
      then show ?thesis using "2.prems" Cons by simp
    qed
  qed
next
  case (4 n acc s)
  obtain v r where pv: "parse_value n s = Some (v, r)"
    using "4.prems" by (cases "parse_value n s") auto
  have pv': "parse_value (Suc n) s = Some (v, r)" using "4.IH"(1) [OF pv] .
  show ?case
  proof (cases "skip_ws r")
    case Nil
    then show ?thesis using "4.prems" pv by simp
  next
    case (Cons d r')
    show ?thesis
    proof (cases "d = CHR '',''")
      case True
      then have "parse_elems n (v # acc) r' = Some q" using "4.prems" pv Cons by simp
      then have "parse_elems (Suc n) (v # acc) r' = Some q"
        by (rule "4.IH"(2) [OF pv refl Cons True])
      then show ?thesis using pv' Cons True
        by (simp del: parse_elems.simps parse_value.simps add: parse_elems.simps(2) [of "Suc n"])
    next
      case False
      then show ?thesis using "4.prems" pv pv' Cons
        by (simp del: parse_value.simps)
    qed
  qed
next
  case (6 n acc s)
  note P = "6.prems"
  obtain r where s1: "skip_ws s = CHR 0x22 # r"
    using P by (cases "skip_ws s") (auto split: if_splits)
  obtain k r1 where pc: "parse_chars [] r = Some (k, r1)"
    using P s1 by (cases "parse_chars [] r") auto
  obtain r2 where s2: "skip_ws r1 = CHR '':'' # r2"
    using P s1 pc by (cases "skip_ws r1") (auto split: if_splits)
  obtain v r3 where pv: "parse_value n r2 = Some (v, r3)"
    using P s1 pc s2 by (cases "parse_value n r2") (auto simp del: parse_value.simps)
  obtain e r4 where s3: "skip_ws r3 = e # r4"
    using P s1 pc s2 pv by (cases "skip_ws r3") (auto simp del: parse_value.simps)
  have pv': "parse_value (Suc n) r2 = Some (v, r3)"
    using "6.IH"(1) s1 pc s2 pv by blast
  show ?case
  proof (cases "e = CHR '',''")
    case True
    then have "parse_members n ((k, v) # acc) r4 = Some p"
      using P s1 pc s2 pv s3 by (simp del: parse_value.simps)
    then have "parse_members (Suc n) ((k, v) # acc) r4 = Some p"
      using "6.IH"(2) s1 pc s2 pv s3 True by blast
    then show ?thesis using s1 pc s2 pv' s3 True
      by (simp del: parse_members.simps parse_value.simps add: parse_members.simps(2) [of "Suc n"])
  next
    case False
    then show ?thesis using P s1 pc s2 pv pv' s3 by (simp del: parse_value.simps)
  qed
qed simp_all

lemma json_parse_stringify_witness:
  "json_value (JObj [(''adSlogan'', JStr ''Go''), (''n'', JArr [JNum (-5), JNull])]) \<and>
   json_parse (json_stringify (JObj [(''adSlogan'', JStr ''Go''), (''n'', JArr [JNum (-5), JNull])]))
     = Inr (JObj [(''adSlogan'', JStr ''Go''), (''n'', JArr [JNum (-5), JNull])])"
  using json_parse_stringify [of "JObj [(''adSlogan'', JStr ''Go''), (''n'', JArr [JNum (-5), JNull])]"]
  by simp


text \<open>Every value survives a JSON round trip as its normal form.\<close>

lemma json_normalize_defined: "json_normalize v \<noteq> JUndef"
  by (cases v) auto

lemma json_value_normalize: "json_value (json_normalize v)"
  by (induction v rule: json_normalize.induct) auto

lemma stringify_normalize: "json_stringify (json_normalize v) = json_stringify v"
proof (induction v rule: json_normalize.induct)
  case (2 vs)
  then show ?case by (simp cong: map_cong)
next
  case (3 kvs)
  have "map (\<lambda>kv. quote (fst kv) @ '':'' @ json_stringify (snd kv))
          (filter (\<lambda>kv. snd kv \<noteq> JUndef) (map (\<lambda>kv. (fst kv, json_normalize (snd kv))) (filter (\<lambda>kv. snd kv \<noteq> JUndef) kvs)))
      = map (\<lambda>kv. quote (fst kv) @ '':'' @ json_stringify (snd kv)) (filter (\<lambda>kv. snd kv \<noteq> JUndef) kvs)"
    using 3 by (induction kvs) (auto simp: json_normalize_defined)
  then show ?case by simp
qed simp_all

lemma json_parse_stringify_any: "json_parse (json_stringify v) = Inr (json_normalize v)"
  using json_parse_stringify [OF json_value_normalize [of v]] by (simp add: stringify_normalize)

end
