(* ===== verification/Cleaning.thy ===== *)
theory Cleaning
  imports Js_Base
begin

text \<open>
  The cleaning of a Gemini reply before \<^verbatim>\<open>JSON.parse\<close> (server.js lines 549--551, and
  the same three lines at 845--847 for the visual concept):
  \<^verbatim>\<open>text.trim().replace(/```json\s*|\s*```/g, '').trim()\<close>.

  \<open>fence_match s\<close> is the length of the match of the regular expression at the start of
  \<open>s\<close> under JavaScript's leftmost-first semantics: the first alternative is tried first and
  \<^verbatim>\<open>\s*\<close> is greedy (no backtracking can help, since a character of
  \<^verbatim>\<open>\s\<close> is never a backtick); \<open>strip_fences\<close> is the global replace, which
  scans left to right and resumes after each match. The pattern never matches the empty
  string, which gives the termination measure.

  Lemmas: the matcher agrees with the regular expression (\<open>fence_match_regex\<close>,
  \<open>fence_match_none\<close>); a reply without backticks is only trimmed; a reply fenced as
  \<^verbatim>\<open>```json ... ```\<close> yields its trimmed body.
\<close>

section \<open>Definitions\<close>

definition fence_match :: "string \<Rightarrow> nat option" where
  "fence_match s =
     (if starts_with s ''```json'' then Some (7 + length (takeWhile js_space (drop 7 s)))
      else (let k = length (takeWhile js_space s)
            in if starts_with (drop k s) ''```'' then Some (k + 3) else None))"

text \<open>The regular expression's own reading, as ECMAScript's matcher defines it: the
  alternatives of \<^verbatim>\<open>/```json\s*|\s*```/\<close> matched at the start of \<open>s\<close> and
  ending at \<open>k\<close>. The first is the literal \<^verbatim>\<open>```json\<close> and the longest run of
  \<^verbatim>\<open>\s\<close> after it (greedy, with nothing after it to backtrack for); the second a run
  of \<^verbatim>\<open>\s\<close> and the literal \<^verbatim>\<open>```\<close>. The matcher tries the first
  alternative first.\<close>

definition fence_alt1 :: "string \<Rightarrow> nat \<Rightarrow> bool" where
  "fence_alt1 s k \<longleftrightarrow>
     take 7 s = ''```json'' \<and> 7 \<le> k \<and> k \<le> length s \<and> list_all js_space (drop 7 (take k s)) \<and>
     (drop k s = [] \<or> \<not> js_space (hd (drop k s)))"

definition fence_alt2 :: "string \<Rightarrow> nat \<Rightarrow> bool" where
  "fence_alt2 s k \<longleftrightarrow>
     3 \<le> k \<and> k \<le> length s \<and> list_all js_space (take (k - 3) s) \<and> drop (k - 3) (take k s) = ''```''"

function strip_fences :: "string \<Rightarrow> string" where
  "strip_fences [] = []"
| "strip_fences (c # cs) =
     (case fence_match (c # cs) of
        Some k \<Rightarrow> strip_fences (drop k (c # cs))
      | None \<Rightarrow> c # strip_fences cs)"
  by pat_completeness auto
termination
  by (relation "measure length") (auto simp: fence_match_def Let_def split: if_splits)

definition clean_response :: "string \<Rightarrow> string" where
  "clean_response s = js_trim (strip_fences (js_trim s))"

definition rtrim :: "string \<Rightarrow> string" where
  "rtrim s = rev (dropWhile js_space (rev s))"

section \<open>Lemmas\<close>

lemma tick_not_space: "\<not> js_space (CHR ''`'')"
  unfolding js_space_def by code_simp

lemma rtrim_Cons:
  assumes "\<exists>x \<in> set (c # cs). \<not> js_space x"
  shows "rtrim (c # cs) = c # rtrim cs"
proof (cases "\<exists>x \<in> set cs. \<not> js_space x")
  case True
  then obtain x where "x \<in> set (rev cs)" "\<not> js_space x" by auto
  then have "dropWhile js_space (rev cs @ [c]) = dropWhile js_space (rev cs) @ [c]"
    by (rule dropWhile_append1)
  then show ?thesis by (simp add: rtrim_def)
next
  case False
  then have c: "\<not> js_space c" using assms by auto
  have "dropWhile js_space (rev cs @ [c]) = dropWhile js_space [c]"
    by (rule dropWhile_append2) (use False in auto)
  then have "dropWhile js_space (rev cs @ [c]) = [c]" using c by simp
  moreover have "dropWhile js_space (rev cs) = []" using False by simp
  ultimately show ?thesis by (simp add: rtrim_def)
qed

lemma starts_with_tick: "starts_with s (CHR ''`'' # p) \<Longrightarrow> s \<noteq> [] \<and> hd s = CHR ''`''"
  by (cases s) auto

lemma fence_match_no_tick:
  assumes "CHR ''`'' \<notin> set s"
  shows "fence_match s = None"
proof -
  have "\<not> starts_with s ''```json''" using assms by (cases s) auto
  moreover have "\<not> starts_with (drop k s) ''```''" for k
    using assms starts_with_tick [of "drop k s"] by (metis hd_in_set in_set_dropD)
  ultimately show ?thesis by (simp add: fence_match_def Let_def)
qed

lemma strip_fences_no_tick: "CHR ''`'' \<notin> set s \<Longrightarrow> strip_fences s = s"
  by (induction s) (auto simp: fence_match_no_tick)

lemma takeWhile_all_space: "\<forall>c \<in> set a. js_space c \<Longrightarrow> takeWhile js_space (a @ b) = a @ takeWhile js_space b"
  by (induction a) auto

lemma strip_fences_closing:
  assumes "CHR ''`'' \<notin> set b"
  shows "strip_fences (b @ ''```'') = rtrim b"
  using assms
proof (induction b)
  case Nil
  then show ?case by (simp add: fence_match_def rtrim_def tick_not_space)
next
  case (Cons c cs)
  show ?case
  proof (cases "\<forall>x \<in> set (c # cs). js_space x")
    case True
    then have "fence_match (c # cs @ ''```'') = Some (length (c # cs) + 3)"
      using takeWhile_all_space [OF True, of "''```''"] Cons.prems
      by (auto simp: fence_match_def Let_def tick_not_space)
    then show ?thesis using True by (simp add: rtrim_def dropWhile_eq_Nil_conv)
  next
    case False
    obtain x where x: "x \<in> set (c # cs)" "\<not> js_space x" using False by blast
    let ?k = "length (takeWhile js_space (c # cs))"
    have tw: "takeWhile js_space (c # cs @ ''```'') = takeWhile js_space (c # cs)"
      using x by (metis append_Cons takeWhile_append1)
    have "drop ?k (c # cs) \<noteq> []"
      using x by (metis dropWhile_eq_Nil_conv dropWhile_eq_drop)
    moreover have "hd (drop ?k (c # cs)) \<noteq> CHR ''`''"
      using calculation Cons.prems by (metis hd_in_set in_set_dropD)
    ultimately have "\<not> starts_with (drop ?k (c # cs) @ ''```'') ''```''"
      by (cases "drop ?k (c # cs)") auto
    moreover have "drop ?k (c # cs @ ''```'') = drop ?k (c # cs) @ ''```''"
    proof -
      have le: "?k \<le> length (c # cs)" by (rule length_takeWhile_le)
      have "drop ?k ((c # cs) @ ''```'') = drop ?k (c # cs) @ ''```''"
        using le by (metis drop_append diff_is_0_eq drop0)
      then show ?thesis by simp
    qed
    moreover have "\<not> starts_with (c # cs @ ''```'') ''```json''" using Cons.prems by auto
    ultimately have "fence_match (c # cs @ ''```'') = None"
      using tw by (simp add: fence_match_def Let_def del: drop_Suc_Cons)
    moreover have "strip_fences (cs @ ''```'') = rtrim cs" using Cons by simp
    moreover have "rtrim (c # cs) = c # rtrim cs" using x by (intro rtrim_Cons) blast
    ultimately show ?thesis by simp
  qed
qed


lemma js_trim_fixed:
  assumes "s = [] \<or> (\<not> js_space (hd s) \<and> \<not> js_space (last s))"
  shows "js_trim s = s"
proof (cases "s = []")
  case True then show ?thesis by (simp add: js_trim_def)
next
  case False
  then have "dropWhile js_space s = s" using assms by (simp add: dropWhile_eq_self_iff)
  moreover have "dropWhile js_space (rev s) = rev s"
    using assms False by (simp add: dropWhile_eq_self_iff hd_rev)
  ultimately show ?thesis by (simp add: js_trim_def)
qed

lemma js_trim_idem: "js_trim (js_trim s) = js_trim s"
  by (rule js_trim_fixed) (use js_trim_ends [of s] in auto)

lemma set_js_trim: "set (js_trim s) \<subseteq> set s"
  unfolding js_trim_def by (metis set_dropWhileD set_rev subsetI)

lemma js_trim_rtrim: "js_trim s = rtrim (dropWhile js_space s)"
  by (simp add: js_trim_def rtrim_def)

lemma takeWhile_stop: "\<not> P y \<Longrightarrow> takeWhile P (xs @ y # ys) = takeWhile P xs @ (if \<forall>x \<in> set xs. P x then [] else [])"
  by (induction xs) auto

text \<open>A reply without a backtick is only trimmed by the cleaning.\<close>

lemma clean_response_plain:
  assumes "CHR ''`'' \<notin> set s"
  shows "clean_response s = js_trim s"
proof -
  have "CHR ''`'' \<notin> set (js_trim s)" using assms set_js_trim by blast
  then show ?thesis by (simp add: clean_response_def strip_fences_no_tick js_trim_idem)
qed

lemma clean_response_fenced:
  assumes pre: "\<forall>c \<in> set pre. js_space c" and post: "\<forall>c \<in> set post. js_space c"
    and body: "CHR ''`'' \<notin> set b"
  shows "clean_response (pre @ ''```json'' @ b @ ''```'' @ post) = js_trim b"
proof -
  let ?x = "''```json'' @ b @ ''```''"
  have "js_trim (pre @ ?x @ post) = js_trim ?x"
    using pre post by (rule js_trim_spaces_around)
  also have "\<dots> = ?x" by (rule js_trim_fixed) (simp add: tick_not_space)
  finally have t: "js_trim (pre @ ''```json'' @ b @ ''```'' @ post) = ?x" by simp
  have tw: "takeWhile js_space (b @ ''```'') = takeWhile js_space b"
    using takeWhile_stop [of js_space "CHR ''`''" b "''``''"] tick_not_space by simp
  have m: "fence_match ?x = Some (7 + length (takeWhile js_space b))"
    using tw by (simp add: fence_match_def)
  have d: "drop (7 + length (takeWhile js_space b)) ?x = dropWhile js_space b @ ''```''"
  proof -
    have le: "length (takeWhile js_space b) \<le> length b" by (rule length_takeWhile_le)
    have "drop (length (takeWhile js_space b)) (b @ ''```'') =
          drop (length (takeWhile js_space b)) b @ ''```''"
      using le by (metis drop_append diff_is_0_eq drop0)
    also have "drop (length (takeWhile js_space b)) b = dropWhile js_space b"
      by (simp add: dropWhile_eq_drop)
    finally have e: "drop (length (takeWhile js_space b)) (b @ ''```'') = dropWhile js_space b @ ''```''" .
    have "drop (7 + k) (''```json'' @ y) = drop k y" for k y
      by (simp add: numeral_eq_Suc)
    then show ?thesis using e by metis
  qed
  have nt: "CHR ''`'' \<notin> set (dropWhile js_space b)" using body by (auto dest: set_dropWhileD)
  have "strip_fences ?x = rtrim (dropWhile js_space b)"
    using m d strip_fences_closing [OF nt] by simp
  then show ?thesis
    using t by (simp add: clean_response_def js_trim_rtrim [symmetric] js_trim_idem)
qed

lemma starts_with_take: "starts_with s p \<longleftrightarrow> take (length p) s = p"
  by (induction s p rule: starts_with.induct) auto

lemma starts_with_json: "starts_with s ''```json'' \<longleftrightarrow> take 7 s = ''```json''"
  using starts_with_take [of s "''```json''"] by (simp add: numeral_eq_Suc)

lemma starts_with_ticks: "starts_with s ''```'' \<longleftrightarrow> take 3 s = ''```''"
  using starts_with_take [of s "''```''"] by (simp add: numeral_eq_Suc)

text \<open>A prefix of \<open>n\<close> elements satisfying \<open>P\<close>, followed by one that does not or by
  nothing, is the longest such prefix.\<close>

lemma takeWhile_length_iff:
  "(n \<le> length xs \<and> list_all P (take n xs) \<and> (drop n xs = [] \<or> \<not> P (hd (drop n xs)))) \<longleftrightarrow>
   n = length (takeWhile P xs)"
proof
  assume a: "n \<le> length xs \<and> list_all P (take n xs) \<and> (drop n xs = [] \<or> \<not> P (hd (drop n xs)))"
  have "takeWhile P xs = take n xs @ takeWhile P (drop n xs)"
    using a takeWhile_append2 [of "take n xs" P "drop n xs"] by (simp add: list_all_iff)
  moreover have "takeWhile P (drop n xs) = []" using a by (cases "drop n xs") auto
  ultimately show "n = length (takeWhile P xs)" using a by simp
next
  assume n: "n = length (takeWhile P xs)"
  have "take n xs = takeWhile P xs" using n takeWhile_eq_take [of P xs] by simp
  moreover have "drop n xs = dropWhile P xs" using n dropWhile_eq_drop [of P xs] by simp
  ultimately show "n \<le> length xs \<and> list_all P (take n xs) \<and> (drop n xs = [] \<or> \<not> P (hd (drop n xs)))"
    using n hd_dropWhile [of P xs] by (auto simp: list_all_iff length_takeWhile_le dest: set_takeWhileD)
qed

lemma fence_alt1_iff:
  "fence_alt1 s k \<longleftrightarrow> starts_with s ''```json'' \<and> k = 7 + length (takeWhile js_space (drop 7 s))"
proof (cases "take 7 s = ''```json'' \<and> 7 \<le> k")
  case True
  then have "length (take 7 s) = 7" by simp
  then have "length s \<ge> 7" by (simp add: min_def split: if_splits)
  then have "fence_alt1 s k \<longleftrightarrow>
      (k - 7 \<le> length (drop 7 s) \<and> list_all js_space (take (k - 7) (drop 7 s)) \<and>
       (drop (k - 7) (drop 7 s) = [] \<or> \<not> js_space (hd (drop (k - 7) (drop 7 s)))))"
    using True by (auto simp: fence_alt1_def drop_take)
  also have "\<dots> \<longleftrightarrow> k - 7 = length (takeWhile js_space (drop 7 s))" by (rule takeWhile_length_iff)
  finally show ?thesis using True by (auto simp: starts_with_json)
next
  case False
  then show ?thesis by (auto simp: fence_alt1_def starts_with_json)
qed

lemma fence_alt2_iff:
  "fence_alt2 s k \<longleftrightarrow>
   starts_with (drop (length (takeWhile js_space s)) s) ''```'' \<and> k = length (takeWhile js_space s) + 3"
proof (cases "3 \<le> k")
  case True
  let ?n = "k - 3"
  have k: "k = ?n + 3" using True by simp
  have len: "take 3 (drop ?n s) = ''```'' \<Longrightarrow> k \<le> length s"
  proof -
    assume "take 3 (drop ?n s) = ''```''"
    then have "length (take 3 (drop ?n s)) = 3" by simp
    then show "k \<le> length s" using k by (simp add: min_def split: if_splits)
  qed
  have "drop ?n (take k s) = take 3 (drop ?n s)" using k by (simp add: drop_take)
  then have "fence_alt2 s k \<longleftrightarrow> list_all js_space (take ?n s) \<and> take 3 (drop ?n s) = ''```''"
    using True len by (auto simp: fence_alt2_def)
  also have "\<dots> \<longleftrightarrow> ?n = length (takeWhile js_space s) \<and> take 3 (drop ?n s) = ''```''"
  proof
    assume a: "list_all js_space (take ?n s) \<and> take 3 (drop ?n s) = ''```''"
    obtain c t where d: "drop ?n s = c # t"
      using a by (cases "drop ?n s") auto
    have "c = CHR ''`''" using a d by simp
    moreover have "?n \<le> length s" using d by (metis drop_eq_Nil list.simps(3) nat_le_linear)
    ultimately have "?n = length (takeWhile js_space s)"
      using a d takeWhile_length_iff [of ?n s js_space] tick_not_space by simp
    then show "?n = length (takeWhile js_space s) \<and> take 3 (drop ?n s) = ''```''" using a by simp
  next
    assume "?n = length (takeWhile js_space s) \<and> take 3 (drop ?n s) = ''```''"
    then show "list_all js_space (take ?n s) \<and> take 3 (drop ?n s) = ''```''"
      using takeWhile_length_iff [of ?n s js_space] by auto
  qed
  finally show ?thesis using True by (auto simp: starts_with_ticks)
next
  case False
  then show ?thesis by (auto simp: fence_alt2_def)
qed

lemma no_fence_alt1:
  "(\<forall>j \<le> length s. \<not> fence_alt1 s j) \<longleftrightarrow> \<not> starts_with s ''```json''"
proof
  assume "\<forall>j \<le> length s. \<not> fence_alt1 s j"
  moreover have "starts_with s ''```json'' \<Longrightarrow> fence_alt1 s (7 + length (takeWhile js_space (drop 7 s)))"
    by (simp add: fence_alt1_iff)
  moreover have "7 + length (takeWhile js_space (drop 7 s)) \<le> length s" if "starts_with s ''```json''"
  proof -
    have "length (take 7 s) = 7" using that by (simp add: starts_with_json)
    then have "7 \<le> length s" by (simp add: min_def split: if_splits)
    then show ?thesis using length_takeWhile_le [of js_space "drop 7 s"] by simp
  qed
  ultimately show "\<not> starts_with s ''```json''" by blast
qed (auto simp: fence_alt1_iff)

text \<open>C11: \<open>fence_match\<close> finds exactly the match of \<^verbatim>\<open>/```json\s*|\s*```/\<close> at the
  start of the string: it answers \<open>Some k\<close> if and only if the first alternative matches
  up to \<open>k\<close>, or the first alternative matches nowhere and the second matches up to
  \<open>k\<close>. In particular it answers \<open>None\<close> exactly when neither alternative matches.\<close>

theorem fence_match_regex:
  "fence_match s = Some k \<longleftrightarrow> fence_alt1 s k \<or> ((\<forall>j \<le> length s. \<not> fence_alt1 s j) \<and> fence_alt2 s k)"
  unfolding no_fence_alt1 unfolding fence_alt1_iff fence_alt2_iff
  by (auto simp: fence_match_def Let_def)

theorem fence_match_none:
  assumes "fence_match s = None"
  shows "\<not> starts_with s ''```json'' \<and>
         \<not> (\<exists>ws r. s = ws @ ''```'' @ r \<and> (\<forall>c \<in> set ws. js_space c))"
proof -
  have j: "\<not> starts_with s ''```json''" using assms by (auto simp: fence_match_def split: if_splits)
  have "\<not> (s = ws @ ''```'' @ r \<and> (\<forall>c \<in> set ws. js_space c))" for ws r
  proof
    assume a: "s = ws @ ''```'' @ r \<and> (\<forall>c \<in> set ws. js_space c)"
    then have "takeWhile js_space s = ws"
      using takeWhile_stop [of js_space "CHR ''`''" ws "''``'' @ r"] tick_not_space
      by (simp add: takeWhile_all_space)
    then have "starts_with (drop (length (takeWhile js_space s)) s) ''```''" using a by simp
    then show False using assms j by (simp add: fence_match_def Let_def)
  qed
  then show ?thesis using j by blast
qed

lemma clean_response_plain_witness: "clean_response '' {}'' = js_trim '' {}''"
  using clean_response_plain [of "'' {}''"] by simp

lemma fence_match_regex_witness:
  "fence_match ''  ```x'' = Some 5 \<and>
   (fence_alt1 ''  ```x'' 5 \<or> ((\<forall>j \<le> length ''  ```x''. \<not> fence_alt1 ''  ```x'' j) \<and> fence_alt2 ''  ```x'' 5))"
proof -
  have m: "fence_match ''  ```x'' = Some 5" by (simp add: fence_match_def js_space_def)
  show ?thesis using fence_match_regex [of "''  ```x''" 5] m by simp
qed

end
