(* ===== verification/Images.thy ===== *)
theory Images
  imports Providers
begin

text \<open>
  The asset fan-out of server.js: \<^verbatim>\<open>generateImageWithDallE\<close> (lines 356--379, the last of
  the three declarations of that name, which is the one in force) and
  \<^verbatim>\<open>generateUniqueImagesWithGemini\<close> (lines 382--471).

  For each of the two image kinds, in order (social, then banner), the loop asks Gemini
  (the module's \<^verbatim>\<open>textModel\<close>, \<^verbatim>\<open>gemini-pro\<close>) for a description and sends a
  prompt built from it to DALL-E; the URL of the first image of the reply is kept. The
  \<^verbatim>\<open>catch\<close> of an iteration starts by logging \<^verbatim>\<open>i + 1\<close>, and no \<^verbatim>\<open>i\<close> is
  in scope, so the handler itself throws a \<open>ReferenceError\<close>: the rest of it (a picsum
  placeholder seeded by \<^verbatim>\<open>Date.now() + Math.random() * 100000 + i\<close>) is never reached
  and is not modelled. The exception leaves the loop and lands in the outer
  \<^verbatim>\<open>catch\<close>, which returns two picsum URLs seeded by the brand name without white space
  and by \<^verbatim>\<open>Date.now()\<close> and \<^verbatim>\<open>Date.now() + 1\<close>; \<^verbatim>\<open>brandName.replace\<close> throws a
  \<open>TypeError\<close> there unless the brand name is a string.

  Lemmas: the calls the fan-out makes and their order, the result when every provider
  answers, the fallback URLs after any failure (distinct, and no call after the failing
  one), and the rejection when the brand name is not a string.
\<close>

section \<open>Definitions\<close>

text \<open>Lines 356--379: \<^verbatim>\<open>response.data.data[0].url\<close> of the DALL-E reply; the
  \<^verbatim>\<open>catch\<close> logs and rethrows, so an error passes through unchanged.\<close>

definition generate_image_with_dalle :: "string \<Rightarrow> string \<Rightarrow> (world, jsval) js" where
  "generate_image_with_dalle prompt sz =
     js_bind (dalle_post prompt sz) (\<lambda>data.
     js_bind (js_lift (js_get data ''data'')) (\<lambda>images.
     js_bind (js_lift (js_index images 0)) (\<lambda>first.
     js_lift (js_get first ''url''))))"

definition default_size :: string where
  "default_size = ''1024x1024''"

text \<open>A template literal spread over source lines: each line break is followed by the
  sixteen spaces of the source's indentation.\<close>

definition template_lines :: "string list \<Rightarrow> string" where
  "template_lines ls = join_with (CHR ''\<newline>'' # replicate 16 CHR '' '') ls"

definition dq :: string where
  "dq = [CHR 0x22]"

text \<open>Lines 390--403 and 407--420: the two requests for a description.\<close>

definition social_prompt :: "jsval \<Rightarrow> jsval \<Rightarrow> jsval \<Rightarrow> string" where
  "social_prompt brandName userPrompt brandStory = template_lines
     [''Create a detailed visual prompt for an AI image generator to create a social media post image for ''
        @ dq @ js_to_string brandName @ dq @ ''.'',
      ''Context: '' @ js_to_string userPrompt,
      ''Brand story: '' @ js_to_string brandStory,
      [],
      ''Create a professional, detailed description that covers:'',
      ''1. Main subject and focal point'',
      ''2. Specific visual elements unique to this brand'',
      ''3. Color palette and lighting'',
      ''4. Composition and layout'',
      ''5. Mood and atmosphere'',
      ''6. Texture and materials'',
      ''7. Background elements'',
      [],
      ''Make it photorealistic and highly detailed. Format the response as a clear, comma-separated list of descriptive elements.'']"

definition banner_prompt :: "jsval \<Rightarrow> jsval \<Rightarrow> jsval \<Rightarrow> string" where
  "banner_prompt brandName userPrompt brandStory = template_lines
     [''Create a detailed visual prompt for an AI image generator to create a website banner image for ''
        @ dq @ js_to_string brandName @ dq @ ''.'',
      ''Context: '' @ js_to_string userPrompt,
      ''Brand story: '' @ js_to_string brandStory,
      [],
      ''Create a professional, detailed description that covers:'',
      ''1. Wide format composition (16:9 ratio)'',
      ''2. Focal point and visual hierarchy'',
      ''3. Brand-specific visual elements'',
      ''4. Professional color scheme'',
      ''5. Lighting and atmosphere'',
      ''6. Texture and depth'',
      ''7. Space for text overlay'',
      [],
      ''Make it photorealistic and highly detailed. Format the response as a clear, comma-separated list of descriptive elements.'']"

text \<open>Lines 385--422: the array \<^verbatim>\<open>imagePrompts\<close> of \<open>(type, prompt)\<close> pairs.\<close>

definition image_prompts :: "jsval \<Rightarrow> jsval \<Rightarrow> jsval \<Rightarrow> (string \<times> string) list" where
  "image_prompts brandName userPrompt brandStory =
     [(''social'', social_prompt brandName userPrompt brandStory),
      (''banner'', banner_prompt brandName userPrompt brandStory)]"

text \<open>Line 435: the prompt sent to DALL-E.\<close>

definition final_prompt :: "string \<Rightarrow> jsval \<Rightarrow> string \<Rightarrow> string" where
  "final_prompt type brandName imageDescription =
     ''Create a professional '' @
     (if type = ''social'' then ''square social media post'' else ''wide banner'') @
     '' image for '' @ js_to_string brandName @ ''. '' @ imageDescription @
     ''. Make it photorealistic, highly detailed, and suitable for commercial use. Ensure it matches the brand's identity and story.''"

text \<open>Lines 428--444: one iteration's \<^verbatim>\<open>try\<close> block, giving the URL it pushes.\<close>

definition image_attempt :: "jsval \<Rightarrow> string \<Rightarrow> string \<Rightarrow> (world, jsval) js" where
  "image_attempt brandName type prompt =
     js_bind (gemini_generate ''gemini-pro'' prompt) (\<lambda>imageDescription.
     generate_image_with_dalle (final_prompt type brandName imageDescription) default_size)"

text \<open>Lines 426--457: the \<^verbatim>\<open>for ... of\<close> loop, the URLs pushed so far in \<open>acc\<close>; the
  handler of line 448 reads the undeclared \<^verbatim>\<open>i\<close>.\<close>

fun image_loop :: "jsval \<Rightarrow> (string \<times> string) list \<Rightarrow> jsval list \<Rightarrow> (world, jsval list) js" where
  "image_loop brandName [] acc = js_return acc"
| "image_loop brandName ((type, prompt) # rest) acc =
     js_bind (js_catch (image_attempt brandName type prompt) (\<lambda>error. undeclared ''i'')) (\<lambda>url.
     image_loop brandName rest (acc @ [url]))"

text \<open>\<^verbatim>\<open>brandName.replace(/\s/g, '')\<close>: only a string has a \<^verbatim>\<open>replace\<close> method.\<close>

definition strip_spaces :: "jsval \<Rightarrow> exn + string" where
  "strip_spaces v =
     (case v of
        JStr s \<Rightarrow> Inr (filter (\<lambda>c. \<not> js_space c) s)
      | _ \<Rightarrow> if nullish v then Inl (TypeError (''Cannot read properties of '' @ js_to_string v))
             else Inl (TypeError ''brandName.replace is not a function''))"

definition picsum_url :: "string \<Rightarrow> nat \<Rightarrow> string" where
  "picsum_url name t = ''https://picsum.photos/seed/'' @ name @ ''-'' @ nat_str t @ ''/800/600''"

text \<open>Lines 462--470: the outer handler.\<close>

definition ultimate_fallback :: "jsval \<Rightarrow> (world, jsval list) js" where
  "ultimate_fallback brandName =
     js_bind date_now (\<lambda>timestamp.
     js_bind (js_lift (strip_spaces brandName)) (\<lambda>name1.
     js_bind (js_lift (strip_spaces brandName)) (\<lambda>name2.
     js_return [JStr (picsum_url name1 timestamp), JStr (picsum_url name2 (timestamp + 1))])))"

text \<open>Lines 382--471: the function; \<^verbatim>\<open>imageResults.map(img => img.url)\<close> is the list of
  pushed URLs.\<close>

definition generate_unique_images :: "jsval \<Rightarrow> jsval \<Rightarrow> jsval \<Rightarrow> (world, jsval list) js" where
  "generate_unique_images brandName userPrompt brandStory =
     js_catch (image_loop brandName (image_prompts brandName userPrompt brandStory) [])
              (\<lambda>error. ultimate_fallback brandName)"

text \<open>A DALL-E reply carrying one image.\<close>

definition dalle_ok :: "string \<Rightarrow> json_reply" where
  "dalle_ok u = JsonResponse 200 (JObj [(''data'', JArr [JObj [(''url'', JStr u)]])])"

section \<open>Lemmas\<close>

lemma image_attempt_ok:
  assumes "gemini_queue w = GeminiText d # gs" "dalle_queue w = dalle_ok u # ds"
  shows "image_attempt b ty p w =
     (Inr (JStr u), w\<lparr>gemini_queue := gs, dalle_queue := ds,
        calls := calls w @ [GeminiCall ''gemini-pro'' p, DalleCall (final_prompt ty b d) default_size]\<rparr>)"
  using assms
  by (simp add: image_attempt_def generate_image_with_dalle_def provider_simps js_simps dalle_ok_def
      success_status_def js_get_def js_index_def)

lemma image_attempt_gemini_failure:
  "gemini_queue w = GeminiFailure m # gs \<Longrightarrow>
   image_attempt b ty p w =
     (Inl (GeminiError m), w\<lparr>gemini_queue := gs, calls := calls w @ [GeminiCall ''gemini-pro'' p]\<rparr>)"
  by (simp add: image_attempt_def provider_simps js_simps)

lemma image_attempt_dalle_failure:
  "gemini_queue w = GeminiText d # gs \<Longrightarrow> dalle_queue w = JsonResponse st x # ds \<Longrightarrow> \<not> success_status st \<Longrightarrow>
   image_attempt b ty p w =
     (Inl (AxiosError (Some st) x), w\<lparr>gemini_queue := gs, dalle_queue := ds,
        calls := calls w @ [GeminiCall ''gemini-pro'' p, DalleCall (final_prompt ty b d) default_size]\<rparr>)"
  by (simp add: image_attempt_def generate_image_with_dalle_def provider_simps js_simps)

lemma image_attempt_clock: "clock (snd (image_attempt b ty p w)) = clock w"
  by (simp add: image_attempt_def generate_image_with_dalle_def provider_simps js_simps
      split: sum.splits prod.splits)

lemma image_loop_clock: "clock (snd (image_loop b ps acc w)) = clock w"
proof (induction b ps acc arbitrary: w rule: image_loop.induct)
  case (2 b type prompt rest acc)
  obtain r w' where a: "image_attempt b type prompt w = (r, w')" by fastforce
  then have "clock w' = clock w" using image_attempt_clock [of b type prompt w] by simp
  then show ?case using a "2" by (cases r) (simp_all add: js_simps)
qed (simp add: js_simps)

lemma ultimate_fallback_string:
  "ultimate_fallback (JStr n) w =
     (Inr [JStr (picsum_url (filter (\<lambda>c. \<not> js_space c) n) (clock w)),
           JStr (picsum_url (filter (\<lambda>c. \<not> js_space c) n) (clock w + 1))], w)"
  by (simp add: ultimate_fallback_def strip_spaces_def provider_simps js_simps)

lemma ultimate_fallback_other:
  "(\<And>n. b \<noteq> JStr n) \<Longrightarrow> \<exists>t. ultimate_fallback b w = (Inl (TypeError t), w)"
  by (cases b) (auto simp: ultimate_fallback_def strip_spaces_def provider_simps js_simps)

lemma generate_unique_images_caught:
  "image_loop b (image_prompts b up bs) [] w = (Inl e, w') \<Longrightarrow>
   generate_unique_images b up bs w = ultimate_fallback b w'"
  by (simp add: generate_unique_images_def js_simps)

lemma picsum_url_distinct: "picsum_url n t \<noteq> picsum_url n (Suc t)"
  by (simp add: picsum_url_def nat_str_inj)

text \<open>When Gemini and DALL-E answer every request, the fan-out returns the two DALL-E
  URLs, social first, after exactly four calls in the order description, image,
  description, image.\<close>

theorem fan_out_all_succeed:
  assumes "gemini_queue w = GeminiText d1 # GeminiText d2 # gs"
    and "dalle_queue w = dalle_ok u1 # dalle_ok u2 # ds"
  shows "generate_unique_images b up bs w =
     (Inr [JStr u1, JStr u2],
      w\<lparr>gemini_queue := gs, dalle_queue := ds,
        calls := calls w @ [GeminiCall ''gemini-pro'' (social_prompt b up bs),
                            DalleCall (final_prompt ''social'' b d1) default_size,
                            GeminiCall ''gemini-pro'' (banner_prompt b up bs),
                            DalleCall (final_prompt ''banner'' b d2) default_size]\<rparr>)"
  using assms
  by (simp add: generate_unique_images_def image_prompts_def image_attempt_ok js_simps)

text \<open>C12: When any step of the loop fails and the brand name is a string, the fan-out
  returns two picsum placeholders seeded by the name without white space and by the clock
  and the clock plus one; the two URLs differ.\<close>

theorem fan_out_failure_placeholders:
  assumes "fst (image_loop b (image_prompts b up bs) [] w) = Inl e" and "b = JStr n"
  shows "fst (generate_unique_images b up bs w) =
           Inr [JStr (picsum_url (filter (\<lambda>c. \<not> js_space c) n) (clock w)),
                JStr (picsum_url (filter (\<lambda>c. \<not> js_space c) n) (clock w + 1))] \<and>
         picsum_url (filter (\<lambda>c. \<not> js_space c) n) (clock w) \<noteq>
         picsum_url (filter (\<lambda>c. \<not> js_space c) n) (clock w + 1)"
proof -
  obtain w' where l: "image_loop b (image_prompts b up bs) [] w = (Inl e, w')"
    using assms(1) by (cases "image_loop b (image_prompts b up bs) [] w") simp
  have "clock w' = clock w" using image_loop_clock [of b "image_prompts b up bs" "[]" w] l by simp
  then show ?thesis
    using generate_unique_images_caught [OF l] assms(2) by (simp add: ultimate_fallback_string picsum_url_distinct)
qed

text \<open>C13: A failure of the banner request discards the social image already generated:
  the result is the two placeholders, after three calls.\<close>

theorem fan_out_second_failure_discards_first:
  assumes "gemini_queue w = GeminiText d1 # GeminiFailure m # gs"
    and "dalle_queue w = dalle_ok u1 # ds" and "b = JStr n"
  shows "generate_unique_images b up bs w =
     (Inr [JStr (picsum_url (filter (\<lambda>c. \<not> js_space c) n) (clock w)),
           JStr (picsum_url (filter (\<lambda>c. \<not> js_space c) n) (clock w + 1))],
      w\<lparr>gemini_queue := gs, dalle_queue := ds,
        calls := calls w @ [GeminiCall ''gemini-pro'' (social_prompt b up bs),
                            DalleCall (final_prompt ''social'' b d1) default_size,
                            GeminiCall ''gemini-pro'' (banner_prompt b up bs)]\<rparr>)"
  using assms
  by (simp add: generate_unique_images_def image_prompts_def image_attempt_ok image_attempt_gemini_failure
      js_simps ultimate_fallback_string)

text \<open>C14: When any step of the loop fails and the brand name is not a string (for instance
  \<^verbatim>\<open>undefined\<close>), the fan-out rejects with a \<open>TypeError\<close>.\<close>

theorem fan_out_rejects_non_string_name:
  assumes "fst (image_loop b (image_prompts b up bs) [] w) = Inl e" and "\<And>n. b \<noteq> JStr n"
  shows "\<exists>t. fst (generate_unique_images b up bs w) = Inl (TypeError t)"
proof -
  obtain w' where l: "image_loop b (image_prompts b up bs) [] w = (Inl e, w')"
    using assms(1) by (cases "image_loop b (image_prompts b up bs) [] w") simp
  show ?thesis using generate_unique_images_caught [OF l] ultimate_fallback_other [OF assms(2), of w'] by auto
qed

text \<open>C15: When the social attempt fails, no further provider call is made: the banner is
  never requested.\<close>

theorem fan_out_social_failure_stops:
  assumes "fst (image_attempt b ''social'' (social_prompt b up bs) w) = Inl e"
  shows "calls (snd (generate_unique_images b up bs w)) =
         calls (snd (image_attempt b ''social'' (social_prompt b up bs) w))"
proof -
  obtain w' where a: "image_attempt b ''social'' (social_prompt b up bs) w = (Inl e, w')"
    using assms by (cases "image_attempt b ''social'' (social_prompt b up bs) w") simp
  have "image_loop b (image_prompts b up bs) [] w = (Inl (ReferenceError ''i is not defined''), w')"
    using a by (simp add: image_prompts_def js_simps)
  then show ?thesis using a
    by (cases "\<exists>n. b = JStr n")
       (auto simp: generate_unique_images_caught ultimate_fallback_def strip_spaces_def provider_simps js_simps
             split: jsval.splits)
qed

lemma fan_out_all_succeed_witness:
  "fst (generate_unique_images (JStr ''Fox'') (JStr ''idea'') JUndef
          (quiet_world\<lparr>gemini_queue := [GeminiText ''a'', GeminiText ''b''],
                        dalle_queue := [dalle_ok ''u1'', dalle_ok ''u2'']\<rparr>))
   = Inr [JStr ''u1'', JStr ''u2'']"
  using fan_out_all_succeed [of "quiet_world\<lparr>gemini_queue := [GeminiText ''a'', GeminiText ''b''],
                        dalle_queue := [dalle_ok ''u1'', dalle_ok ''u2'']\<rparr>" "''a''" "''b''" "[]" "''u1''" "''u2''" "[]"
      "JStr ''Fox''" "JStr ''idea''" JUndef]
  by (simp add: quiet_world_def)

lemma fan_out_failure_placeholders_witness:
  "fst (generate_unique_images (JStr ''Fox Co'') (JStr ''idea'') JUndef quiet_world)
   = Inr [JStr (picsum_url ''FoxCo'' 0), JStr (picsum_url ''FoxCo'' 1)]"
proof -
  have l: "fst (image_loop (JStr ''Fox Co'') (image_prompts (JStr ''Fox Co'') (JStr ''idea'') JUndef) [] quiet_world)
           = Inl (ReferenceError ''i is not defined'')"
    by (simp add: image_prompts_def image_attempt_def quiet_world_def provider_simps js_simps)
  show ?thesis using fan_out_failure_placeholders [OF l, of "''Fox Co''"]
    by (simp add: quiet_world_def js_space_def)
qed

lemma fan_out_second_failure_discards_first_witness:
  "fst (generate_unique_images (JStr ''Fox'') (JStr ''idea'') JUndef
          (quiet_world\<lparr>gemini_queue := [GeminiText ''a'', GeminiFailure ''quota''],
                        dalle_queue := [dalle_ok ''u1'']\<rparr>))
   = Inr [JStr (picsum_url ''Fox'' 0), JStr (picsum_url ''Fox'' 1)]"
  using fan_out_second_failure_discards_first [of "quiet_world\<lparr>gemini_queue := [GeminiText ''a'', GeminiFailure ''quota''],
                        dalle_queue := [dalle_ok ''u1'']\<rparr>" "''a''" "''quota''" "[]" "''u1''" "[]" "JStr ''Fox''" "''Fox''"
      "JStr ''idea''" JUndef]
  by (simp add: quiet_world_def js_space_def)

lemma fan_out_rejects_non_string_name_witness:
  "\<exists>t. fst (generate_unique_images JUndef (JStr ''idea'') JUndef quiet_world) = Inl (TypeError t)"
proof -
  have l: "fst (image_loop JUndef (image_prompts JUndef (JStr ''idea'') JUndef) [] quiet_world)
           = Inl (ReferenceError ''i is not defined'')"
    by (simp add: image_prompts_def image_attempt_def quiet_world_def provider_simps js_simps)
  show ?thesis using fan_out_rejects_non_string_name [OF l] by simp
qed

lemma fan_out_social_failure_stops_witness:
  "calls (snd (generate_unique_images JUndef (JStr ''idea'') JUndef quiet_world))
   = [GeminiCall ''gemini-pro'' (social_prompt JUndef (JStr ''idea'') JUndef)]"
proof -
  have a: "fst (image_attempt JUndef ''social'' (social_prompt JUndef (JStr ''idea'') JUndef) quiet_world)
           = Inl (GeminiError ''fetch failed'')"
    by (simp add: image_attempt_def quiet_world_def provider_simps js_simps)
  show ?thesis using fan_out_social_failure_stops [OF a]
    by (simp add: image_attempt_def quiet_world_def provider_simps js_simps)
qed

end
