(* ===== verification/Generate.thy ===== *)
theory Generate
  imports Voice Images Json Cleaning
begin

text \<open>
  The orchestrator \<^verbatim>\<open>POST /api/generate\<close> of server.js (lines 519--794), the last of the
  three handlers of that route in the file and the one the specification follows. It
  reads \<^verbatim>\<open>userPrompt\<close> from the request body, asks Gemini (\<^verbatim>\<open>gemini-1.5-flash\<close>)
  for a brand identity, cleans and parses the reply (theories \<open>Cleaning\<close> and
  \<open>Json\<close>), runs the image fan-out (theory \<open>Images\<close>) with the identity's
  \<^verbatim>\<open>brandName\<close> and \<^verbatim>\<open>brandStory\<close>, and ends in the voice stage (theory \<open>Voice\<close>),
  which sends the reply. Three nested \<^verbatim>\<open>try\<close> blocks turn exceptions into 500 replies:
  the innermost (parse, fan-out, voice) into ``Failed to parse AI response'', the middle
  one (the Gemini call) into ``Failed to generate brand identity'', the outer one into
  ``An unexpected error occurred''.

  Lemmas: every request gets exactly one reply; the reply for a missing prompt, a Gemini
  failure and an unparseable reply; a fenced JSON reply is parsed to the value it
  encodes; the replies of a whole request when the identity lacks \<^verbatim>\<open>brandName\<close>,
  as the prompt makes it: a DALL-E outage gives a 500, and a healthy run gives the
  DALL-E URLs and no audio.
\<close>

section \<open>Definitions\<close>

definition qt :: "string \<Rightarrow> string" where
  "qt s = dq @ s @ dq"

definition nl12 :: string where
  "nl12 = CHR ''\<newline>'' # replicate 12 CHR '' ''"

text \<open>Lines 537--539.\<close>

definition identity_prompt :: "jsval \<Rightarrow> string" where
  "identity_prompt userPrompt =
     ''Based on the product idea '' @ qt (js_to_string userPrompt) @
     '', create a detailed brand identity. '' @ nl12 @
     ''Respond with ONLY a valid JSON object with keys: '' @ qt ''mascotDescription'' @ '', '' @
     qt ''visualStyle'' @ '', and '' @ qt ''adSlogan'' @ ''. Example: '' @ nl12 @
     ''{'' @ qt ''mascotDescription'' @ '': '' @ qt ''A cheerful fox with glasses'' @ '', '' @
     qt ''visualStyle'' @ '': '' @ qt ''Modern and minimal'' @ '', '' @
     qt ''adSlogan'' @ '': '' @ qt ''Smart choices, bright future'' @ ''}''"

text \<open>Lines 554--564 with the voice stage, and the handler of lines 781--785.\<close>

definition identity_stage :: "jsval \<Rightarrow> string \<Rightarrow> (world, http_response) js" where
  "identity_stage userPrompt cleanedResponse =
     js_catch
       (js_bind (js_lift (json_parse cleanedResponse)) (\<lambda>brandIdentity.
        js_bind (js_lift (js_get brandIdentity ''brandName'')) (\<lambda>brandName.
        js_bind (js_lift (js_get brandIdentity ''brandStory'')) (\<lambda>brandStory.
        js_bind (generate_unique_images brandName userPrompt brandStory) (\<lambda>imageUrls.
        voice_stage brandIdentity imageUrls)))))
       (\<lambda>jsonError. js_return (json_error 500 ''Failed to parse AI response. Please try again.''))"

text \<open>Lines 520--794.\<close>

definition handle_generate :: "jsval \<Rightarrow> (world, http_response) js" where
  "handle_generate reqBody =
     js_catch
       (js_bind (js_lift (js_get reqBody ''userPrompt'')) (\<lambda>userPrompt.
        if \<not> truthy userPrompt then js_return (json_error 400 ''userPrompt is required'')
        else
          js_catch
            (js_bind (gemini_generate ''gemini-1.5-flash'' (identity_prompt userPrompt)) (\<lambda>identityResponseText.
             identity_stage userPrompt (clean_response identityResponseText)))
            (\<lambda>geminiError. js_return (json_error 500 ''Failed to generate brand identity. Please try again.''))))
       (\<lambda>error. js_return (json_error 500 ''An unexpected error occurred. Please try again.''))"

text \<open>A request as the frontend sends it.\<close>

definition sample_request :: jsval where
  "sample_request = JObj [(''userPrompt'', JStr ''eco shoes'')]"

section \<open>Lemmas\<close>

lemma stringify_trim: "js_trim (json_stringify v) = json_stringify v"
  using stringify_ends [of v] by (intro js_trim_fixed) simp

lemma handle_generate_prompt:
  "\<not> nullish req \<Longrightarrow> truthy (prop_of req ''userPrompt'') \<Longrightarrow>
   handle_generate req w =
     js_catch
       (js_bind (gemini_generate ''gemini-1.5-flash'' (identity_prompt (prop_of req ''userPrompt''))) (\<lambda>t.
        identity_stage (prop_of req ''userPrompt'') (clean_response t)))
       (\<lambda>geminiError. js_return (json_error 500 ''Failed to generate brand identity. Please try again.'')) w"
  by (simp add: handle_generate_def js_simps js_get_def split: prod.splits sum.splits)

lemma voice_stage_status_split:
  "voice_stage identity urls w = (x, w') \<Longrightarrow> \<exists>r. x = Inr r \<and> status r \<in> {200, 500}"
  using voice_stage_status [of identity urls w] by auto

lemma identity_stage_status:
  "\<exists>r. fst (identity_stage up c w) = Inr r \<and> status r \<in> {200, 500}"
  by (auto simp: identity_stage_def js_simps json_error_def split: prod.splits sum.splits
      dest!: voice_stage_status_split)

lemma identity_stage_parse_failure:
  "json_parse c = Inl e \<Longrightarrow>
   identity_stage up c w = (Inr (json_error 500 ''Failed to parse AI response. Please try again.''), w)"
  by (simp add: identity_stage_def js_simps)

text \<open>C1: Every request gets exactly one reply, with status 200, 400 or 500: no exception escapes the handler.\<close>

theorem generate_always_replies:
  "\<exists>r w'. handle_generate req w = (Inr r, w') \<and> status r \<in> {200, 400, 500}"
proof (cases "nullish req \<or> \<not> truthy (prop_of req ''userPrompt'')")
  case True
  then show ?thesis by (auto simp: handle_generate_def js_simps js_get_def json_error_def)
next
  case False
  let ?up = "prop_of req ''userPrompt''"
  obtain x w1 where g: "gemini_generate ''gemini-1.5-flash'' (identity_prompt ?up) w = (x, w1)" by fastforce
  show ?thesis
  proof (cases x)
    case (Inl e)
    then show ?thesis using False g by (simp add: handle_generate_prompt js_simps json_error_def)
  next
    case (Inr t)
    obtain r w2 where i: "identity_stage ?up (clean_response t) w1 = (Inr r, w2)" "status r \<in> {200, 500}"
      using identity_stage_status [of ?up "clean_response t" w1] by (metis prod.collapse)
    then show ?thesis using False g Inr by (auto simp: handle_generate_prompt js_simps)
  qed
qed

text \<open>A request without a truthy \<^verbatim>\<open>userPrompt\<close> is answered 400 before any provider call.\<close>

lemma generate_missing_prompt:
  "\<not> nullish req \<Longrightarrow> \<not> truthy (prop_of req ''userPrompt'') \<Longrightarrow>
   handle_generate req w = (Inr (json_error 400 ''userPrompt is required''), w)"
  by (simp add: handle_generate_def js_simps js_get_def)

text \<open>When the identity request to Gemini fails, the reply is the 500 ``Failed to generate brand identity'' and no other call is made.\<close>

theorem generate_gemini_failure:
  assumes "\<not> nullish req" "truthy (prop_of req ''userPrompt'')" "gemini_queue w = GeminiFailure m # gs"
  shows "handle_generate req w =
     (Inr (json_error 500 ''Failed to generate brand identity. Please try again.''),
      w\<lparr>gemini_queue := gs,
        calls := calls w @ [GeminiCall ''gemini-1.5-flash'' (identity_prompt (prop_of req ''userPrompt''))]\<rparr>)"
  using assms by (simp add: handle_generate_prompt js_simps provider_simps)

text \<open>C16: When the cleaned Gemini reply does not begin like a JSON value (prose, say),
  which \<^verbatim>\<open>JSON.parse\<close> refuses, the reply is the 500 ``Failed to parse AI response''
  after the one Gemini call.\<close>

theorem generate_unparseable_reply:
  assumes "\<not> nullish req" "truthy (prop_of req ''userPrompt'')" "gemini_queue w = GeminiText t # gs"
    and "skip_ws (clean_response t) = [] \<or> \<not> json_start (hd (skip_ws (clean_response t)))"
  shows "handle_generate req w =
     (Inr (json_error 500 ''Failed to parse AI response. Please try again.''),
      w\<lparr>gemini_queue := gs,
        calls := calls w @ [GeminiCall ''gemini-1.5-flash'' (identity_prompt (prop_of req ''userPrompt''))]\<rparr>)"
  using assms json_parse_bad_start [OF assms(4)]
  by (simp add: handle_generate_prompt js_simps provider_simps identity_stage_parse_failure)

text \<open>C17: A Gemini reply that is the JSON text of a value (without backticks or \<^verbatim>\<open>undefined\<close>) in a \<^verbatim>\<open>```json\<close> fence, with white space around it, is cleaned and parsed back to that value.\<close>

theorem generate_identity_parses:
  assumes "json_value v" "CHR ''`'' \<notin> set (json_stringify v)"
    and "list_all js_space pre" "list_all js_space post"
  shows "json_parse (clean_response (pre @ ''```json'' @ json_stringify v @ ''```'' @ post)) = Inr v"
  using clean_response_fenced [of pre post "json_stringify v"] assms
  by (simp add: list_all_iff stringify_trim json_parse_stringify)

text \<open>C3: When the identity has no \<^verbatim>\<open>brandName\<close> (the prompt never asks for one) and DALL-E fails, the request is answered with the 500 ``Failed to parse AI response'': the fan-out's fallback throws and the voice stage is never reached.\<close>

theorem generate_dalle_outage:
  assumes "\<not> nullish req" "truthy (prop_of req ''userPrompt'')"
    and "gemini_queue w = GeminiText reply # GeminiText d1 # gs"
    and "json_parse (clean_response reply) = Inr ident" "\<not> nullish ident" "prop_of ident ''brandName'' = JUndef"
    and "dalle_queue w = JsonResponse st x # ds" "\<not> success_status st"
  shows "fst (handle_generate req w) = Inr (json_error 500 ''Failed to parse AI response. Please try again.'')"
proof -
  let ?up = "prop_of req ''userPrompt''"
  let ?bs = "prop_of ident ''brandStory''"
  let ?w1 = "w\<lparr>gemini_queue := GeminiText d1 # gs, calls := calls w @ [GeminiCall ''gemini-1.5-flash'' (identity_prompt ?up)]\<rparr>"
  obtain e w2 where l: "image_loop JUndef (image_prompts JUndef ?up ?bs) [] ?w1 = (Inl e, w2)"
    using assms(7,8) by (simp add: image_prompts_def image_attempt_dalle_failure js_simps)
  obtain t where f: "ultimate_fallback JUndef w2 = (Inl (TypeError t), w2)"
    using ultimate_fallback_other [of JUndef w2] by auto
  have "identity_stage ?up (clean_response reply) ?w1 =
          (Inr (json_error 500 ''Failed to parse AI response. Please try again.''), w2)"
    using assms(4,5,6) generate_unique_images_caught [OF l] f
    by (simp add: identity_stage_def js_simps js_get_def)
  then show ?thesis using assms(1,2,3) by (simp add: handle_generate_prompt js_simps provider_simps)
qed

text \<open>C2: When every provider answers, the reply is the 200 response with the two DALL-E URLs and no audio, after seven calls in this order: identity, social description, social image, banner description, banner image, voice catalog, one synthesis.\<close>

theorem generate_healthy_run:
  assumes "\<not> nullish req" "truthy (prop_of req ''userPrompt'')"
    and "gemini_queue w = GeminiText reply # GeminiText d1 # GeminiText d2 # gs"
    and "json_parse (clean_response reply) = Inr ident" "\<not> nullish ident"
    and "dalle_queue w = dalle_ok u1 # dalle_ok u2 # ds"
    and "voices_queue w = JsonResponse st d # q" "success_status st"
    and "catalog_voices d = Inr av" "personality_category ident = Inr c" "select_voice c av = Inr sel"
  shows "handle_generate req w =
     (Inr (no_audio_response ident [JStr u1, JStr u2] ''ElevenLabs API error. Please try again.''),
      w\<lparr>gemini_queue := gs, dalle_queue := ds, voices_queue := q, tts_queue := drop 1 (tts_queue w),
        calls := calls w @
          [GeminiCall ''gemini-1.5-flash'' (identity_prompt (prop_of req ''userPrompt'')),
           GeminiCall ''gemini-pro'' (social_prompt (prop_of ident ''brandName'') (prop_of req ''userPrompt'') (prop_of ident ''brandStory'')),
           DalleCall (final_prompt ''social'' (prop_of ident ''brandName'') d1) default_size,
           GeminiCall ''gemini-pro'' (banner_prompt (prop_of ident ''brandName'') (prop_of req ''userPrompt'') (prop_of ident ''brandStory'')),
           DalleCall (final_prompt ''banner'' (prop_of ident ''brandName'') d2) default_size,
           VoicesCall,
           TtsCall (tts_base @ js_to_string (prop_of sel ''voice_id'') @ ''/stream'')
             (prop_of ident ''adSlogan'') ''eleven_multilingual_v2'' primary_settings]\<rparr>)"
proof -
  have "\<not> nullish sel" using select_voice_truthy [OF assms(11)] truthy_not_nullish by blast
  then show ?thesis using assms
    by (simp add: handle_generate_prompt identity_stage_def generate_unique_images_def image_prompts_def
        image_attempt_ok voice_stage_def synthesize_voiceover_eq js_simps js_get_def provider_simps)
qed

subsection \<open>Witnesses\<close>

lemma generate_missing_prompt_witness:
  "handle_generate (JObj []) quiet_world = (Inr (json_error 400 ''userPrompt is required''), quiet_world)"
  using generate_missing_prompt [of "JObj []" quiet_world] by simp

lemma generate_gemini_failure_witness:
  "fst (handle_generate sample_request (quiet_world\<lparr>gemini_queue := [GeminiFailure ''quota'']\<rparr>)) =
     Inr (json_error 500 ''Failed to generate brand identity. Please try again.'')"
  using generate_gemini_failure [of sample_request "quiet_world\<lparr>gemini_queue := [GeminiFailure ''quota'']\<rparr>" "''quota''" "[]"]
  by (simp add: sample_request_def quiet_world_def)

lemma generate_unparseable_reply_witness:
  "fst (handle_generate sample_request (quiet_world\<lparr>gemini_queue := [GeminiText ''Sure!'']\<rparr>)) =
     Inr (json_error 500 ''Failed to parse AI response. Please try again.'')"
proof -
  have p: "skip_ws (clean_response ''Sure!'') = [] \<or> \<not> json_start (hd (skip_ws (clean_response ''Sure!'')))"
    by code_simp
  show ?thesis
    using generate_unparseable_reply [of sample_request "quiet_world\<lparr>gemini_queue := [GeminiText ''Sure!'']\<rparr>"
        "''Sure!''" "[]", OF _ _ _ p]
    by (simp add: sample_request_def quiet_world_def)
qed

lemma generate_identity_parses_witness:
  "json_parse (clean_response ('' '' @ ''```json'' @ json_stringify (JObj [(''adSlogan'', JStr ''Go'')]) @ ''```'' @ []))
   = Inr (JObj [(''adSlogan'', JStr ''Go'')])"
  using generate_identity_parses [of "JObj [(''adSlogan'', JStr ''Go'')]" "'' ''" "[]"]
  by (simp add: quote_def esc_char_def js_space_def)

lemma generate_dalle_outage_witness:
  "fst (handle_generate sample_request
          (quiet_world\<lparr>gemini_queue := [GeminiText ''{}'', GeminiText ''d''],
                       dalle_queue := [JsonResponse 500 JNull]\<rparr>)) =
     Inr (json_error 500 ''Failed to parse AI response. Please try again.'')"
proof -
  have p: "json_parse (clean_response ''{}'') = Inr (JObj [])" by code_simp
  show ?thesis
    using generate_dalle_outage [of sample_request "quiet_world\<lparr>gemini_queue := [GeminiText ''{}'', GeminiText ''d''],
                       dalle_queue := [JsonResponse 500 JNull]\<rparr>" "''{}''" "''d''" "[]" "JObj []", OF _ _ _ p]
    by (simp add: sample_request_def quiet_world_def success_status_def)
qed

lemma generate_healthy_run_witness:
  "fst (handle_generate sample_request
          (quiet_world\<lparr>gemini_queue := [GeminiText ''{}'', GeminiText ''a'', GeminiText ''b''],
                       dalle_queue := [dalle_ok ''u1'', dalle_ok ''u2''],
                       voices_queue := [JsonResponse 200 (JObj [(''voices'', JArr [bella])])]\<rparr>)) =
     Inr (no_audio_response (JObj []) [JStr ''u1'', JStr ''u2''] ''ElevenLabs API error. Please try again.'')"
proof -
  have p: "json_parse (clean_response ''{}'') = Inr (JObj [])" by code_simp
  have c: "catalog_voices (JObj [(''voices'', JArr [bella])]) = Inr (JArr [bella])"
    by (simp add: catalog_voices_def)
  have k: "personality_category (JObj []) = Inr Professional"
    by (simp add: personality_category_def brand_personality_def classify_personality_def js_lower_def)
  have v: "select_voice Professional (JArr [bella]) = Inr bella"
    by (simp add: select_voice_def voice_matches_def js_get_def bella_def Let_def)
  show ?thesis
    using generate_healthy_run [of sample_request "quiet_world\<lparr>gemini_queue := [GeminiText ''{}'', GeminiText ''a'', GeminiText ''b''],
                       dalle_queue := [dalle_ok ''u1'', dalle_ok ''u2''],
                       voices_queue := [JsonResponse 200 (JObj [(''voices'', JArr [bella])])]\<rparr>"
        "''{}''" "''a''" "''b''" "[]" "JObj []" "''u1''" "''u2''" "[]" 200 _ "[]", OF _ _ _ p _ _ _ _ c k v]
    by (simp add: sample_request_def quiet_world_def success_status_def)
qed

end
