(* ===== verification/Hash.thy ===== *)
theory Hash
  imports Js_Base "HOL-Library.Word"
begin

text \<open>
  \<^verbatim>\<open>generateUniqueHash\<close> of server.js (lines 474--483), a Java-style string hash. The
  loop computes \<^verbatim>\<open>hash = ((hash << 5) - hash) + char\<close> and then
  \<^verbatim>\<open>hash = hash & hash\<close>, which converts to a 32-bit two's complement integer; as
  \<^verbatim>\<open><<\<close> also works on 32 bits, every step is exact on a \<open>32 word\<close>, with
  wrap-around. The string hashed is \<^verbatim>\<open>text + Date.now() + Math.random()\<close>; the random
  part is an input of the model (\<open>random\<close>, its decimal text). The function is never
  called by the backend. \<^verbatim>\<open>generateUniqueSeed\<close> (lines 38--42 and 197--201) hashes with
  SHA-256; it is modelled in theory \<open>Seed\<close>.

  Lemmas: the shift form is multiplication by 31, the loop equals the reference
  polynomial hash \<open>\<Sum> c\<^sub>i * 31 ^ (n - 1 - i)\<close> modulo \<open>2 ^ 32\<close>, and
  \<^verbatim>\<open>Math.abs\<close> of the signed result lies in \<open>[0, 2 ^ 31]\<close>.
\<close>

section \<open>Definitions\<close>

text \<open>One iteration of lines 477--480 (\<^verbatim>\<open>hash & hash\<close> is the identity on a word).\<close>

definition hash_step :: "32 word \<Rightarrow> char \<Rightarrow> 32 word" where
  "hash_step h c = (push_bit 5 h - h) + of_nat (of_char c)"

fun hash_loop :: "32 word \<Rightarrow> string \<Rightarrow> 32 word" where
  "hash_loop h [] = h"
| "hash_loop h (c # cs) = hash_loop (hash_step h c) cs"

text \<open>Lines 474--483.\<close>

definition generate_unique_hash :: "string \<Rightarrow> nat \<Rightarrow> string \<Rightarrow> int" where
  "generate_unique_hash text now random = \<bar>sint (hash_loop 0 (text @ nat_str now @ random))\<bar>"

text \<open>The reference: Horner evaluation of the character codes in base 31, unbounded.\<close>

definition poly_hash :: "string \<Rightarrow> nat" where
  "poly_hash s = foldl (\<lambda>h c. 31 * h + of_char c) 0 s"

section \<open>Lemmas\<close>

lemma hash_step_mult: "hash_step h c = 31 * h + of_nat (of_char c)"
  by (simp add: hash_step_def push_bit_eq_mult)

lemma foldl_poly_mod:
  "foldl (\<lambda>h c. 31 * h + of_char c) (a mod 2 ^ 32) s mod 2 ^ 32 =
   foldl (\<lambda>h c. 31 * h + of_char c) a s mod (2 ^ 32 :: nat)"
proof (induction s arbitrary: a)
  case (Cons c cs)
  have "(31 * (a mod 2 ^ 32) + of_char c) mod 2 ^ 32 = (31 * a + of_char c) mod (2 ^ 32 :: nat)"
    by (metis mod_add_left_eq mod_mult_right_eq)
  then show ?case using Cons [of "31 * (a mod 2 ^ 32) + of_char c"] Cons [of "31 * a + of_char c"] by simp
qed simp

lemma hash_loop_poly:
  "unat (hash_loop h s) = foldl (\<lambda>h c. 31 * h + of_char c) (unat h) s mod 2 ^ 32"
proof (induction s arbitrary: h)
  case Nil
  have "unat h < 2 ^ 32" using unsigned_less [of h] by simp
  then show ?case by simp
next
  case (Cons c cs)
  have "unat (hash_step h c) = (31 * unat h + of_char c) mod 2 ^ 32"
    by (simp add: hash_step_mult unat_word_ariths unat_of_nat) (metis mod_add_eq)
  then show ?case using Cons foldl_poly_mod [of "31 * unat h + of_char c" cs] by simp
qed

lemma hash_loop_example: "hash_loop 0 ''ab'' = 3105"
  by (simp add: hash_step_mult)

text \<open>C18: The shift-and-subtract loop computes the polynomial hash with base 31 modulo
  \<open>2 ^ 32\<close>: the optimised form equals the reference definition.\<close>

theorem hash_loop_poly_hash: "unat (hash_loop 0 s) = poly_hash s mod 2 ^ 32"
  by (simp add: poly_hash_def hash_loop_poly)

text \<open>The result of \<^verbatim>\<open>generateUniqueHash\<close> is between 0 and \<open>2 ^ 31\<close>: the
  absolute value of a signed 32-bit integer.\<close>

theorem generate_unique_hash_bounds: "0 \<le> generate_unique_hash t n r \<and> generate_unique_hash t n r \<le> 2 ^ 31"
proof -
  have "- (2 ^ 31) \<le> sint (hash_loop 0 (t @ nat_str n @ r))" "sint (hash_loop 0 (t @ nat_str n @ r)) < 2 ^ 31"
    using sint_ge [of "hash_loop 0 (t @ nat_str n @ r)"] sint_lt [of "hash_loop 0 (t @ nat_str n @ r)"] by simp_all
  then show ?thesis by (simp add: generate_unique_hash_def)
qed

end
