(* ===== verification/Visual.thy ===== *)
theory Visual
  imports Generate Encoding
begin

text \<open>
  The endpoint \<^verbatim>\<open>POST /api/generate-visual-concept\<close> of server.js (lines 797--870). It
  checks that the body carries a truthy \<^verbatim>\<open>brandIdentity\<close> and
  \<^verbatim>\<open>referenceImageUrl\<close>, downloads the reference image with \<^verbatim>\<open>fetch\<close>, sends it in
  base64 with a prompt built from the identity to Gemini (\<^verbatim>\<open>gemini-1.5-pro\<close>), cleans
  and parses the reply as the orchestrator does, and answers with the parsed concept and
  the URL. The MIME type sent is \<^verbatim>\<open>image/png\<close> when the URL ends with
  \<^verbatim>\<open>.png\<close>, else \<^verbatim>\<open>image/jpeg\<close>. As in the orchestrator, nested
  \<^verbatim>\<open>try\<close> blocks give three different 500 replies.

  Lemmas: every request gets one reply (200, 400 or 500); the 400 for missing fields
  without any call; the reply and the two calls of a successful run, the image sent being
  the fetched bytes whatever the HTTP status of the download; the 500 replies for a
  failed download and for an unparseable reply; the MIME type of some URLs.
\<close>

section \<open>Definitions\<close>

text \<open>\<^verbatim>\<open>String.prototype.endsWith\<close>.\<close>

definition ends_with :: "string \<Rightarrow> string \<Rightarrow> bool" where
  "ends_with s p = starts_with (rev s) (rev p)"

text \<open>Line 817: \<^verbatim>\<open>referenceImageUrl.endsWith('.png')\<close>; only a string has the method.\<close>

definition mime_type :: "jsval \<Rightarrow> exn + string" where
  "mime_type url =
     (case url of
        JStr s \<Rightarrow> Inr (if ends_with s ''.png'' then ''image/png'' else ''image/jpeg'')
      | _ \<Rightarrow> Inl (TypeError ''referenceImageUrl.endsWith is not a function''))"

text \<open>Lines 829--836.\<close>

definition visual_prompt :: "jsval \<Rightarrow> string" where
  "visual_prompt brandIdentity =
     ''Based on this reference image and the following brand identity:'' @ nl12 @
     ''- Mascot: '' @ js_to_string (prop_of brandIdentity ''mascotDescription'') @ nl12 @
     ''- Visual Style: '' @ js_to_string (prop_of brandIdentity ''visualStyle'') @ nl12 @
     ''- Slogan: '' @ js_to_string (prop_of brandIdentity ''adSlogan'') @ nl12 @ nl12 @
     ''Please provide a detailed description of how to adapt this image to match the brand identity.'' @ nl12 @
     ''Also include a color palette (with hex codes) that would work well with this brand.'' @ nl12 @
     ''Respond in JSON format with keys: '' @ qt ''conceptDescription'' @ '', '' @ qt ''colorPalette'' @
     '', '' @ qt ''designElements'' @ '', and '' @ qt ''visualInspiration'' @ ''.''"

text \<open>Lines 852--855: the success reply.\<close>

definition concept_response :: "jsval \<Rightarrow> jsval \<Rightarrow> http_response" where
  "concept_response visualConcept referenceImageUrl =
     \<lparr>status = 200, body = JObj [(''visualConcept'', visualConcept), (''referenceImageUrl'', referenceImageUrl)]\<rparr>"

text \<open>Lines 810--864: the inner \<^verbatim>\<open>try\<close> block and its two handlers.\<close>

definition visual_concept_stage :: "jsval \<Rightarrow> jsval \<Rightarrow> (world, http_response) js" where
  "visual_concept_stage brandIdentity referenceImageUrl =
     js_catch
       (js_bind (fetch_bytes (js_to_string referenceImageUrl)) (\<lambda>imageData.
        js_bind (js_lift (mime_type referenceImageUrl)) (\<lambda>mimeType.
        js_bind (gemini_generate_vision ''gemini-1.5-pro'' (visual_prompt brandIdentity) mimeType
                   (base64_encode imageData)) (\<lambda>responseText.
        js_catch
          (js_bind (js_lift (json_parse (clean_response responseText))) (\<lambda>visualConcept.
           js_return (concept_response visualConcept referenceImageUrl)))
          (\<lambda>jsonError. js_return (json_error 500 ''Failed to parse visual concept response.''))))))
       (\<lambda>geminiError. js_return (json_error 500 ''Failed to generate visual concept. Please try again.''))"

text \<open>Lines 797--870.\<close>

definition handle_visual_concept :: "jsval \<Rightarrow> (world, http_response) js" where
  "handle_visual_concept reqBody =
     js_catch
       (js_bind (js_lift (js_get reqBody ''brandIdentity'')) (\<lambda>brandIdentity.
        js_bind (js_lift (js_get reqBody ''referenceImageUrl'')) (\<lambda>referenceImageUrl.
        if \<not> truthy brandIdentity \<or> \<not> truthy referenceImageUrl
        then js_return (json_error 400 ''brandIdentity and referenceImageUrl are required'')
        else visual_concept_stage brandIdentity referenceImageUrl)))
       (\<lambda>error. js_return (json_error 500 ''An unexpected error occurred. Please try again.''))"

section \<open>Lemmas\<close>

lemma visual_stage_status:
  "\<exists>r w'. visual_concept_stage bi url w = (Inr r, w') \<and> status r \<in> {200, 500}"
  by (auto simp: visual_concept_stage_def js_simps json_error_def concept_response_def split: prod.splits sum.splits)

text \<open>C19: Every request to the visual-concept endpoint gets exactly one reply, with status 200, 400 or 500.\<close>

theorem visual_always_replies:
  "\<exists>r w'. handle_visual_concept req w = (Inr r, w') \<and> status r \<in> {200, 400, 500}"
proof (cases "nullish req \<or> \<not> truthy (prop_of req ''brandIdentity'') \<or> \<not> truthy (prop_of req ''referenceImageUrl'')")
  case True
  then show ?thesis by (auto simp: handle_visual_concept_def js_simps js_get_def json_error_def)
next
  case False
  obtain r w' where "visual_concept_stage (prop_of req ''brandIdentity'') (prop_of req ''referenceImageUrl'') w = (Inr r, w')"
      "status r \<in> {200, 500}"
    using visual_stage_status by blast
  then show ?thesis using False by (auto simp: handle_visual_concept_def js_simps js_get_def)
qed

text \<open>A request without a truthy \<^verbatim>\<open>brandIdentity\<close> or \<^verbatim>\<open>referenceImageUrl\<close> is answered 400 before any call.\<close>

lemma visual_missing_fields:
  "\<not> nullish req \<Longrightarrow> \<not> truthy (prop_of req ''brandIdentity'') \<or> \<not> truthy (prop_of req ''referenceImageUrl'') \<Longrightarrow>
   handle_visual_concept req w = (Inr (json_error 400 ''brandIdentity and referenceImageUrl are required''), w)"
  by (auto simp: handle_visual_concept_def js_simps js_get_def)

text \<open>C20: When the download and Gemini succeed and the reply parses, the answer is 200 with the parsed concept and the URL, after two calls: the download, then Gemini with the prompt, the MIME type chosen by the \<^verbatim>\<open>.png\<close> suffix and the image in base64.\<close>

theorem visual_success:
  assumes "truthy bi" "fetch_queue w = FetchResponse st bytes # fq" "gemini_queue w = GeminiText t # gs"
    and "json_parse (clean_response t) = Inr v"
  shows "visual_concept_stage bi (JStr u) w =
     (Inr (concept_response v (JStr u)),
      w\<lparr>fetch_queue := fq, gemini_queue := gs,
        calls := calls w @ [FetchCall u,
          GeminiVisionCall ''gemini-1.5-pro'' (visual_prompt bi)
            (if ends_with u ''.png'' then ''image/png'' else ''image/jpeg'') (base64_encode bytes)]\<rparr>)"
  using assms by (simp add: visual_concept_stage_def js_simps provider_simps mime_type_def)

text \<open>C21: Whatever the HTTP status of the download (a 404 page included), its body is what Gemini receives: the base64 text sent decodes to exactly the fetched bytes.\<close>

theorem visual_sends_fetched_bytes:
  assumes "fetch_queue w = FetchResponse st bytes # fq"
  shows "\<exists>p m d. take 2 (drop (length (calls w)) (calls (snd (visual_concept_stage bi (JStr u) w)))) =
           [FetchCall u, GeminiVisionCall ''gemini-1.5-pro'' p m d] \<and> base64_decode d = Some bytes"
  using assms base64_roundtrip [of bytes]
  by (simp add: visual_concept_stage_def js_simps provider_simps mime_type_def split: prod.splits sum.splits)

text \<open>A failed download is answered with the 500 ``Failed to generate visual concept'' and Gemini is not called.\<close>

lemma visual_fetch_failure:
  assumes "fetch_queue w = FetchFailure # fq"
  shows "visual_concept_stage bi url w =
     (Inr (json_error 500 ''Failed to generate visual concept. Please try again.''),
      w\<lparr>fetch_queue := fq, calls := calls w @ [FetchCall (js_to_string url)]\<rparr>)"
  using assms by (simp add: visual_concept_stage_def js_simps provider_simps)

text \<open>A Gemini reply that, after cleaning, does not begin like a JSON value is answered with the 500 ``Failed to parse visual concept response''.\<close>

lemma visual_unparseable_reply:
  assumes "fetch_queue w = FetchResponse st bytes # fq" "gemini_queue w = GeminiText t # gs"
    and "skip_ws (clean_response t) = [] \<or> \<not> json_start (hd (skip_ws (clean_response t)))"
  shows "fst (visual_concept_stage bi (JStr u) w) =
     Inr (json_error 500 ''Failed to parse visual concept response.'')"
  using assms json_parse_bad_start [OF assms(3)]
  by (simp add: visual_concept_stage_def js_simps provider_simps mime_type_def)

text \<open>The MIME type of example URLs: only an exact \<^verbatim>\<open>.png\<close> suffix gives \<^verbatim>\<open>image/png\<close>.\<close>

lemma visual_mime_examples:
  "mime_type (JStr ''https://a.io/logo.png'') = Inr ''image/png'' \<and>
   mime_type (JStr ''https://a.io/logo.PNG'') = Inr ''image/jpeg'' \<and>
   mime_type (JStr ''https://a.io/logo.png?v=2'') = Inr ''image/jpeg'' \<and>
   mime_type (JStr ''https://a.io/logo.webp'') = Inr ''image/jpeg'' \<and>
   (\<exists>t. mime_type (JNum 7) = Inl (TypeError t))"
  by (simp add: mime_type_def ends_with_def)

subsection \<open>Witnesses\<close>

lemma visual_missing_fields_witness:
  "handle_visual_concept (JObj [(''brandIdentity'', JObj [])]) quiet_world =
     (Inr (json_error 400 ''brandIdentity and referenceImageUrl are required''), quiet_world)"
  using visual_missing_fields [of "JObj [(''brandIdentity'', JObj [])]" quiet_world] by simp

lemma visual_success_witness:
  "fst (visual_concept_stage (JObj []) (JStr ''https://a.io/r.png'')
          (quiet_world\<lparr>fetch_queue := [FetchResponse 200 [1, 2, 3]], gemini_queue := [GeminiText ''{}'']\<rparr>)) =
     Inr (concept_response (JObj []) (JStr ''https://a.io/r.png''))"
proof -
  have p: "json_parse (clean_response ''{}'') = Inr (JObj [])" by code_simp
  show ?thesis
    using visual_success [of "JObj []" "quiet_world\<lparr>fetch_queue := [FetchResponse 200 [1, 2, 3]], gemini_queue := [GeminiText ''{}'']\<rparr>"
        200 "[1, 2, 3]" "[]" "''{}''" "[]", OF _ _ _ p]
    by (simp add: quiet_world_def)
qed

lemma visual_sends_fetched_bytes_witness:
  "\<exists>p m d. take 2 (drop 0 (calls (snd (visual_concept_stage (JObj []) (JStr ''https://a.io/gone.png'')
                (quiet_world\<lparr>fetch_queue := [FetchResponse 404 [60, 104]]\<rparr>))))) =
           [FetchCall ''https://a.io/gone.png'', GeminiVisionCall ''gemini-1.5-pro'' p m d] \<and>
         base64_decode d = Some [60, 104]"
  using visual_sends_fetched_bytes [of "quiet_world\<lparr>fetch_queue := [FetchResponse 404 [60, 104]]\<rparr>" 404 "[60, 104]" "[]"
      "JObj []" "''https://a.io/gone.png''"]
  by (simp add: quiet_world_def)

lemma visual_fetch_failure_witness:
  "fst (visual_concept_stage (JObj []) (JStr ''https://a.io/r.png'') (quiet_world\<lparr>fetch_queue := [FetchFailure]\<rparr>)) =
     Inr (json_error 500 ''Failed to generate visual concept. Please try again.'')"
  using visual_fetch_failure [of "quiet_world\<lparr>fetch_queue := [FetchFailure]\<rparr>" "[]" "JObj []" "JStr ''https://a.io/r.png''"]
  by (simp add: quiet_world_def)

lemma visual_unparseable_reply_witness:
  "fst (visual_concept_stage (JObj []) (JStr ''https://a.io/r.png'')
          (quiet_world\<lparr>fetch_queue := [FetchResponse 200 []], gemini_queue := [GeminiText ''Sure!'']\<rparr>)) =
     Inr (json_error 500 ''Failed to parse visual concept response.'')"
proof -
  have p: "skip_ws (clean_response ''Sure!'') = [] \<or> \<not> json_start (hd (skip_ws (clean_response ''Sure!'')))"
    by code_simp
  show ?thesis
    using visual_unparseable_reply [of "quiet_world\<lparr>fetch_queue := [FetchResponse 200 []], gemini_queue := [GeminiText ''Sure!'']\<rparr>"
        200 "[]" "[]" "''Sure!''" "[]", OF _ _ p]
    by (simp add: quiet_world_def)
qed

end
