(* ===== verification/Legacy.thy ===== *)
theory Legacy
  imports Images Voice
begin

text \<open>
  The earlier drafts of the backend that server.js still contains, in the order of the
  file: the class \<^verbatim>\<open>AIService\<close> (lines 44--126) with the handler
  \<^verbatim>\<open>POST /api/generate\<close> of body \<^verbatim>\<open>{brandName, brandInfo, imageType}\<close>
  (lines 129--172) and the test route \<^verbatim>\<open>GET /api/check-elevenlabs\<close> (lines
  175--187); then the free functions \<^verbatim>\<open>generateImagePromptWithGemini\<close> (204--222) and
  \<^verbatim>\<open>generateVoiceWithElevenLabs\<close> (300--333) with a second handler of the same body
  (251--297); and the later \<^verbatim>\<open>GET /api/check-elevenlabs\<close> (491--517) that lists the
  voices instead of synthesising.

  Function declarations are hoisted and the last of a name wins, so the second handler
  calls the \<^verbatim>\<open>generateImageWithDallE\<close> of lines 356--379 (theory \<open>Images\<close>), which
  rethrows the axios error, and not the draft of lines 225--248, which wraps it as
  ``Image generation failed''. Which of the handlers of a route answers is decided by the
  route table (theory \<open>Server\<close>).

  Lemmas: the replies of both legacy handlers (success, missing fields, the error
  details), the test route's synthesis request, and the replies of the voice listing.
\<close>

section \<open>Definitions\<close>

definition indented :: "nat \<Rightarrow> string list \<Rightarrow> string" where
  "indented n ls = join_with (CHR ''\<newline>'' # replicate n CHR '' '') ls"

text \<open>The DALL-E prompt request of lines 47--55 (indented by twelve) and 206--213 (by eight).\<close>

definition dalle_prompt_request :: "nat \<Rightarrow> jsval \<Rightarrow> jsval \<Rightarrow> jsval \<Rightarrow> string" where
  "dalle_prompt_request ind type brandName context = indented ind
     [''Create a detailed prompt for DALL-E to generate a '' @ js_to_string type @ '' image for the brand ''
        @ dq @ js_to_string brandName @ dq @ ''.'',
      ''Context: '' @ js_to_string context,
      ''Include specific details about:'',
      ''1. Main subject and composition'',
      ''2. Colors and lighting'',
      ''3. Style and mood'',
      ''4. Key visual elements'',
      ''5. Background elements'',
      ''Make it photorealistic and suitable for commercial use.'']"

definition prompt_fallback :: "jsval \<Rightarrow> jsval \<Rightarrow> string" where
  "prompt_fallback type brandName =
     ''Professional '' @ js_to_string type @ '' image for '' @ js_to_string brandName @
     '' with modern design, clear composition, and brand-appropriate elements.''"

text \<open>Lines 45--63: \<^verbatim>\<open>AIService.generateImagePrompt\<close>.\<close>

definition aiservice_image_prompt :: "jsval \<Rightarrow> jsval \<Rightarrow> jsval \<Rightarrow> (world, string) js" where
  "aiservice_image_prompt brandName type context =
     js_catch
       (js_bind (gemini_generate ''gemini-pro'' (dalle_prompt_request 12 type brandName context)) (\<lambda>t.
        js_return (js_trim t)))
       (\<lambda>error. js_return (prompt_fallback type brandName))"

text \<open>Lines 204--222: \<^verbatim>\<open>generateImagePromptWithGemini\<close>.\<close>

definition image_prompt_with_gemini :: "jsval \<Rightarrow> jsval \<Rightarrow> jsval \<Rightarrow> (world, string) js" where
  "image_prompt_with_gemini brandName type context =
     js_catch
       (js_bind (gemini_generate ''gemini-pro'' (dalle_prompt_request 8 type brandName context)) (\<lambda>t.
        js_return (js_trim t)))
       (\<lambda>error. js_return (prompt_fallback type brandName))"

text \<open>Lines 65--92: \<^verbatim>\<open>AIService.generateImage\<close>, the same request as
  \<open>generate_image_with_dalle\<close> with every error replaced by a new one.\<close>

definition aiservice_generate_image :: "string \<Rightarrow> (world, jsval) js" where
  "aiservice_generate_image prompt =
     js_catch (generate_image_with_dalle prompt default_size)
              (\<lambda>error. js_throw (Error ''Image generation failed''))"

text \<open>Lines 225--248: the draft \<^verbatim>\<open>generateImageWithDallE\<close>, the same request and
  the same \<^verbatim>\<open>response.data.data[0].url\<close>, whose \<^verbatim>\<open>catch\<close> replaces every error
  by a new one. It is shadowed by the declaration of lines 356--379 and never runs.\<close>

definition generate_image_with_dalle_draft :: "string \<Rightarrow> string \<Rightarrow> (world, jsval) js" where
  "generate_image_with_dalle_draft prompt sz =
     js_catch
       (js_bind (dalle_post prompt sz) (\<lambda>data.
        js_bind (js_lift (js_get data ''data'')) (\<lambda>images.
        js_bind (js_lift (js_index images 0)) (\<lambda>first.
        js_lift (js_get first ''url'')))))
       (\<lambda>error. js_throw (Error ''Image generation failed''))"

text \<open>The settings of the legacy synthesis (lines 106--111 and 309--314).\<close>

definition legacy_settings :: voice_settings where
  "legacy_settings = \<lparr>stability = 50, similarity_boost = 75, style = 50, use_speaker_boost = True\<rparr>"

definition default_voice :: string where
  "default_voice = ''ThT5KcBeYPX3keUQqHPh''"

definition audio_data_url :: "8 word list \<Rightarrow> string" where
  "audio_data_url audio = ''data:audio/mpeg;base64,'' @ base64_encode audio"

text \<open>Lines 94--125: \<^verbatim>\<open>AIService.generateVoice\<close> with its default voice and model.\<close>

definition aiservice_generate_voice :: "string \<Rightarrow> (world, string) js" where
  "aiservice_generate_voice text =
     js_catch
       (js_bind (tts_post (tts_base @ default_voice) (JStr text) ''eleven_monolingual_v1'' legacy_settings) (\<lambda>audio.
        js_return (audio_data_url audio)))
       (\<lambda>error. js_throw (Error ''Voice generation failed''))"

text \<open>Lines 300--333: \<^verbatim>\<open>generateVoiceWithElevenLabs\<close>.\<close>

definition generate_voice_with_elevenlabs :: "string \<Rightarrow> (world, string) js" where
  "generate_voice_with_elevenlabs text =
     js_catch
       (js_bind (tts_post (tts_base @ default_voice) (JStr text) ''eleven_monolingual_v1'' legacy_settings) (\<lambda>audio.
        js_return (audio_data_url audio)))
       (\<lambda>error. js_throw (Error ''Voice generation failed''))"

text \<open>Lines 145--148 and 268--271.\<close>

definition description_prompt :: "jsval \<Rightarrow> jsval \<Rightarrow> string" where
  "description_prompt brandName brandInfo = indented 8
     [''Create a professional and engaging brand description for '' @ dq @ js_to_string brandName @ dq @ ''. '',
      ''Use this context: '' @ js_to_string brandInfo,
      ''Make it sound natural and compelling, highlighting key brand values and unique selling points.'',
      ''Keep it concise but impactful, around 2-3 sentences.'']"

definition legacy_success :: "jsval \<Rightarrow> string \<Rightarrow> string \<Rightarrow> http_response" where
  "legacy_success imageUrl description audioData =
     \<lparr>status = 200, body = JObj [(''success'', JBool True), (''imageUrl'', imageUrl),
                               (''description'', JStr description), (''audioData'', JStr audioData)]\<rparr>"

definition legacy_failure :: "exn \<Rightarrow> http_response" where
  "legacy_failure e =
     \<lparr>status = 500, body = JObj [(''error'', JStr ''Generation failed''), (''details'', JStr (exn_message e))]\<rparr>"

definition missing_fields :: http_response where
  "missing_fields = json_error 400 ''Missing required fields''"

text \<open>The body of both legacy handlers, given the steps they call.\<close>

definition legacy_pipeline ::
  "(jsval \<Rightarrow> jsval \<Rightarrow> jsval \<Rightarrow> (world, string) js) \<Rightarrow> (string \<Rightarrow> (world, jsval) js) \<Rightarrow>
   (string \<Rightarrow> (world, string) js) \<Rightarrow> jsval \<Rightarrow> (world, http_response) js" where
  "legacy_pipeline image_prompt generate_image generate_voice reqBody =
     js_catch
       (js_bind (js_lift (js_get reqBody ''brandName'')) (\<lambda>brandName.
        js_bind (js_lift (js_get reqBody ''brandInfo'')) (\<lambda>brandInfo.
        js_bind (js_lift (js_get reqBody ''imageType'')) (\<lambda>imageType.
        if \<not> truthy brandName \<or> \<not> truthy brandInfo \<or> \<not> truthy imageType then js_return missing_fields
        else
          js_bind (image_prompt brandName imageType brandInfo) (\<lambda>imagePrompt.
          js_bind (generate_image imagePrompt) (\<lambda>imageUrl.
          js_bind (gemini_generate ''gemini-pro'' (description_prompt brandName brandInfo)) (\<lambda>t.
          js_bind (generate_voice (js_trim t)) (\<lambda>audioData.
          js_return (legacy_success imageUrl (js_trim t) audioData)))))))))
       (\<lambda>error. js_return (legacy_failure error))"

text \<open>Lines 129--172.\<close>

definition legacy_generate_v1 :: "jsval \<Rightarrow> (world, http_response) js" where
  "legacy_generate_v1 = legacy_pipeline aiservice_image_prompt aiservice_generate_image aiservice_generate_voice"

text \<open>Lines 251--297, with the \<^verbatim>\<open>generateImageWithDallE\<close> in force.\<close>

definition legacy_generate_v2 :: "jsval \<Rightarrow> (world, http_response) js" where
  "legacy_generate_v2 =
     legacy_pipeline image_prompt_with_gemini (\<lambda>p. generate_image_with_dalle p default_size)
       generate_voice_with_elevenlabs"

text \<open>Lines 175--187: the test route synthesises a fixed sentence.\<close>

definition test_sentence :: string where
  "test_sentence = ''Hello! This is a test of the ElevenLabs voice synthesis.''"

definition legacy_check_elevenlabs :: "(world, http_response) js" where
  "legacy_check_elevenlabs =
     js_catch
       (js_bind (aiservice_generate_voice test_sentence) (\<lambda>audioData.
        js_return \<lparr>status = 200, body = JObj [(''success'', JBool True), (''audioData'', JStr audioData)]\<rparr>))
       (\<lambda>error. js_return \<lparr>status = 500, body = JObj [(''error'', JStr ''ElevenLabs test failed''),
                                                       (''details'', JStr (exn_message error))]\<rparr>)"

text \<open>Lines 491--517: the voice listing. \<^verbatim>\<open>response.data.voices?.length || 0\<close>, and on an
  error the status of the response if there is one (else 500) with its
  \<^verbatim>\<open>detail\<close> or the error's message.\<close>

definition voice_count :: "jsval \<Rightarrow> exn + jsval" where
  "voice_count data =
     (case js_get data ''voices'' of
        Inl e \<Rightarrow> Inl e
      | Inr vs \<Rightarrow> Inr (js_or (if nullish vs then JUndef else prop_of vs ''length'') (JNum 0)))"

definition error_status :: "exn \<Rightarrow> nat" where
  "error_status e = (case exn_status e of Some st \<Rightarrow> if st = 0 then 500 else st | None \<Rightarrow> 500)"

definition error_detail :: "exn \<Rightarrow> jsval" where
  "error_detail e =
     js_or (case e of AxiosError (Some st) d \<Rightarrow> if nullish d then JUndef else prop_of d ''detail'' | _ \<Rightarrow> JUndef)
           (JStr (exn_message e))"

definition check_elevenlabs :: "(world, http_response) js" where
  "check_elevenlabs =
     js_catch
       (js_bind voices_get (\<lambda>data.
        js_bind (js_lift (voice_count data)) (\<lambda>count.
        js_return \<lparr>status = 200, body = JObj [(''status'', JStr ''OK''), (''message'', JStr ''ElevenLabs API key is valid''),
                                             (''voiceCount'', count)]\<rparr>)))
       (\<lambda>error. js_return \<lparr>status = error_status error,
                             body = JObj [(''status'', JStr ''Error''), (''message'', error_detail error)]\<rparr>)"

text \<open>A request of the legacy form.\<close>

definition legacy_request :: jsval where
  "legacy_request = JObj [(''brandName'', JStr ''Fox''), (''brandInfo'', JStr ''shoes''), (''imageType'', JStr ''banner'')]"

section \<open>Lemmas\<close>

lemma audio_ok:
  "tts_queue w = AudioResponse 200 bytes # tq \<Longrightarrow>
   generate_voice_with_elevenlabs text w =
     (Inr (audio_data_url bytes), w\<lparr>tts_queue := tq,
        calls := calls w @ [TtsCall (tts_base @ default_voice) (JStr text) ''eleven_monolingual_v1'' legacy_settings]\<rparr>)"
  "tts_queue w = AudioResponse 200 bytes # tq \<Longrightarrow>
   aiservice_generate_voice text w =
     (Inr (audio_data_url bytes), w\<lparr>tts_queue := tq,
        calls := calls w @ [TtsCall (tts_base @ default_voice) (JStr text) ''eleven_monolingual_v1'' legacy_settings]\<rparr>)"
  by (simp_all add: generate_voice_with_elevenlabs_def aiservice_generate_voice_def provider_simps js_simps success_status_def)

text \<open>C22: When every provider answers, the first legacy handler answers 200 with the DALL-E URL, the trimmed description and the audio as a data URL, after four calls in order: prompt, image, description, synthesis.\<close>

theorem legacy_v1_success:
  assumes "\<not> nullish req" "truthy (prop_of req ''brandName'')" "truthy (prop_of req ''brandInfo'')"
    "truthy (prop_of req ''imageType'')"
    and "gemini_queue w = GeminiText p # GeminiText d # gs" "dalle_queue w = dalle_ok u # ds"
    and "tts_queue w = AudioResponse 200 bytes # tq"
  shows "legacy_generate_v1 req w =
    (Inr (legacy_success (JStr u) (js_trim d) (audio_data_url bytes)),
     w\<lparr>gemini_queue := gs, dalle_queue := ds, tts_queue := tq,
       calls := calls w @
         [GeminiCall ''gemini-pro'' (dalle_prompt_request 12 (prop_of req ''imageType'') (prop_of req ''brandName'') (prop_of req ''brandInfo'')),
          DalleCall (js_trim p) default_size,
          GeminiCall ''gemini-pro'' (description_prompt (prop_of req ''brandName'') (prop_of req ''brandInfo'')),
          TtsCall (tts_base @ default_voice) (JStr (js_trim d)) ''eleven_monolingual_v1'' legacy_settings]\<rparr>)"
  using assms
  by (simp add: legacy_generate_v1_def legacy_pipeline_def aiservice_image_prompt_def aiservice_generate_image_def
      generate_image_with_dalle_def dalle_ok_def audio_ok js_simps js_get_def js_index_def provider_simps success_status_def)

text \<open>C23: A DALL-E error reaches the client differently in the two legacy handlers: the first reports ``Image generation failed'', the second the axios message with the status, because the \<^verbatim>\<open>generateImageWithDallE\<close> in force is the last one declared, which rethrows.\<close>

theorem legacy_dalle_error_details:
  assumes "\<not> nullish req" "truthy (prop_of req ''brandName'')" "truthy (prop_of req ''brandInfo'')"
    "truthy (prop_of req ''imageType'')"
    and "gemini_queue w = GeminiText p # gs" "dalle_queue w = JsonResponse st x # ds" "\<not> success_status st"
  shows "fst (legacy_generate_v1 req w) = Inr (legacy_failure (Error ''Image generation failed'')) \<and>
         fst (legacy_generate_v2 req w) = Inr (legacy_failure (AxiosError (Some st) x)) \<and>
         exn_message (AxiosError (Some st) x) = ''Request failed with status code '' @ nat_str st"
  using assms
  by (simp add: legacy_generate_v1_def legacy_generate_v2_def legacy_pipeline_def aiservice_image_prompt_def
      image_prompt_with_gemini_def aiservice_generate_image_def generate_image_with_dalle_def js_simps js_get_def provider_simps)

text \<open>The shadowed draft behaves as \<^verbatim>\<open>AIService.generateImage\<close>: it differs from
  the declaration in force exactly in the error it throws.\<close>

lemma dalle_draft_is_aiservice:
  "generate_image_with_dalle_draft prompt default_size = aiservice_generate_image prompt"
  by (simp add: generate_image_with_dalle_draft_def aiservice_generate_image_def generate_image_with_dalle_def)

lemma dalle_draft_error:
  assumes "dalle_queue w = JsonResponse st x # ds" "\<not> success_status st"
  shows "fst (generate_image_with_dalle_draft prompt sz w) = Inl (Error ''Image generation failed'')"
    and "fst (generate_image_with_dalle prompt sz w) = Inl (AxiosError (Some st) x)"
  using assms by (simp_all add: generate_image_with_dalle_draft_def generate_image_with_dalle_def js_simps provider_simps)

lemma legacy_prompt_fallback:
  assumes "\<not> nullish req" "truthy (prop_of req ''brandName'')" "truthy (prop_of req ''brandInfo'')"
    "truthy (prop_of req ''imageType'')"
    and "gemini_queue w = GeminiFailure m # gs" "dalle_queue w = JsonNoResponse # ds"
  shows "legacy_generate_v2 req w =
    (Inr (legacy_failure (AxiosError None JUndef)),
     w\<lparr>gemini_queue := gs, dalle_queue := ds,
       calls := calls w @
         [GeminiCall ''gemini-pro'' (dalle_prompt_request 8 (prop_of req ''imageType'') (prop_of req ''brandName'') (prop_of req ''brandInfo'')),
          DalleCall (prompt_fallback (prop_of req ''imageType'') (prop_of req ''brandName'')) default_size]\<rparr>)"
  using assms
  by (simp add: legacy_generate_v2_def legacy_pipeline_def image_prompt_with_gemini_def generate_image_with_dalle_def
      js_simps js_get_def provider_simps)

lemma legacy_missing_fields:
  "\<not> nullish req \<Longrightarrow>
   \<not> truthy (prop_of req ''brandName'') \<or> \<not> truthy (prop_of req ''brandInfo'') \<or> \<not> truthy (prop_of req ''imageType'') \<Longrightarrow>
   legacy_generate_v1 req w = (Inr missing_fields, w) \<and> legacy_generate_v2 req w = (Inr missing_fields, w)"
  by (auto simp: legacy_generate_v1_def legacy_generate_v2_def legacy_pipeline_def js_simps js_get_def)

lemma legacy_check_synthesises:
  "calls (snd (legacy_check_elevenlabs w)) =
     calls w @ [TtsCall (tts_base @ default_voice) (JStr test_sentence) ''eleven_monolingual_v1'' legacy_settings]"
  by (simp add: legacy_check_elevenlabs_def aiservice_generate_voice_def provider_simps js_simps split: prod.splits sum.splits)

text \<open>When the voice catalog answers, the voice check reports the number of voices in it.\<close>

lemma check_elevenlabs_count:
  assumes "voices_queue w = JsonResponse st (JObj [(''voices'', JArr vs)]) # q" "success_status st"
  shows "fst (check_elevenlabs w) = Inr \<lparr>status = 200, body = JObj [(''status'', JStr ''OK''),
            (''message'', JStr ''ElevenLabs API key is valid''), (''voiceCount'', JNum (int (length vs)))]\<rparr>"
  using assms by (simp add: check_elevenlabs_def voice_count_def js_simps js_get_def provider_simps js_or_def)

lemma check_elevenlabs_error:
  assumes "voices_queue w = JsonResponse st d # q" "\<not> success_status st" "0 < st"
  shows "fst (check_elevenlabs w) = Inr \<lparr>status = st, body = JObj [(''status'', JStr ''Error''),
            (''message'', js_or (if nullish d then JUndef else prop_of d ''detail'')
                               (JStr (''Request failed with status code '' @ nat_str st)))]\<rparr>"
  using assms by (simp add: check_elevenlabs_def error_status_def error_detail_def js_simps provider_simps)

subsection \<open>Witnesses\<close>

lemma legacy_v1_success_witness:
  "fst (legacy_generate_v1 legacy_request
          (quiet_world\<lparr>gemini_queue := [GeminiText ''p'', GeminiText ''d''], dalle_queue := [dalle_ok ''u''],
                       tts_queue := [AudioResponse 200 [1]]\<rparr>)) =
     Inr (legacy_success (JStr ''u'') ''d'' (audio_data_url [1]))"
  using legacy_v1_success [of legacy_request "quiet_world\<lparr>gemini_queue := [GeminiText ''p'', GeminiText ''d''],
      dalle_queue := [dalle_ok ''u''], tts_queue := [AudioResponse 200 [1]]\<rparr>" "''p''" "''d''" "[]" "''u''" "[]" "[1]" "[]"]
  by (simp add: legacy_request_def quiet_world_def js_trim_def js_space_def)

lemma legacy_dalle_error_details_witness:
  "fst (legacy_generate_v2 legacy_request
          (quiet_world\<lparr>gemini_queue := [GeminiText ''p''], dalle_queue := [JsonResponse 400 JNull]\<rparr>)) =
     Inr (legacy_failure (AxiosError (Some 400) JNull))"
  using legacy_dalle_error_details [of legacy_request "quiet_world\<lparr>gemini_queue := [GeminiText ''p''],
      dalle_queue := [JsonResponse 400 JNull]\<rparr>" "''p''" "[]" 400 JNull "[]"]
  by (simp add: legacy_request_def quiet_world_def success_status_def)

lemma check_elevenlabs_count_witness:
  "fst (check_elevenlabs (quiet_world\<lparr>voices_queue := [JsonResponse 200 (JObj [(''voices'', JArr [JNull, JNull])])]\<rparr>)) =
     Inr \<lparr>status = 200, body = JObj [(''status'', JStr ''OK''),
            (''message'', JStr ''ElevenLabs API key is valid''), (''voiceCount'', JNum 2)]\<rparr>"
  using check_elevenlabs_count [of "quiet_world\<lparr>voices_queue := [JsonResponse 200 (JObj [(''voices'', JArr [JNull, JNull])])]\<rparr>"
      200 "[JNull, JNull]" "[]"]
  by (simp add: quiet_world_def success_status_def)

end
