(* ===== verification/Server.thy ===== *)
theory Server
  imports Legacy Generate Visual
begin

text \<open>
  The Express application of server.js as a whole: the routes in the order the file
  registers them, and Express's dispatch, which hands a request to the first route whose
  method and path match (no handler of this file calls \<^verbatim>\<open>next()\<close>). A path no
  route matches is answered 404. An \<^verbatim>\<open>async\<close> handler whose promise rejects leaves the
  request unanswered (Express 4 does not catch rejections); an exception of a synchronous
  handler is answered 500 by Express's default error handler.

  The health route (lines 486--488) answers with \<^verbatim>\<open>new Date().toISOString()\<close>;
  \<open>iso_string\<close> is that conversion as the ECMAScript specification defines it
  (UTC, years from 1970 on since the clock is a \<open>nat\<close>, a \<open>RangeError\<close> past the
  largest time value).

  Lemmas: the route table sends the frontend's \<^verbatim>\<open>{userPrompt}\<close> request to the first
  legacy handler, which answers 400, and the voice check to the legacy test route, which
  spends a synthesis request; the health reply at the epoch.
\<close>

section \<open>Dates\<close>

definition leap :: "nat \<Rightarrow> bool" where
  "leap y \<longleftrightarrow> (y mod 4 = 0 \<and> y mod 100 \<noteq> 0) \<or> y mod 400 = 0"

definition year_days :: "nat \<Rightarrow> nat" where
  "year_days y = (if leap y then 366 else 365)"

definition month_days :: "nat \<Rightarrow> nat \<Rightarrow> nat" where
  "month_days y m =
     (if m = 2 then (if leap y then 29 else 28) else if m \<in> {4, 6, 9, 11} then 30 else 31)"

text \<open>The year of a day count from 1 January of \<open>y\<close>, and the day within that year.\<close>

function year_split :: "nat \<Rightarrow> nat \<Rightarrow> nat \<times> nat" where
  "year_split d y = (if d < year_days y then (y, d) else year_split (d - year_days y) (Suc y))"
  by pat_completeness auto
termination
  by (relation "measure fst") (auto simp: year_days_def)

text \<open>The month of a day of the year, counting from month \<open>m\<close>, and the day within it.\<close>

function month_split :: "nat \<Rightarrow> nat \<Rightarrow> nat \<Rightarrow> nat \<times> nat" where
  "month_split y d m =
     (if 12 \<le> m \<or> d < month_days y m then (m, d) else month_split y (d - month_days y m) (Suc m))"
  by pat_completeness auto
termination
  by (relation "measure (\<lambda>(y, d, m). 12 - m)") auto

declare year_split.simps [simp del] month_split.simps [simp del]

definition pad :: "nat \<Rightarrow> nat \<Rightarrow> string" where
  "pad n k = replicate (n - length (nat_str k)) CHR ''0'' @ nat_str k"

definition year_text :: "nat \<Rightarrow> string" where
  "year_text y = (if y \<le> 9999 then pad 4 y else CHR ''+'' # pad 6 y)"

text \<open>\<^verbatim>\<open>Date.prototype.toISOString\<close> of a time value in milliseconds.\<close>

definition iso_string :: "nat \<Rightarrow> exn + string" where
  "iso_string t =
     (if 8640000000000000 < t then Inl (RangeError ''Invalid time value'')
      else
        let days = t div 86400000; ms = t mod 86400000;
            (y, dy) = year_split days 1970; (m, dd) = month_split y dy 1
        in Inr (year_text y @ ''-'' @ pad 2 m @ ''-'' @ pad 2 (Suc dd) @ ''T'' @
                pad 2 (ms div 3600000) @ '':'' @ pad 2 (ms div 60000 mod 60) @ '':'' @
                pad 2 (ms div 1000 mod 60) @ ''.'' @ pad 3 (ms mod 1000) @ ''Z''))"

section \<open>Routes\<close>

text \<open>Lines 486--488.\<close>

definition health :: "(world, http_response) js" where
  "health =
     js_bind date_now (\<lambda>now.
     js_bind (js_lift (iso_string now)) (\<lambda>timestamp.
     js_return \<lparr>status = 200, body = JObj [(''status'', JStr ''OK''), (''timestamp'', JStr timestamp)]\<rparr>))"

datatype http_method = GET | POST

definition method_name :: "http_method \<Rightarrow> string" where
  "method_name m = (case m of GET \<Rightarrow> ''GET'' | POST \<Rightarrow> ''POST'')"

record route =
  route_method :: http_method
  route_path :: string
  route_async :: bool
  route_handler :: "jsval \<Rightarrow> (world, http_response) js"

text \<open>The \<^verbatim>\<open>app.get\<close> and \<^verbatim>\<open>app.post\<close> calls of server.js, in the order of the file
  (lines 129, 175, 251, 486, 491, 520, 797).\<close>

definition routes :: "route list" where
  "routes =
     [\<lparr>route_method = POST, route_path = ''/api/generate'', route_async = True, route_handler = legacy_generate_v1\<rparr>,
      \<lparr>route_method = GET, route_path = ''/api/check-elevenlabs'', route_async = True,
       route_handler = (\<lambda>b. legacy_check_elevenlabs)\<rparr>,
      \<lparr>route_method = POST, route_path = ''/api/generate'', route_async = True, route_handler = legacy_generate_v2\<rparr>,
      \<lparr>route_method = GET, route_path = ''/health'', route_async = False, route_handler = (\<lambda>b. health)\<rparr>,
      \<lparr>route_method = GET, route_path = ''/api/check-elevenlabs'', route_async = True,
       route_handler = (\<lambda>b. check_elevenlabs)\<rparr>,
      \<lparr>route_method = POST, route_path = ''/api/generate'', route_async = True, route_handler = handle_generate\<rparr>,
      \<lparr>route_method = POST, route_path = ''/api/generate-visual-concept'', route_async = True,
       route_handler = handle_visual_concept\<rparr>]"

text \<open>Express's router: the first route of the method and path.\<close>

fun dispatch :: "route list \<Rightarrow> http_method \<Rightarrow> string \<Rightarrow> route option" where
  "dispatch [] m p = None"
| "dispatch (r # rs) m p = (if route_method r = m \<and> route_path r = p then Some r else dispatch rs m p)"

text \<open>A request to an Express application of the given routes: \<open>None\<close> is a request
  never answered.\<close>

definition serve_app :: "route list \<Rightarrow> http_method \<Rightarrow> string \<Rightarrow> jsval \<Rightarrow> (world, http_response option) js" where
  "serve_app rs m p reqBody w =
     (case dispatch rs m p of
        None \<Rightarrow> (Inr (Some \<lparr>status = 404, body = JStr (''Cannot '' @ method_name m @ '' '' @ p)\<rparr>), w)
      | Some r \<Rightarrow>
          (case route_handler r reqBody w of
             (Inr resp, w') \<Rightarrow> (Inr (Some resp), w')
           | (Inl e, w') \<Rightarrow>
               if route_async r then (Inr None, w')
               else (Inr (Some \<lparr>status = 500, body = JStr ''Internal Server Error''\<rparr>), w')))"

text \<open>The application of server.js.\<close>

definition serve :: "http_method \<Rightarrow> string \<Rightarrow> jsval \<Rightarrow> (world, http_response option) js" where
  "serve = serve_app routes"

section \<open>Lemmas\<close>

subsection \<open>Dates\<close>

lemma year_split_bounds:
  "year_split d y0 = (y, dy) \<Longrightarrow> y0 \<le> y \<and> dy < year_days y"
proof (induction d y0 rule: year_split.induct)
  case (1 d y0)
  show ?case
  proof (cases "d < year_days y0")
    case True then show ?thesis using "1.prems" by (simp add: year_split.simps)
  next
    case False then show ?thesis using "1.prems" "1.IH" by (fastforce simp: year_split.simps)
  qed
qed

lemma month_days_year:
  "sum_list (map (month_days y) [Suc 0..<13]) = year_days y"
  by (simp add: upt_rec month_days_def year_days_def)

lemma month_split_bounds:
  "month_split y d m = (m', d') \<Longrightarrow> d < sum_list (map (month_days y) [m..<13]) \<Longrightarrow> m \<le> 12 \<Longrightarrow>
   m \<le> m' \<and> m' \<le> 12 \<and> d' < month_days y m'"
proof (induction y d m rule: month_split.induct)
  case (1 y d m)
  have split: "[m..<13] = m # [Suc m..<13]" using "1.prems"(3) by (simp add: upt_conv_Cons)
  show ?case
  proof (cases "12 \<le> m \<or> d < month_days y m")
    case True
    then have "m' = m" "d' = d" using "1.prems"(1) by (simp_all add: month_split.simps)
    moreover have "m = 12 \<Longrightarrow> d < month_days y m" using "1.prems"(2) by simp
    ultimately show ?thesis using True "1.prems"(3) by auto
  next
    case False
    then have "month_split y (d - month_days y m) (Suc m) = (m', d')" using "1.prems"(1) by (simp add: month_split.simps)
    moreover have "d - month_days y m < sum_list (map (month_days y) [Suc m..<13])" using "1.prems"(2) False unfolding split by (simp add: not_less) linarith
    ultimately show ?thesis using "1.IH" False by fastforce
  qed
qed

text \<open>The calendar fields are in range: the month is between 1 and 12 and the day is
  within the month, so \<open>pad 2\<close> prints each of them in two digits.\<close>

lemma date_fields_bounds:
  "year_split d y0 = (y, dy) \<Longrightarrow> month_split y dy 1 = (m, dd) \<Longrightarrow>
   y0 \<le> y \<and> 1 \<le> m \<and> m \<le> 12 \<and> dd < month_days y m"
  using year_split_bounds [of d y0 y dy] month_split_bounds [of y dy 1 m dd] month_days_year [of y] by simp

lemma year_split_epoch: "year_split 0 1970 = (1970, 0)"
  by (subst year_split.simps) (simp add: year_days_def)

lemma month_split_epoch: "month_split 1970 0 (Suc 0) = (Suc 0, 0)"
  by (subst month_split.simps) (simp add: month_days_def)

lemma pad_2_1: "pad 2 (Suc 0) = ''01''"
  by (simp add: pad_def nat_str_digit char_of_eq_iff numeral_2_eq_2)

lemma pad_2_0: "pad 2 0 = ''00''"
  by (simp add: pad_def nat_str_digit char_of_eq_iff numeral_2_eq_2)

lemma pad_3_0: "pad 3 0 = ''000''"
  by (simp add: pad_def nat_str_digit char_of_eq_iff numeral_3_eq_3)

lemma year_text_1970: "year_text 1970 = ''1970''"
  by (simp add: year_text_def pad_def nat_str_digit nat_str_step char_of_eq_iff)

lemma iso_string_epoch: "iso_string 0 = Inr ''1970-01-01T00:00:00.000Z''"
  by (simp add: iso_string_def year_split_epoch month_split_epoch pad_2_1 pad_2_0 pad_3_0 year_text_1970)

subsection \<open>Routes\<close>

text \<open>A body without a truthy \<^verbatim>\<open>brandName\<close> is answered by the first handler.\<close>

lemma legacy_route_missing_fields:
  "\<not> nullish b \<Longrightarrow> \<not> truthy (prop_of b ''brandName'') \<Longrightarrow>
   serve POST ''/api/generate'' b w = (Inr (Some missing_fields), w)"
  by (simp add: serve_def serve_app_def routes_def legacy_generate_v1_def legacy_pipeline_def js_simps js_get_def)

text \<open>The health route always answers: 200 with the ISO form of the clock, or, past the
  largest time value, 500 from Express's handler of synchronous exceptions.\<close>

theorem health_always_answered:
  "serve GET ''/health'' b w =
     (Inr (Some (case iso_string (clock w) of
                   Inr ts \<Rightarrow> \<lparr>status = 200, body = JObj [(''status'', JStr ''OK''), (''timestamp'', JStr ts)]\<rparr>
                 | Inl e \<Rightarrow> \<lparr>status = 500, body = JStr ''Internal Server Error''\<rparr>)), w)"
  by (simp add: serve_def serve_app_def routes_def health_def provider_simps js_simps split: sum.splits)

lemma health_epoch:
  "serve GET ''/health'' b quiet_world =
     (Inr (Some \<lparr>status = 200, body = JObj [(''status'', JStr ''OK''), (''timestamp'', JStr ''1970-01-01T00:00:00.000Z'')]\<rparr>),
      quiet_world)"
  by (simp add: serve_def serve_app_def routes_def health_def iso_string_epoch quiet_world_def provider_simps js_simps)

text \<open>C24: The frontend's request \<^verbatim>\<open>POST /api/generate\<close> with body \<^verbatim>\<open>{userPrompt}\<close> is
  answered by the first handler registered for that path (line 129), which finds no
  \<^verbatim>\<open>brandName\<close> and answers 400 ``Missing required fields'' without calling any
  provider; the orchestrator of line 520 is never reached.\<close>

theorem frontend_request_shadowed:
  "serve POST ''/api/generate'' (JObj [(''userPrompt'', up)]) w = (Inr (Some missing_fields), w)"
  by (rule legacy_route_missing_fields) (simp_all add: nullish_def)

text \<open>C25: \<^verbatim>\<open>GET /api/check-elevenlabs\<close> is answered by the test route of line 175, which
  spends a synthesis request of the test sentence, and not by the voice listing of line 491.\<close>

theorem voice_check_shadowed:
  "calls (snd (serve GET ''/api/check-elevenlabs'' b w)) =
     calls w @ [TtsCall (tts_base @ default_voice) (JStr test_sentence) ''eleven_monolingual_v1'' legacy_settings]"
  using legacy_check_synthesises [of w]
  by (cases "legacy_check_elevenlabs w") (auto simp: serve_def serve_app_def routes_def split: sum.splits)

end
