(* ===== verification/Server3.thy ===== *)
theory Server3
  imports Server
begin

text \<open>
  src/backend/server3.js, a separate, smaller Express application. Its class
  \<^verbatim>\<open>AIService\<close> (lines 29--110) is the class of server.js lines 45--126 character for
  character; its three methods are written out again here and proved equal to those of
  theory \<open>Legacy\<close>. Its three routes are new: a voice check that lists the voices and then synthesises the
  test sentence (113--141), a generation that writes a description and reads it aloud
  (144--178), and a health route that also reports \<^verbatim>\<open>elevenlabs: 'configured'\<close>
  (181--187). The routes are served by the Express dispatch of theory \<open>Server\<close>.

  Lemmas: the order of the voice check's two requests and its reply when the listing fails;
  the generation's reply and calls when both providers answer.
\<close>

section \<open>The class AIService of server3.js\<close>

text \<open>Lines 30--47: \<^verbatim>\<open>AIService.generateImagePrompt\<close>.\<close>

definition aiservice3_image_prompt :: "jsval \<Rightarrow> jsval \<Rightarrow> jsval \<Rightarrow> (world, string) js" where
  "aiservice3_image_prompt brandName type context =
     js_catch
       (js_bind (gemini_generate ''gemini-pro'' (dalle_prompt_request 12 type brandName context)) (\<lambda>t.
        js_return (js_trim t)))
       (\<lambda>error. js_return (prompt_fallback type brandName))"

text \<open>Lines 49--76: \<^verbatim>\<open>AIService.generateImage\<close>, the request of
  \<open>generate_image_with_dalle\<close> with every error replaced.\<close>

definition aiservice3_generate_image :: "string \<Rightarrow> (world, jsval) js" where
  "aiservice3_generate_image prompt =
     js_catch (generate_image_with_dalle prompt default_size)
              (\<lambda>error. js_throw (Error ''Image generation failed''))"

text \<open>Lines 78--109: \<^verbatim>\<open>AIService.generateVoice\<close>.\<close>

definition aiservice3_generate_voice :: "string \<Rightarrow> (world, string) js" where
  "aiservice3_generate_voice text =
     js_catch
       (js_bind (tts_post (tts_base @ default_voice) (JStr text) ''eleven_monolingual_v1'' legacy_settings) (\<lambda>audio.
        js_return (audio_data_url audio)))
       (\<lambda>error. js_throw (Error ''Voice generation failed''))"

section \<open>Routes\<close>

text \<open>Lines 113--141.\<close>

definition check_elevenlabs3 :: "(world, http_response) js" where
  "check_elevenlabs3 =
     js_catch
       (js_bind voices_get (\<lambda>voicesData.
        js_bind (aiservice3_generate_voice test_sentence) (\<lambda>audioData.
        js_bind (js_lift (voice_count voicesData)) (\<lambda>count.
        js_return \<lparr>status = 200, body = JObj [(''success'', JBool True), (''audioData'', JStr audioData),
                                             (''voiceCount'', count)]\<rparr>))))
       (\<lambda>error. js_return \<lparr>status = 500, body = JObj [(''error'', JStr ''ElevenLabs test failed''),
                                                       (''details'', JStr (exn_message error))]\<rparr>)"

definition description_success :: "string \<Rightarrow> string \<Rightarrow> http_response" where
  "description_success description audioData =
     \<lparr>status = 200, body = JObj [(''success'', JBool True), (''description'', JStr description),
                               (''audioData'', JStr audioData)]\<rparr>"

text \<open>Lines 144--178.\<close>

definition generate3 :: "jsval \<Rightarrow> (world, http_response) js" where
  "generate3 reqBody =
     js_catch
       (js_bind (js_lift (js_get reqBody ''brandName'')) (\<lambda>brandName.
        js_bind (js_lift (js_get reqBody ''brandInfo'')) (\<lambda>brandInfo.
        js_bind (js_lift (js_get reqBody ''imageType'')) (\<lambda>imageType.
        if \<not> truthy brandName \<or> \<not> truthy brandInfo \<or> \<not> truthy imageType then js_return missing_fields
        else
          js_bind (gemini_generate ''gemini-pro'' (description_prompt brandName brandInfo)) (\<lambda>t.
          js_bind (aiservice3_generate_voice (js_trim t)) (\<lambda>audioData.
          js_return (description_success (js_trim t) audioData)))))))
       (\<lambda>error. js_return (legacy_failure error))"

text \<open>Lines 181--187.\<close>

definition health3 :: "(world, http_response) js" where
  "health3 =
     js_bind date_now (\<lambda>now.
     js_bind (js_lift (iso_string now)) (\<lambda>timestamp.
     js_return \<lparr>status = 200, body = JObj [(''status'', JStr ''OK''), (''timestamp'', JStr timestamp),
                                          (''elevenlabs'', JStr ''configured'')]\<rparr>))"

text \<open>The registrations of lines 113, 144 and 181, in that order.\<close>

definition routes3 :: "route list" where
  "routes3 =
     [\<lparr>route_method = GET, route_path = ''/api/check-elevenlabs'', route_async = True,
       route_handler = (\<lambda>b. check_elevenlabs3)\<rparr>,
      \<lparr>route_method = POST, route_path = ''/api/generate'', route_async = True, route_handler = generate3\<rparr>,
      \<lparr>route_method = GET, route_path = ''/health'', route_async = False, route_handler = (\<lambda>b. health3)\<rparr>]"

definition serve3 :: "http_method \<Rightarrow> string \<Rightarrow> jsval \<Rightarrow> (world, http_response option) js" where
  "serve3 = serve_app routes3"

section \<open>Lemmas\<close>

text \<open>The class of server3.js is the class of server.js.\<close>

lemma aiservice3_same:
  "aiservice3_image_prompt = aiservice_image_prompt" "aiservice3_generate_image = aiservice_generate_image"
  "aiservice3_generate_voice = aiservice_generate_voice"
  by (simp_all add: fun_eq_iff aiservice3_image_prompt_def aiservice_image_prompt_def aiservice3_generate_image_def
      aiservice_generate_image_def aiservice3_generate_voice_def aiservice_generate_voice_def)

lemma aiservice_voice_calls:
  "calls (snd (aiservice_generate_voice text w)) =
     calls w @ [TtsCall (tts_base @ default_voice) (JStr text) ''eleven_monolingual_v1'' legacy_settings]"
  by (simp add: aiservice_generate_voice_def provider_simps js_simps split: prod.splits sum.splits)

lemma serve3_check: "serve3 GET ''/api/check-elevenlabs'' b w =
   (case check_elevenlabs3 w of (Inr r, w') \<Rightarrow> (Inr (Some r), w') | (Inl e, w') \<Rightarrow> (Inr None, w'))"
  by (simp add: serve3_def serve_app_def routes3_def split: prod.splits sum.splits)

lemma check_elevenlabs3_calls:
  assumes "voices_queue w = JsonResponse st d # q"
  shows "calls (snd (check_elevenlabs3 w)) =
     calls w @ VoicesCall #
       (if success_status st then [TtsCall (tts_base @ default_voice) (JStr test_sentence) ''eleven_monolingual_v1'' legacy_settings]
        else [])"
proof (cases "success_status st")
  case True
  let ?w1 = "w\<lparr>voices_queue := q, calls := calls w @ [VoicesCall]\<rparr>"
  have "calls (snd (aiservice_generate_voice test_sentence ?w1)) = calls ?w1 @
          [TtsCall (tts_base @ default_voice) (JStr test_sentence) ''eleven_monolingual_v1'' legacy_settings]"
    by (rule aiservice_voice_calls)
  with True assms show ?thesis
    by (auto simp: check_elevenlabs3_def aiservice3_same voices_get_def js_simps split: prod.splits sum.splits)
next
  case False
  with assms show ?thesis by (simp add: check_elevenlabs3_def voices_get_def js_simps)
qed

text \<open>C29: The voice check of server3.js lists the voices before it synthesises: the listing
  request is sent first, the synthesis request only when the listing succeeded, and a failed
  listing is answered 500 ``ElevenLabs test failed'' with the axios message.\<close>

theorem server3_check_lists_first:
  assumes "voices_queue w = JsonResponse st d # q"
  shows "calls (snd (serve3 GET ''/api/check-elevenlabs'' b w)) =
           calls w @ VoicesCall #
             (if success_status st
              then [TtsCall (tts_base @ default_voice) (JStr test_sentence) ''eleven_monolingual_v1'' legacy_settings]
              else []) \<and>
         (\<not> success_status st \<longrightarrow>
           fst (serve3 GET ''/api/check-elevenlabs'' b w) =
             Inr (Some \<lparr>status = 500, body = JObj [(''error'', JStr ''ElevenLabs test failed''),
                        (''details'', JStr (''Request failed with status code '' @ nat_str st))]\<rparr>))"
proof -
  have c: "calls (snd (check_elevenlabs3 w)) = calls w @ VoicesCall #
       (if success_status st then [TtsCall (tts_base @ default_voice) (JStr test_sentence) ''eleven_monolingual_v1'' legacy_settings]
        else [])" using assms by (rule check_elevenlabs3_calls)
  have "calls (snd (serve3 GET ''/api/check-elevenlabs'' b w)) = calls (snd (check_elevenlabs3 w))"
    by (simp add: serve3_check split: prod.splits sum.splits)
  moreover have "\<not> success_status st \<Longrightarrow> fst (check_elevenlabs3 w) =
      Inr \<lparr>status = 500, body = JObj [(''error'', JStr ''ElevenLabs test failed''),
             (''details'', JStr (''Request failed with status code '' @ nat_str st))]\<rparr>"
    using assms by (simp add: check_elevenlabs3_def voices_get_def js_simps)
  ultimately show ?thesis using c by (auto simp: serve3_check split: prod.splits sum.splits)
qed

text \<open>When both providers answer, the generation of server3.js answers 200 with the
  trimmed description and its audio as a data URL, after exactly two calls: the description
  request to Gemini, then the synthesis of that description.\<close>

lemma server3_generate_success:
  assumes "\<not> nullish req" "truthy (prop_of req ''brandName'')" "truthy (prop_of req ''brandInfo'')"
    "truthy (prop_of req ''imageType'')"
    and "gemini_queue w = GeminiText d # gs" and "tts_queue w = AudioResponse 200 bytes # tq"
  shows "serve3 POST ''/api/generate'' req w =
    (Inr (Some (description_success (js_trim d) (audio_data_url bytes))),
     w\<lparr>gemini_queue := gs, tts_queue := tq,
       calls := calls w @
         [GeminiCall ''gemini-pro'' (description_prompt (prop_of req ''brandName'') (prop_of req ''brandInfo'')),
          TtsCall (tts_base @ default_voice) (JStr (js_trim d)) ''eleven_monolingual_v1'' legacy_settings]\<rparr>)"
  using assms
  by (simp add: serve3_def serve_app_def routes3_def generate3_def aiservice3_same audio_ok js_simps js_get_def provider_simps)

subsection \<open>Witnesses\<close>

lemma server3_check_lists_first_witness:
  "calls (snd (serve3 GET ''/api/check-elevenlabs'' JUndef (quiet_world\<lparr>voices_queue := [JsonResponse 401 JNull]\<rparr>))) =
     [VoicesCall] \<and>
   fst (serve3 GET ''/api/check-elevenlabs'' JUndef (quiet_world\<lparr>voices_queue := [JsonResponse 401 JNull]\<rparr>)) =
     Inr (Some \<lparr>status = 500, body = JObj [(''error'', JStr ''ElevenLabs test failed''),
                (''details'', JStr (''Request failed with status code '' @ nat_str 401))]\<rparr>)"
  using server3_check_lists_first [of "quiet_world\<lparr>voices_queue := [JsonResponse 401 JNull]\<rparr>" 401 JNull "[]" JUndef]
  by (simp add: quiet_world_def success_status_def)

lemma server3_generate_success_witness:
  "fst (serve3 POST ''/api/generate'' legacy_request
          (quiet_world\<lparr>gemini_queue := [GeminiText ''d''], tts_queue := [AudioResponse 200 [1]]\<rparr>)) =
     Inr (Some (description_success ''d'' (audio_data_url [1])))"
  using server3_generate_success [of legacy_request
      "quiet_world\<lparr>gemini_queue := [GeminiText ''d''], tts_queue := [AudioResponse 200 [1]]\<rparr>" "''d''" "[]" "[1]" "[]"]
  by (simp add: legacy_request_def quiet_world_def js_trim_def js_space_def)

end
