(* ===== verification/App.thy ===== *)
theory App
  imports Complex_Main Server
begin

text \<open>
  The React frontend (src/frontend/src/App.jsx) as a state machine over the component's
  state hooks, composed with the backend through the route table of theory \<open>Server\<close>.

  \<^item> \<open>app_state\<close> holds the \<^verbatim>\<open>useState\<close> cells the handlers change (lines 12--36),
    the speech transcript, and three cells the code keeps in closures and timers: the
    \<^verbatim>\<open>step\<close> of the running progress interval, the pending hide timers of the
    notification, and the alerts shown.
  \<^item> \<open>axios_post\<close> is the browser's request: the body goes through JSON, Express's
    \<open>serve\<close> answers it, a status outside 2xx rejects with the axios error, a request
    Express never answers never settles (\<open>None\<close>), and a stopped backend is a network error.
  \<^item> \<open>generate_begin\<close> and \<open>generate_settle\<close> are \<^verbatim>\<open>handleGenerate\<close>
    (lines 236--306) before and after its \<^verbatim>\<open>await\<close>; \<open>concept_begin\<close> and
    \<open>concept_settle\<close> are \<^verbatim>\<open>handleGenerateVisualConcept\<close> (309--336).
  \<^item> \<open>sys_step\<close> interleaves the user's clicks (guarded by the buttons'
    \<^verbatim>\<open>disabled\<close> conditions and by what is rendered), the replies, the interval's ticks
    and the notification timers; \<open>reachable\<close> is its closure from the first render.

  \<^item> The handlers without a request: \<^verbatim>\<open>toggleTheme\<close> and localStorage, the mount effects,
    the scroll handler, the tooltips, the stop button and \<^verbatim>\<open>startGuidedTour\<close>.
  \<^item> The manual edit of the transcript: the textarea's \<^verbatim>\<open>onChange\<close> and
    \<^verbatim>\<open>handleManualEdit\<close>. The \<open>speak\<close> rule of \<open>sys_step\<close> stands for the
    speech library setting the transcript.
  \<^item> The backend address of config.js, next to the one App.jsx writes out.

  Lemmas:
  \<^item> the invariant of the loading state and the progress bar;
  \<^item> the reply the app shows for the request it sends;
  \<^item> no reachable state ever holds results;
  \<^item> the refinement of the four-phase machine;
  \<^item> the progress interval ends;
  \<^item> the theme survives a reload.
  \<^item> an edit of the transcript box never changes the state.
\<close>

section \<open>State\<close>

text \<open>Lines 38--44.\<close>

definition generation_steps :: "string list" where
  "generation_steps =
     [''Analyzing your request'', ''Creating brand identity'', ''Generating marketing assets'',
      ''Crafting audio content'', ''Finalizing results'']"

text \<open>Lines 27--32.\<close>

definition visual_reference_images :: "string list" where
  "visual_reference_images =
     [''https://images.unsplash.com/photo-1559329007-40df8a9345d8?q=80&w=1080&h=1080&fit=crop'',
      ''https://images.unsplash.com/photo-1607853202273-797f1c22a38e?q=80&w=1080&h=1080&fit=crop'',
      ''https://images.unsplash.com/photo-1552664730-d307ca884978?q=80&w=1080&h=1080&fit=crop'',
      ''https://images.unsplash.com/photo-1581235720704-06d3acfcb36f?q=80&w=1080&h=1080&fit=crop'']"

record app_state =
  transcript :: string
  isLoading :: bool
  error :: "string option"
  results :: jsval
  progress :: nat
  currentStep :: nat
  interval_step :: "nat option"
  showNotification :: bool
  notificationMessage :: string
  notificationType :: string
  hide_timers :: nat
  darkMode :: bool
  selectedReferenceImage :: "string option"
  visualConcept :: jsval
  isGeneratingConcept :: bool
  visualConceptError :: jsval
  alerts :: "string list"
  scrolled :: bool
  showTooltip :: bool
  tooltipContent :: string
  tooltipPosition :: "real \<times> real"
  tooltip_timers :: nat
  welcome_pending :: bool
  mounted :: bool
  storage :: "string \<Rightarrow> string option"

text \<open>The first render: every \<^verbatim>\<open>useState\<close> at its initial value.\<close>

definition initial_state :: app_state where
  "initial_state =
     \<lparr>transcript = [], isLoading = False, error = None, results = JNull, progress = 0, currentStep = 0,
      interval_step = None, showNotification = False, notificationMessage = [],
      notificationType = ''success'', hide_timers = 0, darkMode = False, selectedReferenceImage = None,
      visualConcept = JNull, isGeneratingConcept = False, visualConceptError = JNull, alerts = [],
      scrolled = False, showTooltip = False, tooltipContent = [], tooltipPosition = (0, 0), tooltip_timers = 0,
      welcome_pending = False, mounted = False, storage = Map.empty\<rparr>"

section \<open>Timers\<close>

text \<open>Lines 170--179: \<^verbatim>\<open>showSuccessNotification\<close> shows the message and arms a
  hide timer; \<open>hide_notification\<close> is that timer firing.\<close>

definition show_notification :: "string \<Rightarrow> string \<Rightarrow> app_state \<Rightarrow> app_state" where
  "show_notification message type s =
     s\<lparr>notificationMessage := message, notificationType := type, showNotification := True,
       hide_timers := Suc (hide_timers s)\<rparr>"

definition hide_notification :: "app_state \<Rightarrow> app_state" where
  "hide_notification s = s\<lparr>showNotification := False, hide_timers := hide_timers s - 1\<rparr>"

text \<open>Lines 182--200: \<^verbatim>\<open>simulateProgress\<close> and one tick of its interval.\<close>

definition simulate_progress :: "app_state \<Rightarrow> app_state" where
  "simulate_progress s = s\<lparr>progress := 0, currentStep := 0, interval_step := Some 0\<rparr>"

definition progress_tick :: "app_state \<Rightarrow> app_state" where
  "progress_tick s =
     (case interval_step s of
        None \<Rightarrow> s
      | Some step \<Rightarrow>
          if step < length generation_steps
          then s\<lparr>currentStep := step, progress := step * 100 div length generation_steps,
                 interval_step := Some (Suc step)\<rparr>
          else s\<lparr>interval_step := None\<rparr>)"

text \<open>Lines 121--130: \<^verbatim>\<open>toggleTheme\<close>, which also stores the choice.\<close>

definition toggle_theme :: "app_state \<Rightarrow> app_state" where
  "toggle_theme s =
     show_notification (if \<not> darkMode s then ''Dark mode enabled'' else ''Light mode enabled'') ''success''
       (s\<lparr>darkMode := \<not> darkMode s,
          storage := (storage s)(''darkMode'' \<mapsto> (if \<not> darkMode s then ''true'' else ''false''))\<rparr>)"

text \<open>The bounding box \<^verbatim>\<open>getBoundingClientRect()\<close> of an element.\<close>

record rect =
  rect_top :: real
  rect_bottom :: real
  rect_left :: real
  rect_right :: real
  rect_width :: real
  rect_height :: real

text \<open>Lines 136--157: where the tooltip goes for a side.\<close>

definition tooltip_position :: "string \<Rightarrow> rect \<Rightarrow> real \<times> real" where
  "tooltip_position side r =
     (if side = ''bottom'' then (rect_bottom r + 10, rect_left r + rect_width r / 2)
      else if side = ''left'' then (rect_top r + rect_height r / 2, rect_left r - 10)
      else if side = ''right'' then (rect_top r + rect_height r / 2, rect_right r + 10)
      else (rect_top r - 10, rect_left r + rect_width r / 2))"

text \<open>Lines 130--167: \<^verbatim>\<open>showTooltipForElement\<close>, the element given by its box (\<open>None\<close>
  when it is not in the page), and the five-second timer that hides the tooltip.\<close>

definition show_tooltip :: "rect option \<Rightarrow> string \<Rightarrow> string \<Rightarrow> app_state \<Rightarrow> app_state" where
  "show_tooltip el content side s =
     (case el of
        None \<Rightarrow> s
      | Some r \<Rightarrow> s\<lparr>tooltipPosition := tooltip_position side r, tooltipContent := content, showTooltip := True,
                    tooltip_timers := Suc (tooltip_timers s)\<rparr>)"

definition hide_tooltip :: "app_state \<Rightarrow> app_state" where
  "hide_tooltip s = s\<lparr>showTooltip := False, tooltip_timers := tooltip_timers s - 1\<rparr>"

text \<open>Lines 82--117: the effect that runs after the first render and again whenever
  \<^verbatim>\<open>scrolled\<close> changes: the stored theme, and on a first visit the welcome tooltip,
  armed for two seconds later.\<close>

definition theme_effect :: "app_state \<Rightarrow> app_state" where
  "theme_effect s =
     (let s1 = (if storage s ''darkMode'' = Some ''true'' then s\<lparr>darkMode := True\<rparr> else s) in
      if storage s1 ''firstVisit'' \<noteq> Some ''false''
      then s1\<lparr>welcome_pending := True, storage := (storage s1)(''firstVisit'' \<mapsto> ''false'')\<rparr>
      else s1)"

text \<open>Lines 57--58 and the effect of lines 82--117: the first render resets the transcript.\<close>

definition mount :: "app_state \<Rightarrow> app_state" where
  "mount s = theme_effect (s\<lparr>transcript := [], mounted := True\<rparr>)"

text \<open>Lines 61--73: \<^verbatim>\<open>handleManualEdit\<close>, listening on \<^verbatim>\<open>window\<close> (line 75) for
  the event the textarea dispatches. With a target that has a \<^verbatim>\<open>value\<close> it aborts
  listening and resets the transcript; the \<^verbatim>\<open>'speech'\<close> event it dispatches 100 ms
  later on \<^verbatim>\<open>document\<close> has no listener (the speech-recognition library reads the
  browser's recognition API, not DOM events), so it changes nothing.\<close>

definition handle_manual_edit :: "jsval \<Rightarrow> app_state \<Rightarrow> app_state" where
  "handle_manual_edit target s =
     (if truthy target \<and> prop_of target ''value'' \<noteq> JUndef then s\<lparr>transcript := []\<rparr> else s)"

text \<open>\<^verbatim>\<open>window\<close> as an event target: it has no \<^verbatim>\<open>value\<close>.\<close>

definition window_target :: jsval where
  "window_target = JObj []"

subsection \<open>DOM events\<close>

text \<open>An \<^verbatim>\<open>Event\<close> object: its type and its \<^verbatim>\<open>target\<close>, \<^verbatim>\<open>null\<close> until it is
  dispatched.\<close>

record dom_event =
  ev_type :: string
  ev_target :: jsval

definition new_event :: "string \<Rightarrow> dom_event" where
  "new_event t = \<lparr>ev_type = t, ev_target = JNull\<rparr>"

text \<open>\<^verbatim>\<open>obj.p = v\<close> on an accessor property (ECMAScript OrdinarySetWithOwnDescriptor
  and PutValue): its setter, if it has one; otherwise the assignment fails, which is a
  \<open>TypeError\<close> in strict mode and is silently ignored in sloppy mode.\<close>

definition set_accessor ::
  "bool \<Rightarrow> (jsval \<Rightarrow> 'o \<Rightarrow> 'o) option \<Rightarrow> string \<Rightarrow> string \<Rightarrow> jsval \<Rightarrow> 'o \<Rightarrow> exn + 'o" where
  "set_accessor strict setter cls p v obj =
     (case setter of
        Some f \<Rightarrow> Inr (f v obj)
      | None \<Rightarrow>
          if strict then Inl (TypeError (''Cannot set property '' @ p @ '' of #<'' @ cls @ ''> which has only a getter''))
          else Inr obj)"

text \<open>\<^verbatim>\<open>Event.prototype.target\<close> is a readonly attribute of the DOM: a getter and no
  setter.\<close>

definition event_target_setter :: "(jsval \<Rightarrow> dom_event \<Rightarrow> dom_event) option" where
  "event_target_setter = None"

text \<open>\<^verbatim>\<open>target.dispatchEvent(ev)\<close>: the event's target becomes the dispatch target,
  then the listeners run in the order of registration.\<close>

definition dispatch_event ::
  "jsval \<Rightarrow> dom_event \<Rightarrow> (dom_event \<Rightarrow> app_state \<Rightarrow> app_state) list \<Rightarrow> app_state \<Rightarrow> app_state" where
  "dispatch_event target ev ls s = fold (\<lambda>l. l (ev\<lparr>ev_target := target\<rparr>)) ls s"

text \<open>The listeners of \<^verbatim>\<open>manualTranscriptEdit\<close> on \<^verbatim>\<open>window\<close>: the effect of lines
  56--80 registers \<^verbatim>\<open>handleManualEdit\<close> when the component mounts.\<close>

definition window_listeners :: "app_state \<Rightarrow> (dom_event \<Rightarrow> app_state \<Rightarrow> app_state) list" where
  "window_listeners s = (if mounted s then [\<lambda>ev. handle_manual_edit (ev_target ev)] else [])"

text \<open>Lines 470--475: the textarea's \<^verbatim>\<open>onChange\<close> with the typed text \<open>v\<close>, in strict
  mode or not (\<open>strict\<close>; the module is compiled in strict mode): a new event, the
  assignment \<^verbatim>\<open>event.target = {value: v}\<close>, and \<^verbatim>\<open>window.dispatchEvent(event)\<close>.\<close>

definition textarea_change :: "bool \<Rightarrow> string \<Rightarrow> app_state \<Rightarrow> exn + app_state" where
  "textarea_change strict v s =
     (case set_accessor strict event_target_setter ''Event'' ''target'' (JObj [(''value'', JStr v)])
             (new_event ''manualTranscriptEdit'') of
        Inl e \<Rightarrow> Inl e
      | Inr ev \<Rightarrow> Inr (dispatch_event window_target ev (window_listeners s) s))"

text \<open>The welcome timer (lines 100--110) finding the microphone button.\<close>

definition welcome_tooltip :: "rect option \<Rightarrow> app_state \<Rightarrow> app_state" where
  "welcome_tooltip mic s =
     show_tooltip mic ''Click here to start recording. Your voice will be recorded until you click stop.'' ''bottom''
       (s\<lparr>welcome_pending := False\<rparr>)"

text \<open>Lines 90--95: the scroll handler, and the effect it re-runs when \<^verbatim>\<open>scrolled\<close> changes.\<close>

definition scroll :: "real \<Rightarrow> app_state \<Rightarrow> app_state" where
  "scroll y s =
     (let isScrolled = 10 < y in
      if isScrolled \<noteq> scrolled s then theme_effect (s\<lparr>scrolled := isScrolled\<rparr>) else s)"

text \<open>Lines 431--446: the stop button (its tooltip one second later is \<open>show_tooltip\<close>).\<close>

definition stop_recording :: "app_state \<Rightarrow> app_state" where
  "stop_recording s = show_notification ''Recording complete! Click 'Generate' to continue'' ''success'' s"

text \<open>Lines 203--214: \<^verbatim>\<open>startGuidedTour\<close>, run by the help button.\<close>

definition start_guided_tour :: "rect option \<Rightarrow> app_state \<Rightarrow> app_state" where
  "start_guided_tour mic s =
     show_tooltip mic ''Step 1: Click here to start recording your voice prompt. Will record until you click stop.''
       ''bottom'' s"

section \<open>Backend address\<close>

text \<open>src/frontend/src/config.js: the backend URL chosen by \<^verbatim>\<open>NODE_ENV\<close>.\<close>

definition config_api_url :: "string \<Rightarrow> string" where
  "config_api_url node_env =
     (if node_env = ''production'' then ''https://vocalise-ai-backend.onrender.com'' else ''http://localhost:3001'')"

text \<open>The address App.jsx writes into both requests (lines 248 and 318), without the config.\<close>

definition app_backend_url :: string where
  "app_backend_url = ''http://localhost:3001''"

section \<open>Requests\<close>

text \<open>The JSON a value becomes on the wire: \<^verbatim>\<open>JSON.stringify\<close> by the sender,
  \<^verbatim>\<open>JSON.parse\<close> by the receiver, the text itself when it does not parse (axios's
  default response transform).\<close>

definition wire :: "jsval \<Rightarrow> jsval" where
  "wire v = (case json_parse (json_stringify v) of Inr v' \<Rightarrow> v' | Inl e \<Rightarrow> JStr (json_stringify v))"

text \<open>Node's reason phrases for the statuses the backend sends.\<close>

definition status_text :: "nat \<Rightarrow> string" where
  "status_text st =
     (if st = 200 then ''OK'' else if st = 400 then ''Bad Request'' else if st = 401 then ''Unauthorized''
      else if st = 404 then ''Not Found'' else if st = 429 then ''Too Many Requests''
      else if st = 500 then ''Internal Server Error'' else [])"

text \<open>The \<^verbatim>\<open>code\<close> of an axios error.\<close>

fun exn_code :: "exn \<Rightarrow> string option" where
  "exn_code (AxiosError None d) = Some ''ERR_NETWORK''"
| "exn_code (AxiosError (Some st) d) = Some (if st < 500 then ''ERR_BAD_REQUEST'' else ''ERR_BAD_RESPONSE'')"
| "exn_code e = None"

text \<open>\<^verbatim>\<open>axios.post(url, data)\<close> from the browser to the backend: \<open>None\<close> is a
  request that never settles, the reply of a route whose handler rejected.\<close>

definition axios_post :: "bool \<Rightarrow> string \<Rightarrow> jsval \<Rightarrow> world \<Rightarrow> (exn + jsval) option \<times> world" where
  "axios_post up path data w =
     (if \<not> up then (Some (Inl (AxiosError None JUndef)), w)
      else case serve POST path (wire data) w of
        (Inr (Some r), w') \<Rightarrow>
          (Some (if 200 \<le> status r \<and> status r < 300 then Inr (wire (body r))
                 else Inl (AxiosError (Some (status r)) (wire (body r)))), w')
      | (Inr None, w') \<Rightarrow> (None, w')
      | (Inl e, w') \<Rightarrow> (Some (Inl (AxiosError None JUndef)), w'))"

definition response_data_error :: "exn \<Rightarrow> jsval" where
  "response_data_error err =
     (case err of AxiosError (Some st) d \<Rightarrow> if nullish d then JUndef else prop_of d ''error'' | _ \<Rightarrow> JUndef)"

section \<open>handleGenerate\<close>

text \<open>Lines 236--246: the part before the \<^verbatim>\<open>await\<close>.\<close>

definition generate_begin :: "app_state \<Rightarrow> app_state" where
  "generate_begin s = simulate_progress (s\<lparr>isLoading := True, error := None, results := JNull\<rparr>)"

definition generate_request :: "app_state \<Rightarrow> jsval" where
  "generate_request s = JObj [(''userPrompt'', JStr (transcript s))]"

text \<open>Lines 277--301: the catch block's four messages.\<close>

definition generate_error :: "exn \<Rightarrow> app_state \<Rightarrow> app_state" where
  "generate_error err s =
     (if exn_code err = Some ''ECONNREFUSED'' \<or> js_includes (exn_message err) ''Network Error''
      then show_notification ''Error: Backend server connection failed'' ''error''
             (s\<lparr>error := Some ''Cannot connect to backend server. Please make sure the backend is running.''\<rparr>)
      else case err of
        AxiosError (Some st) d \<Rightarrow>
          show_notification (''Error: '' @ nat_str st @ '' '' @ status_text st) ''error''
            (s\<lparr>error := Some (''Server error: '' @
                 js_to_string (js_or (response_data_error err) (JStr (status_text st))))\<rparr>)
      | AxiosError None d \<Rightarrow>
          show_notification ''Error: No response from server'' ''error''
            (s\<lparr>error := Some ''No response from server. Check your network connection.''\<rparr>)
      | _ \<Rightarrow>
          show_notification ''Error: Something went wrong'' ''error''
            (s\<lparr>error := Some (''An unexpected error occurred: '' @ exn_message err)\<rparr>))"

text \<open>Lines 251--306: the rest once the request has settled, the \<^verbatim>\<open>finally\<close> last.\<close>

definition generate_settle :: "exn + jsval \<Rightarrow> app_state \<Rightarrow> app_state" where
  "generate_settle r s =
     (case r of
        Inr data \<Rightarrow>
          show_notification ''Marketing assets generated successfully!'' ''success''
            (s\<lparr>results := data, progress := 100, currentStep := length generation_steps - 1\<rparr>)
      | Inl err \<Rightarrow> generate_error err (s\<lparr>progress := 0, currentStep := 0\<rparr>))
     \<lparr>interval_step := None, isLoading := False\<rparr>"


section \<open>handleGenerateVisualConcept\<close>

definition concept_request :: "app_state \<Rightarrow> string \<Rightarrow> jsval" where
  "concept_request s img =
     JObj [(''brandIdentity'', JObj [(''mascotDescription'', prop_of (results s) ''mascotDescription''),
                                     (''visualStyle'', prop_of (results s) ''visualStyle''),
                                     (''adSlogan'', prop_of (results s) ''adSlogan'')]),
           (''referenceImageUrl'', JStr img)]"

text \<open>Lines 309--317 and 333--335.\<close>

definition concept_begin :: "app_state \<Rightarrow> app_state" where
  "concept_begin s = s\<lparr>isGeneratingConcept := True, visualConceptError := JNull\<rparr>"

definition concept_settle :: "exn + jsval \<Rightarrow> app_state \<Rightarrow> app_state" where
  "concept_settle r s =
     (case r of
        Inr data \<Rightarrow> show_notification ''Visual concept generated successfully!'' ''success'' (s\<lparr>visualConcept := data\<rparr>)
      | Inl err \<Rightarrow>
          show_notification ''Error generating visual concept'' ''error''
            (s\<lparr>visualConceptError := js_or (response_data_error err) (JStr ''Failed to generate visual concept'')\<rparr>))
     \<lparr>isGeneratingConcept := False\<rparr>"

section \<open>The application and the backend\<close>

datatype flight = Idle | Awaiting "exn + jsval" | Hung

record system =
  ui :: app_state
  backend :: world
  server_up :: bool
  gen_flight :: flight
  concept_flight :: flight

definition flight_of :: "(exn + jsval) option \<Rightarrow> flight" where
  "flight_of r = (case r of None \<Rightarrow> Hung | Some x \<Rightarrow> Awaiting x)"

text \<open>One event: a click on an enabled, rendered button (lines 485--486, 609--620, the
  theme toggle, the stop button), a new transcript, a reply reaching its \<^verbatim>\<open>await\<close>, a
  tick of the progress interval, a notification or tooltip timer, the first render's effects,
  a scroll, a tooltip shown on hover or by a later timer.\<close>

inductive sys_step :: "system \<Rightarrow> system \<Rightarrow> bool" where
  click_generate:
    "\<not> isLoading (ui S) \<Longrightarrow> transcript (ui S) \<noteq> [] \<Longrightarrow>
     axios_post (server_up S) ''/api/generate'' (generate_request (ui S)) (backend S) = (r, w') \<Longrightarrow>
     sys_step S (S\<lparr>ui := generate_begin (ui S), backend := w', gen_flight := flight_of r\<rparr>)"
| generate_reply:
    "gen_flight S = Awaiting r \<Longrightarrow> sys_step S (S\<lparr>ui := generate_settle r (ui S), gen_flight := Idle\<rparr>)"
| tick:
    "interval_step (ui S) \<noteq> None \<Longrightarrow> sys_step S (S\<lparr>ui := progress_tick (ui S)\<rparr>)"
| hide:
    "0 < hide_timers (ui S) \<Longrightarrow> sys_step S (S\<lparr>ui := hide_notification (ui S)\<rparr>)"
| speak:
    "sys_step S (S\<lparr>ui := (ui S)\<lparr>transcript := t\<rparr>\<rparr>)"
| toggle:
    "sys_step S (S\<lparr>ui := toggle_theme (ui S)\<rparr>)"
| mounting:
    "\<not> mounted (ui S) \<Longrightarrow> sys_step S (S\<lparr>ui := mount (ui S)\<rparr>)"
| welcome_timer:
    "welcome_pending (ui S) \<Longrightarrow> sys_step S (S\<lparr>ui := welcome_tooltip mic (ui S)\<rparr>)"
| scrolling:
    "sys_step S (S\<lparr>ui := scroll y (ui S)\<rparr>)"
| stop:
    "sys_step S (S\<lparr>ui := stop_recording (ui S)\<rparr>)"
| tooltip:
    "sys_step S (S\<lparr>ui := show_tooltip el content side (ui S)\<rparr>)"
| guided_tour:
    "sys_step S (S\<lparr>ui := start_guided_tour mic (ui S)\<rparr>)"
| tooltip_timer:
    "0 < tooltip_timers (ui S) \<Longrightarrow> sys_step S (S\<lparr>ui := hide_tooltip (ui S)\<rparr>)"
| select_image:
    "truthy (results (ui S)) \<Longrightarrow> img \<in> set visual_reference_images \<Longrightarrow>
     sys_step S (S\<lparr>ui := (ui S)\<lparr>selectedReferenceImage := Some img\<rparr>\<rparr>)"
| click_concept:
    "truthy (results (ui S)) \<Longrightarrow> selectedReferenceImage (ui S) = Some img \<Longrightarrow> \<not> isGeneratingConcept (ui S) \<Longrightarrow>
     axios_post (server_up S) ''/api/generate-visual-concept'' (concept_request (ui S) img) (backend S) = (r, w') \<Longrightarrow>
     sys_step S (S\<lparr>ui := concept_begin (ui S), backend := w', concept_flight := flight_of r\<rparr>)"
| concept_reply:
    "concept_flight S = Awaiting r \<Longrightarrow> sys_step S (S\<lparr>ui := concept_settle r (ui S), concept_flight := Idle\<rparr>)"

definition initial_system :: "bool \<Rightarrow> world \<Rightarrow> system" where
  "initial_system up w = \<lparr>ui = initial_state, backend = w, server_up = up, gen_flight = Idle, concept_flight = Idle\<rparr>"

inductive reachable :: "system \<Rightarrow> bool" where
  start: "reachable (initial_system up w)"
| step: "reachable S \<Longrightarrow> sys_step S S' \<Longrightarrow> reachable S'"

inductive_cases sys_step_cases: "sys_step S S'"

text \<open>What every reachable state satisfies: the progress bar within range, the spinner on
  exactly while a request is outstanding, the interval running only then.\<close>

definition app_inv :: "system \<Rightarrow> bool" where
  "app_inv S \<longleftrightarrow>
     progress (ui S) \<le> 100 \<and> currentStep (ui S) < length generation_steps \<and>
     (isLoading (ui S) \<longleftrightarrow> gen_flight S \<noteq> Idle) \<and> (interval_step (ui S) = None \<or> isLoading (ui S)) \<and>
     (isGeneratingConcept (ui S) \<longleftrightarrow> concept_flight S \<noteq> Idle)"

text \<open>What the backend makes of the app: every reply is a rejection, nothing is shown.\<close>

definition no_results :: "system \<Rightarrow> bool" where
  "no_results S \<longleftrightarrow>
     results (ui S) = JNull \<and> visualConcept (ui S) = JNull \<and> concept_flight S = Idle \<and>
     (case gen_flight S of Awaiting r \<Rightarrow> isl r | Hung \<Rightarrow> False | Idle \<Rightarrow> True)"

text \<open>The phases the page promises: ready for a prompt, generating (the spinner), showing
  an error, showing results. A click starts a generation from any other phase, and a
  generation ends in an error or in results.\<close>

datatype phase = Ready | Loading | Failed | Showing

definition ui_phase :: "system \<Rightarrow> phase" where
  "ui_phase S =
     (if isLoading (ui S) then Loading else if truthy (results (ui S)) then Showing
      else if error (ui S) \<noteq> None then Failed else Ready)"

definition phase_step :: "phase \<Rightarrow> phase \<Rightarrow> bool" where
  "phase_step p q \<longleftrightarrow> (p \<noteq> Loading \<and> q = Loading) \<or> (p = Loading \<and> (q = Failed \<or> q = Showing))"

text \<open>A run: the user speaks ``hi'' and clicks Generate.\<close>

definition demo_spoken :: system where
  "demo_spoken = (initial_system True quiet_world)\<lparr>ui := (ui (initial_system True quiet_world))\<lparr>transcript := ''hi''\<rparr>\<rparr>"

definition demo_clicked :: system where
  "demo_clicked =
     demo_spoken\<lparr>ui := generate_begin (ui demo_spoken), backend := quiet_world,
       gen_flight := flight_of (Some (Inl (AxiosError (Some 400) (JObj [(''error'', JStr ''Missing required fields'')]))))\<rparr>"

section \<open>Lemmas\<close>

text \<open>The app's address is the development address of the config, and never the production one.\<close>

lemma app_url_ignores_config:
  "app_backend_url = config_api_url ''development'' \<and> app_backend_url \<noteq> config_api_url ''production''"
  by (simp add: app_backend_url_def config_api_url_def)

text \<open>The theme survives a reload: the choice \<^verbatim>\<open>toggleTheme\<close> stores is the one the
  first render's effect reads back.\<close>

lemma theme_survives_reload:
  "darkMode (mount (initial_state\<lparr>storage := storage (toggle_theme s)\<rparr>)) = darkMode (toggle_theme s)"
  by (simp add: mount_def theme_effect_def toggle_theme_def show_notification_def initial_state_def Let_def)

lemma wire_json: "json_value v \<Longrightarrow> wire v = v"
  by (simp add: wire_def json_parse_stringify)

lemma axios_generate:
  "axios_post up ''/api/generate'' (generate_request s) w =
     (Some (Inl (if up then AxiosError (Some 400) (JObj [(''error'', JStr ''Missing required fields'')])
                 else AxiosError None JUndef)), w)"
proof -
  have "wire (generate_request s) = generate_request s" by (simp add: wire_json generate_request_def)
  moreover have "wire (JObj [(''error'', JStr ''Missing required fields'')]) = JObj [(''error'', JStr ''Missing required fields'')]"
    by (simp add: wire_json)
  ultimately show ?thesis
    by (simp add: axios_post_def legacy_route_missing_fields generate_request_def nullish_def missing_fields_def json_error_def)
qed



lemma progress_tick_bound: "step < length generation_steps \<Longrightarrow> step * 100 div length generation_steps \<le> 100"
  by (simp add: generation_steps_def)

lemma app_inv_step: "sys_step S S' \<Longrightarrow> app_inv S \<Longrightarrow> app_inv S'"
  by (induction rule: sys_step.induct)
     (auto simp: app_inv_def generate_begin_def simulate_progress_def generate_settle_def generate_error_def
        show_notification_def progress_tick_def progress_tick_bound hide_notification_def toggle_theme_def mount_def theme_effect_def welcome_tooltip_def
        scroll_def stop_recording_def start_guided_tour_def show_tooltip_def hide_tooltip_def Let_def
        concept_begin_def concept_settle_def flight_of_def generation_steps_def
        split: sum.splits option.splits exn.splits if_splits)

lemma no_results_step: "sys_step S S' \<Longrightarrow> no_results S \<Longrightarrow> no_results S'"
  by (induction rule: sys_step.induct)
     (auto simp: no_results_def axios_generate generate_begin_def simulate_progress_def generate_settle_def
        generate_error_def show_notification_def progress_tick_def hide_notification_def toggle_theme_def mount_def theme_effect_def welcome_tooltip_def
        scroll_def stop_recording_def start_guided_tour_def show_tooltip_def hide_tooltip_def Let_def
        flight_of_def split: flight.splits sum.splits option.splits exn.splits)

lemma reachable_app_inv: "reachable S \<Longrightarrow> app_inv S"
  by (induction rule: reachable.induct)
     (simp add: app_inv_def initial_system_def initial_state_def generation_steps_def, blast intro: app_inv_step)

lemma reachable_no_results: "reachable S \<Longrightarrow> no_results S"
  by (induction rule: reachable.induct)
     (simp add: no_results_def initial_system_def initial_state_def, blast intro: no_results_step)

lemma wire_normalize: "wire v = json_normalize v"
  by (simp add: wire_def json_parse_stringify_any)

text \<open>C31: The progress interval of \<^verbatim>\<open>simulateProgress\<close> stops by itself: from any step
  \<open>k\<close> of the five, at most \<open>6 - k\<close> ticks reach the \<^verbatim>\<open>clearInterval\<close> of line 196.\<close>

theorem progress_interval_terminates:
  "interval_step s = Some k \<Longrightarrow> k \<le> length generation_steps \<Longrightarrow>
   interval_step ((progress_tick ^^ Suc (length generation_steps - k)) s) = None"
proof (induction "length generation_steps - k" arbitrary: s k)
  case 0
  then have "k = length generation_steps" by simp
  with "0.prems" show ?case by (simp add: progress_tick_def)
next
  case (Suc d)
  then have k: "k < length generation_steps" by simp
  then have t: "interval_step (progress_tick s) = Some (Suc k)" using Suc.prems by (simp add: progress_tick_def)
  have "d = length generation_steps - Suc k" using Suc.hyps by simp
  with Suc.hyps(1) [OF this t] k have "interval_step ((progress_tick ^^ Suc d) (progress_tick s)) = None" by simp
  with Suc.hyps(2) show ?case by (simp add: funpow_Suc_right del: funpow.simps)
qed

lemma phase_step_cases:
  assumes "sys_step S S'" and "app_inv S" and "no_results S"
  shows "ui_phase S' = ui_phase S \<or> phase_step (ui_phase S) (ui_phase S')"
  using assms
  by (induction rule: sys_step.induct)
     (auto simp: ui_phase_def phase_step_def app_inv_def no_results_def generate_begin_def simulate_progress_def
        generate_settle_def generate_error_def show_notification_def progress_tick_def hide_notification_def
        toggle_theme_def mount_def theme_effect_def welcome_tooltip_def scroll_def stop_recording_def start_guided_tour_def show_tooltip_def
        hide_tooltip_def Let_def split: option.splits exn.splits sum.splits)

text \<open>C30: The app refines its phase machine: every step of a reachable state either keeps
  the phase (ready, generating, error, results) or is a step of the abstract machine, which
  only starts a generation from a phase that is not generating and only ends one in an
  error or in results.\<close>

theorem app_refines_phases:
  assumes "reachable S" and "sys_step S S'"
  shows "ui_phase S' = ui_phase S \<or> phase_step (ui_phase S) (ui_phase S')"
  using phase_step_cases [OF assms(2) reachable_app_inv [OF assms(1)] reachable_no_results [OF assms(1)]] .

text \<open>C28: In every reachable state the progress bar is within 0--100, the current step is a
  step of \<^verbatim>\<open>generationSteps\<close>, the spinner is on exactly while a generation request is
  outstanding, the progress interval runs only while it is on, and the concept button shows
  ``Generating...'' exactly while a concept request is outstanding.\<close>

theorem app_invariant:
  "reachable S \<Longrightarrow>
   progress (ui S) \<le> 100 \<and> currentStep (ui S) < length generation_steps \<and>
   (isLoading (ui S) \<longleftrightarrow> gen_flight S \<noteq> Idle) \<and> (interval_step (ui S) = None \<or> isLoading (ui S)) \<and>
   (isGeneratingConcept (ui S) \<longleftrightarrow> concept_flight S \<noteq> Idle)"
  using reachable_app_inv unfolding app_inv_def by blast

text \<open>C26: Composed with the backend as it is written, the app never shows results: in every
  reachable state \<^verbatim>\<open>results\<close> and \<^verbatim>\<open>visualConcept\<close> are null, the visual concept
  request is never sent (its button is only rendered with results), and no generation
  request hangs.\<close>

theorem app_never_shows_results:
  "reachable S \<Longrightarrow>
   results (ui S) = JNull \<and> visualConcept (ui S) = JNull \<and> concept_flight S = Idle \<and> gen_flight S \<noteq> Hung"
  using reachable_no_results by (fastforce simp: no_results_def split: flight.splits)

text \<open>The listener can only clear the transcript, never set it to the edited text.\<close>

lemma handle_manual_edit_transcript:
  "transcript (handle_manual_edit t s) = transcript s \<or> transcript (handle_manual_edit t s) = []"
  by (simp add: handle_manual_edit_def)

text \<open>C35: Typing in the transcript box never changes the app's state, although the page
  says the text can be edited. The handler throws, and only in strict mode, because
  \<^verbatim>\<open>target\<close> has no setter; otherwise the assignment is lost and the event reaches
  \<^verbatim>\<open>handleManualEdit\<close> with \<^verbatim>\<open>window\<close> as target, which has no \<^verbatim>\<open>value\<close>.\<close>

theorem textarea_edit_ignored:
  "(case textarea_change strict v s of Inl e \<Rightarrow> strict | Inr s' \<Rightarrow> s' = s)"
  by (simp add: textarea_change_def set_accessor_def event_target_setter_def dispatch_event_def
      window_listeners_def handle_manual_edit_def window_target_def)

subsection \<open>Witnesses\<close>

lemma demo_reachable: "reachable demo_spoken \<and> reachable demo_clicked"
proof -
  have r1: "reachable demo_spoken"
    unfolding demo_spoken_def by (rule reachable.step [OF reachable.start sys_step.speak])
  have "sys_step demo_spoken demo_clicked"
    unfolding demo_clicked_def
    by (rule sys_step.click_generate)
       (simp_all add: demo_spoken_def initial_system_def initial_state_def axios_generate)
  with r1 show ?thesis using reachable.step by blast
qed


lemma app_invariant_witness:
  "progress (ui demo_clicked) \<le> 100 \<and> currentStep (ui demo_clicked) < length generation_steps \<and>
   isLoading (ui demo_clicked) \<and> gen_flight demo_clicked \<noteq> Idle \<and> interval_step (ui demo_clicked) = Some 0 \<and>
   \<not> isGeneratingConcept (ui demo_clicked) \<and> concept_flight demo_clicked = Idle"
  using app_invariant [of demo_clicked] demo_reachable
  by (simp add: demo_clicked_def demo_spoken_def initial_system_def initial_state_def generate_begin_def
      simulate_progress_def flight_of_def generation_steps_def)

lemma app_never_shows_results_witness:
  "results (ui demo_clicked) = JNull \<and> visualConcept (ui demo_clicked) = JNull \<and>
   concept_flight demo_clicked = Idle \<and> gen_flight demo_clicked \<noteq> Hung"
  using app_never_shows_results [of demo_clicked] demo_reachable by simp

lemma progress_interval_terminates_witness:
  "interval_step ((progress_tick ^^ 6) (ui demo_clicked)) = None"
  using progress_interval_terminates [of "ui demo_clicked" 0]
  by (simp add: demo_clicked_def demo_spoken_def initial_system_def initial_state_def generate_begin_def
      simulate_progress_def generation_steps_def numeral_eq_Suc)

lemma app_refines_phases_witness:
  "ui_phase demo_spoken = Ready \<and> ui_phase demo_clicked = Loading \<and> phase_step Ready Loading"
proof -
  have s: "sys_step demo_spoken demo_clicked"
    unfolding demo_clicked_def
    by (rule sys_step.click_generate)
       (simp_all add: demo_spoken_def initial_system_def initial_state_def axios_generate)
  have "ui_phase demo_clicked = ui_phase demo_spoken \<or> phase_step (ui_phase demo_spoken) (ui_phase demo_clicked)"
    using app_refines_phases [OF _ s] demo_reachable by blast
  moreover have "ui_phase demo_spoken = Ready" "ui_phase demo_clicked = Loading"
    by (simp_all add: ui_phase_def demo_clicked_def demo_spoken_def initial_system_def initial_state_def
        generate_begin_def simulate_progress_def)
  ultimately show ?thesis by (simp add: phase_step_def)
qed

end
