(* ===== verification/View.thy ===== *)
theory View
  imports App
begin

text \<open>
  The render function of App.jsx (lines 216--233 and 369--714): what the page shows for a
  state, as a list of the elements whose content depends on the state. Rendering can
  throw, and with no error boundary a throw unmounts the whole page, so \<open>view\<close> returns
  \<open>exn + element list\<close>.

  React's rules for a child \<^verbatim>\<open>{x}\<close> are \<open>jsx_text\<close>: \<^verbatim>\<open>undefined\<close>, \<^verbatim>\<open>null\<close> and
  booleans render nothing, numbers and strings their text, arrays their elements, and an
  object throws ``Objects are not valid as a React child''. \<^verbatim>\<open>{c && <X/>}\<close> renders
  \<open>X\<close> when \<open>c\<close> is truthy, and otherwise \<open>c\<close> itself, which shows only for \<open>0\<close>.
  Icons are named by what they show: the notification icon is
  \<open>cross\<close>, \<open>warning\<close>, \<open>info\<close> or \<open>check\<close>.

  Not rendered here: static markup. The tooltip's position is the state's
  \<open>tooltipPosition\<close>, computed from element boxes in theory \<open>App\<close>; the footer's
  year is that of the clock in UTC.

  Lemmas: the page without speech recognition; the orchestrator's 200 reply renders with the
  audio-unavailable note; a visual concept without a \<^verbatim>\<open>colorPalette\<close> array unmounts
  the page.
\<close>

section \<open>Elements\<close>

datatype step_mark = Done | Active | Pending

datatype element =
    Unsupported
  | ThemeIcon string
  | StatusIndicator bool
  | RecordingWaves
  | MicButton bool
  | StopButton bool
  | ResetButton bool
  | RecordingIndicator
  | TranscriptBox string
  | GenerateButton bool bool
  | ProgressView nat "(step_mark \<times> string) list"
  | ErrorMessage string
  | TextNode string
  | DownloadButton
  | BrandIdentity string string string
  | ImageCard string string
  | SloganText string
  | AudioPlayer string
  | AudioUnavailable string
  | ReferenceImage string bool
  | ConceptButton bool string
  | ConceptError string
  | ConceptView string string "string list" string string
  | NotificationView bool string string
  | TooltipView bool "real \<times> real" string
  | HelpButton
  | Footer nat

section \<open>React's rendering of values\<close>

definition sbind :: "exn + 'a \<Rightarrow> ('a \<Rightarrow> exn + 'b) \<Rightarrow> exn + 'b" where
  "sbind x f = (case x of Inl e \<Rightarrow> Inl e | Inr a \<Rightarrow> f a)"

fun sconcat :: "(exn + string) list \<Rightarrow> exn + string" where
  "sconcat [] = Inr []"
| "sconcat (x # xs) = sbind x (\<lambda>a. sbind (sconcat xs) (\<lambda>b. Inr (a @ b)))"

fun jsx_text :: "jsval \<Rightarrow> exn + string" where
  "jsx_text JUndef = Inr []"
| "jsx_text JNull = Inr []"
| "jsx_text (JBool b) = Inr []"
| "jsx_text (JNum i) = Inr (int_str i)"
| "jsx_text (JStr s) = Inr s"
| "jsx_text (JArr vs) = sconcat (map jsx_text vs)"
| "jsx_text (JObj kvs) = Inl (Error ''Objects are not valid as a React child'')"

text \<open>An attribute: omitted when \<^verbatim>\<open>null\<close> or \<^verbatim>\<open>undefined\<close>, else its string.\<close>

definition attr_text :: "jsval \<Rightarrow> string" where
  "attr_text v = (if nullish v then [] else js_to_string v)"

text \<open>\<^verbatim>\<open>{c && ...}\<close> for a falsy \<open>c\<close>.\<close>

definition falsy_child :: "jsval \<Rightarrow> element list" where
  "falsy_child v = (if v = JNum 0 then [TextNode ''0''] else [])"

text \<open>\<^verbatim>\<open>v.map(...)\<close>: only an array has the method.\<close>

definition js_map_items :: "jsval \<Rightarrow> exn + jsval list" where
  "js_map_items v =
     (case v of JArr vs \<Rightarrow> Inr vs
      | _ \<Rightarrow> if nullish v then Inl (TypeError ''Cannot read properties of undefined (reading 'map')'')
             else Inl (TypeError ''map is not a function''))"

text \<open>\<^verbatim>\<open>v.join('\n')\<close>: only an array has the method; \<^verbatim>\<open>null\<close> and \<^verbatim>\<open>undefined\<close>
  elements join as empty strings.\<close>

definition js_join_lines :: "jsval \<Rightarrow> exn + string" where
  "js_join_lines v =
     (case v of JArr vs \<Rightarrow> Inr (join_with [CHR ''\<newline>''] (map attr_text vs))
      | _ \<Rightarrow> if nullish v then Inl (TypeError ''Cannot read properties of undefined (reading 'join')'')
             else Inl (TypeError ''join is not a function''))"

text \<open>Lines 339--367: \<^verbatim>\<open>downloadAssets\<close>, given the text of
  \<^verbatim>\<open>new Date().toLocaleString()\<close>: the file's name and text, and the state after the
  notification.\<close>

definition download_assets :: "string \<Rightarrow> app_state \<Rightarrow> exn + (string \<times> string \<times> app_state)" where
  "download_assets date s =
     (let r = results s in
      sbind (js_join_lines (prop_of r ''imageUrls'')) (\<lambda>urls.
      Inr (''vocalize-ai-marketing-assets.txt'',
           [CHR ''\<newline>''] @ replicate 8 CHR '' '' @
           indented 8 [''# Marketing Assets Generated by Vocalize AI'', [], ''## Brand Identity'',
                       ''Mascot: '' @ js_to_string (prop_of r ''mascotDescription''),
                       ''Visual Style: '' @ js_to_string (prop_of r ''visualStyle''),
                       ''Slogan: '' @ js_to_string (prop_of r ''adSlogan''), [], ''## Image URLs'', urls, [],
                       ''Generated on: '' @ date] @
           [CHR ''\<newline>''] @ replicate 8 CHR '' '',
           show_notification ''Marketing assets downloaded successfully!'' ''success'' s)))"

section \<open>The page\<close>

text \<open>Lines 501--519: the progress bar and the marks of the five steps.\<close>

definition step_mark :: "nat \<Rightarrow> nat \<Rightarrow> step_mark" where
  "step_mark cur i = (if i < cur then Done else if i = cur then Active else Pending)"

definition progress_view :: "app_state \<Rightarrow> element list" where
  "progress_view s =
     (if isLoading s
      then [ProgressView (progress s)
              (map (\<lambda>(i, st). (step_mark (currentStep s) i, st)) (zip [0..<length generation_steps] generation_steps))]
      else [])"

text \<open>Lines 546--556: an image and its caption.\<close>

definition image_card :: "nat \<Rightarrow> jsval \<Rightarrow> element" where
  "image_card i url = ImageCard (attr_text url) (if i = 0 then ''Instagram Post'' else ''Website Banner'')"

text \<open>Lines 563--594: the player, or the note that audio is unavailable.\<close>

definition audio_view :: "jsval \<Rightarrow> exn + element list" where
  "audio_view r =
     (if truthy (prop_of r ''audioBase64'')
      then Inr [AudioPlayer (''data:audio/mpeg;base64,'' @ js_to_string (prop_of r ''audioBase64''))]
      else sbind (jsx_text (js_or (prop_of r ''elevenlabsError'')
                    (JStr ''ElevenLabs API error. Please check your API key and account limits.'')))
                 (\<lambda>m. Inr [AudioUnavailable m]))"

text \<open>Lines 634--665: the concept of \<^verbatim>\<open>{visualConcept && ...}\<close>.\<close>

definition concept_view :: "jsval \<Rightarrow> exn + element list" where
  "concept_view vc =
     (if \<not> truthy vc then Inr (falsy_child vc)
      else
        sbind (js_get (prop_of vc ''visualConcept'') ''conceptDescription'') (\<lambda>d.
        sbind (jsx_text d) (\<lambda>desc.
        sbind (js_map_items (prop_of (prop_of vc ''visualConcept'') ''colorPalette'')) (\<lambda>colors.
        sbind (jsx_text (prop_of (prop_of vc ''visualConcept'') ''designElements'')) (\<lambda>design.
        sbind (jsx_text (prop_of (prop_of vc ''visualConcept'') ''visualInspiration'')) (\<lambda>insp.
        Inr [ConceptView (attr_text (prop_of vc ''referenceImageUrl'')) desc (map attr_text colors) design insp]))))))"

text \<open>Lines 527--670: the results, with the visual-concept generator inside them.\<close>

definition results_view :: "app_state \<Rightarrow> exn + element list" where
  "results_view s =
     (let r = results s in
      if \<not> truthy r then Inr (falsy_child r)
      else
        sbind (jsx_text (prop_of r ''mascotDescription'')) (\<lambda>m.
        sbind (jsx_text (prop_of r ''visualStyle'')) (\<lambda>v.
        sbind (jsx_text (prop_of r ''adSlogan'')) (\<lambda>a.
        sbind (js_map_items (prop_of r ''imageUrls'')) (\<lambda>urls.
        sbind (audio_view r) (\<lambda>audio.
        sbind (if truthy (visualConceptError s) then sbind (jsx_text (visualConceptError s)) (\<lambda>t. Inr [ConceptError t])
               else Inr (falsy_child (visualConceptError s))) (\<lambda>cerr.
        sbind (concept_view (visualConcept s)) (\<lambda>concept.
        Inr ([DownloadButton, BrandIdentity m v a] @ map (\<lambda>(i, u). image_card i u) (zip [0..<length urls] urls) @
             [SloganText a] @ audio @
             map (\<lambda>img. ReferenceImage img (selectedReferenceImage s = Some img)) visual_reference_images @
             [ConceptButton (selectedReferenceImage s = None \<or> isGeneratingConcept s)
                (if isGeneratingConcept s then ''Generating...'' else ''Generate Visual Concept'')] @
             cerr @ concept)))))))))"

definition notification_icon :: "string \<Rightarrow> string" where
  "notification_icon t =
     (if t = ''error'' then ''cross'' else if t = ''warning'' then ''warning'' else if t = ''info'' then ''info''
      else ''check'')"

text \<open>The theme toggle's icon (lines 219--224, the same in both pages).\<close>

definition theme_icon :: "app_state \<Rightarrow> element" where
  "theme_icon s = ThemeIcon (if darkMode s then ''/light-mode-icon.svg'' else ''/dark-mode-icon.svg'')"

text \<open>Lines 215--232: the page when the browser has no speech recognition.\<close>

definition unsupported_view :: "app_state \<Rightarrow> element list" where
  "unsupported_view s = [theme_icon s, Unsupported]"

text \<open>Lines 521--525: \<^verbatim>\<open>{error && ...}\<close>; the empty string renders nothing.\<close>

definition error_view :: "app_state \<Rightarrow> element list" where
  "error_view s = (case error s of Some e \<Rightarrow> if e = [] then [] else [ErrorMessage e] | None \<Rightarrow> [])"

text \<open>Lines 671--681: the tooltip, always in the page, visible when \<open>showTooltip\<close>.\<close>

definition tooltip_view :: "app_state \<Rightarrow> element list" where
  "tooltip_view s = [TooltipView (showTooltip s) (tooltipPosition s) (tooltipContent s)]"

text \<open>Lines 684--691: the notification, always in the page.\<close>

definition notification_view :: "app_state \<Rightarrow> element list" where
  "notification_view s =
     [NotificationView (showNotification s) (notification_icon (notificationType s)) (notificationMessage s)]"

text \<open>Lines 694--708: the help button; its click is \<open>start_guided_tour\<close> and its hover the
  tooltip rule of \<open>sys_step\<close> (theory \<open>App\<close>).\<close>

definition help_button :: "element list" where
  "help_button = [HelpButton]"

text \<open>Lines 710--712: the footer, with \<^verbatim>\<open>new Date().getFullYear()\<close> of the clock
  (in UTC: the time zone is not modelled).\<close>

definition year_of :: "nat \<Rightarrow> nat" where
  "year_of now = fst (year_split (now div 86400000) 1970)"

definition footer_view :: "nat \<Rightarrow> element list" where
  "footer_view now = [Footer (year_of now)]"

text \<open>The page at time \<open>now\<close>: lines 215--232 when the browser has no speech recognition,
  else 369--714.\<close>

definition view :: "bool \<Rightarrow> bool \<Rightarrow> nat \<Rightarrow> app_state \<Rightarrow> exn + element list" where
  "view supported listening now s =
     (if \<not> supported then Inr (unsupported_view s)
      else
        sbind (results_view s) (\<lambda>res.
        Inr ([theme_icon s, StatusIndicator listening] @ (if listening then [RecordingWaves] else []) @
             [MicButton listening, StopButton (\<not> listening), ResetButton (transcript s = [])] @
             (if listening then [RecordingIndicator] else []) @
             [TranscriptBox (transcript s), GenerateButton (isLoading s \<or> transcript s = []) (isLoading s)] @
             progress_view s @ error_view s @ res @ tooltip_view s @ notification_view s @ help_button @
             footer_view now)))"

section \<open>Lemmas\<close>

lemma year_of_bounds: "1970 \<le> year_of now"
  using year_split_bounds [of "now div 86400000" 1970 "year_of now" "snd (year_split (now div 86400000) 1970)"]
  by (simp add: year_of_def)

text \<open>Without speech recognition the page is the header with the theme toggle and the
  notice, whatever the state: nothing of it can throw.\<close>

lemma view_unsupported: "view False listening now s = Inr [theme_icon s, Unsupported]"
  by (simp add: view_def unsupported_view_def)

lemma results_view_null: "results s = JNull \<Longrightarrow> results_view s = Inr []"
  by (simp add: results_view_def falsy_child_def)

text \<open>C32: The orchestrator's 200 reply, once it has crossed the wire, renders without error:
  with string fields in the identity, the page shows the brand identity and the note that
  premium audio is unavailable with the backend's message, and never an audio player.\<close>

theorem view_orchestrator_reply:
  assumes "prop_of identity ''mascotDescription'' = JStr m" "prop_of identity ''visualStyle'' = JStr v"
    "prop_of identity ''adSlogan'' = JStr a"
    and "msg \<noteq> []" and "visualConcept s = JNull" and "visualConceptError s = JNull"
  shows "\<exists>els. results_view (s\<lparr>results := wire (body (no_audio_response identity (map JStr urls) msg))\<rparr>) = Inr els \<and>
           BrandIdentity m v a \<in> set els \<and> AudioUnavailable msg \<in> set els \<and> (\<forall>src. AudioPlayer src \<notin> set els)"
  using assms
  by (auto simp: wire_normalize no_audio_response_def results_view_def audio_view_def concept_view_def js_or_def
      sbind_def js_map_items_def falsy_child_def comp_def Let_def image_card_def)

text \<open>C33: A visual concept whose \<^verbatim>\<open>colorPalette\<close> is not an array, as Gemini may return it
  (the backend checks no key of the parsed reply), makes the concept section throw, which
  unmounts the whole page.\<close>

theorem concept_without_palette_throws:
  assumes "\<not> (\<exists>cs. prop_of (json_normalize c) ''colorPalette'' = JArr cs)"
  shows "\<exists>e. concept_view (wire (body (concept_response c (JStr u)))) = Inl e"
proof (cases "c = JUndef")
  case True
  then show ?thesis by (simp add: wire_normalize concept_response_def concept_view_def sbind_def js_get_def nullish_def)
next
  case False
  let ?vc = "json_normalize c"
  have "wire (body (concept_response c (JStr u))) = JObj [(''visualConcept'', ?vc), (''referenceImageUrl'', JStr u)]"
    using False by (simp add: wire_normalize concept_response_def)
  moreover have "\<exists>e. js_map_items (prop_of ?vc ''colorPalette'') = Inl e"
    using assms by (auto simp: js_map_items_def split: jsval.splits)
  ultimately show ?thesis
    by (auto simp: concept_view_def sbind_def js_get_def split: sum.splits)
qed

text \<open>C34: Downloading the assets of the orchestrator's reply writes the brand identity and
  the image URLs one per line, while the reply of the legacy handlers, which has a single
  \<^verbatim>\<open>imageUrl\<close> and no \<^verbatim>\<open>imageUrls\<close>, makes the download throw a \<open>TypeError\<close>.\<close>

theorem download_assets_replies:
  assumes "prop_of identity ''mascotDescription'' = JStr m" "prop_of identity ''visualStyle'' = JStr v"
    "prop_of identity ''adSlogan'' = JStr a"
  shows "download_assets date (s\<lparr>results := wire (body (no_audio_response identity (map JStr urls) msg))\<rparr>) =
           Inr (''vocalize-ai-marketing-assets.txt'',
                [CHR ''\<newline>''] @ replicate 8 CHR '' '' @
                indented 8 [''# Marketing Assets Generated by Vocalize AI'', [], ''## Brand Identity'',
                            ''Mascot: '' @ m, ''Visual Style: '' @ v, ''Slogan: '' @ a, [], ''## Image URLs'',
                            join_with [CHR ''\<newline>''] urls, [], ''Generated on: '' @ date] @
                [CHR ''\<newline>''] @ replicate 8 CHR '' '',
                show_notification ''Marketing assets downloaded successfully!'' ''success''
                  (s\<lparr>results := wire (body (no_audio_response identity (map JStr urls) msg))\<rparr>)) \<and>
         (\<exists>e. download_assets date (s\<lparr>results := wire (body (legacy_success (JStr u) d audio))\<rparr>) = Inl (TypeError e))"
  using assms
  by (simp add: download_assets_def wire_normalize no_audio_response_def legacy_success_def js_join_lines_def
      sbind_def attr_text_def comp_def nullish_def)

subsection \<open>Witnesses\<close>

lemma view_orchestrator_reply_witness:
  "\<exists>els. results_view (initial_state\<lparr>results := wire (body (no_audio_response
            (JObj [(''mascotDescription'', JStr ''fox''), (''visualStyle'', JStr ''flat''), (''adSlogan'', JStr ''Go'')])
            (map JStr [''u1'', ''u2'']) ''ElevenLabs API error. Please try again.''))\<rparr>) = Inr els \<and>
     BrandIdentity ''fox'' ''flat'' ''Go'' \<in> set els \<and> AudioUnavailable ''ElevenLabs API error. Please try again.'' \<in> set els \<and>
     (\<forall>src. AudioPlayer src \<notin> set els)"
  using view_orchestrator_reply [of "JObj [(''mascotDescription'', JStr ''fox''), (''visualStyle'', JStr ''flat''), (''adSlogan'', JStr ''Go'')]"
      "''fox''" "''flat''" "''Go''" "''ElevenLabs API error. Please try again.''" initial_state "[''u1'', ''u2'']"]
  by (simp add: initial_state_def)

lemma concept_without_palette_throws_witness:
  "\<exists>e. concept_view (wire (body (concept_response
          (JObj [(''conceptDescription'', JStr ''warm''), (''colorPalette'', JStr ''#ff0000'')]) (JStr ''https://a.io/r.png'')))) = Inl e"
  using concept_without_palette_throws [of "JObj [(''conceptDescription'', JStr ''warm''), (''colorPalette'', JStr ''#ff0000'')]"
      "''https://a.io/r.png''"]
  by simp

lemma download_assets_replies_witness:
  "download_assets ''1/1/2026'' (initial_state\<lparr>results := wire (body (no_audio_response
       (JObj [(''mascotDescription'', JStr ''fox''), (''visualStyle'', JStr ''flat''), (''adSlogan'', JStr ''Go'')])
       (map JStr [''u1'', ''u2'']) ''e''))\<rparr>) =
     Inr (''vocalize-ai-marketing-assets.txt'',
          [CHR ''\<newline>''] @ replicate 8 CHR '' '' @
          indented 8 [''# Marketing Assets Generated by Vocalize AI'', [], ''## Brand Identity'',
                      ''Mascot: fox'', ''Visual Style: flat'', ''Slogan: Go'', [], ''## Image URLs'',
                      join_with [CHR ''\<newline>''] [''u1'', ''u2''], [], ''Generated on: 1/1/2026''] @
          [CHR ''\<newline>''] @ replicate 8 CHR '' '',
          show_notification ''Marketing assets downloaded successfully!'' ''success''
            (initial_state\<lparr>results := wire (body (no_audio_response
               (JObj [(''mascotDescription'', JStr ''fox''), (''visualStyle'', JStr ''flat''), (''adSlogan'', JStr ''Go'')])
               (map JStr [''u1'', ''u2'']) ''e''))\<rparr>)) \<and>
   (\<exists>e. download_assets ''1/1/2026'' (initial_state\<lparr>results := wire (body (legacy_success (JStr ''u'') ''d'' ''a''))\<rparr>) =
          Inl (TypeError e))"
  using download_assets_replies [of "JObj [(''mascotDescription'', JStr ''fox''), (''visualStyle'', JStr ''flat''), (''adSlogan'', JStr ''Go'')]"
      "''fox''" "''flat''" "''Go''" "''1/1/2026''" "[''u1'', ''u2'']" "''e''" initial_state "''u''" "''d''" "''a''"]
  by simp

end
