(* ===== verification/Seed.thy ===== *)
theory Seed
  imports Json Encoding
begin

unbundle bit_operations_syntax

text \<open>
  \<^verbatim>\<open>generateUniqueSeed\<close> of server.js (lines 38--42, declared again at 197--201, the
  same body): the SHA-256 digest, as \<^verbatim>\<open>crypto.createHash('sha256')\<close> computes it, of
  \<^verbatim>\<open>input + Date.now().toString() + Math.random().toString()\<close>, written in lowercase
  hexadecimal and cut to its first ten characters. The hash is node's library, modelled
  from FIPS 180-4: the string is encoded in UTF-8 (\<open>utf8_encode\<close>; a character is a
  code point below 256 here, so at most two bytes), padded with \<open>0x80\<close>, zeros and the
  64-bit bit length (\<open>sha_pad\<close>), read as big-endian 32-bit words, cut into blocks of
  sixteen words, and each block is compressed in 64 rounds over the eight working
  variables \<open>h256\<close> with the message schedule \<open>schedule\<close>. All arithmetic is on
  \<open>32 word\<close> with wrap-around. The random part is an input of the model, its decimal text.

  Lemmas: the padded message is a whole number of 64-byte blocks and starts with the
  message; every block has sixteen words; the accumulated schedule satisfies the
  recurrence of FIPS 180-4 6.2.2; a digest is 64 lowercase hex digits.
  The function is never called by the backend.
\<close>

section \<open>Definitions\<close>

text \<open>\<^verbatim>\<open>hash.update(string)\<close> encodes the string in UTF-8.\<close>

definition utf8_encode :: "string \<Rightarrow> 8 word list" where
  "utf8_encode s = concat (map (\<lambda>c. let n = of_char c :: nat in
      if n < 128 then [of_nat n] else [of_nat (192 + n div 64), of_nat (128 + n mod 64)]) s)"

subsection \<open>SHA-256 (FIPS 180-4)\<close>

text \<open>Padding (5.1.1): the byte \<open>0x80\<close>, zeros up to 56 modulo 64, and the bit length
  of the message as eight big-endian bytes.\<close>

definition be_bytes :: "nat \<Rightarrow> nat \<Rightarrow> 8 word list" where
  "be_bytes k n = map (\<lambda>i. of_nat (n div 2 ^ (8 * (k - 1 - i)))) [0..<k]"

definition sha_pad :: "8 word list \<Rightarrow> 8 word list" where
  "sha_pad m =
     (let l = length m mod 64 in
      m @ [0x80] @ replicate (if l \<le> 55 then 55 - l else 119 - l) 0 @ be_bytes 8 (8 * length m))"

text \<open>Parsing (5.2.1): big-endian 32-bit words, sixteen to a block.\<close>

fun be_words :: "8 word list \<Rightarrow> 32 word list" where
  "be_words (a # b # c # d # rest) =
     (push_bit 24 (ucast a) OR push_bit 16 (ucast b) OR push_bit 8 (ucast c) OR ucast d) # be_words rest"
| "be_words _ = []"

fun blocks :: "32 word list \<Rightarrow> 32 word list list" where
  "blocks [] = []"
| "blocks (w # ws) = take 16 (w # ws) # blocks (drop 16 (w # ws))"

text \<open>The constants (4.2.2: the first 32 bits of the fractional parts of the cube roots of
  the first 64 primes; 5.3.3: of the square roots of the first eight), written in decimal,
  and the functions of 4.1.2.\<close>

definition k256 :: "32 word list" where
  "k256 =
   [1116352408, 1899447441, 3049323471, 3921009573, 961987163, 1508970993, 2453635748, 2870763221,
    3624381080, 310598401, 607225278, 1426881987, 1925078388, 2162078206, 2614888103, 3248222580,
    3835390401, 4022224774, 264347078, 604807628, 770255983, 1249150122, 1555081692, 1996064986,
    2554220882, 2821834349, 2952996808, 3210313671, 3336571891, 3584528711, 113926993, 338241895,
    666307205, 773529912, 1294757372, 1396182291, 1695183700, 1986661051, 2177026350, 2456956037,
    2730485921, 2820302411, 3259730800, 3345764771, 3516065817, 3600352804, 4094571909, 275423344,
    430227734, 506948616, 659060556, 883997877, 958139571, 1322822218, 1537002063, 1747873779,
    1955562222, 2024104815, 2227730452, 2361852424, 2428436474, 2756734187, 3204031479, 3329325298]"

record h256 =
  ha :: "32 word"  hb :: "32 word"  hc :: "32 word"  hd :: "32 word"
  he :: "32 word"  hf :: "32 word"  hg :: "32 word"  hh :: "32 word"

definition h256_0 :: h256 where
  "h256_0 = \<lparr>ha = 1779033703, hb = 3144134277, hc = 1013904242, hd = 2773480762,
             he = 1359893119, hf = 2600822924, hg = 528734635, hh = 1541459225\<rparr>"

definition Sig0 :: "32 word \<Rightarrow> 32 word" where "Sig0 x = word_rotr 2 x XOR word_rotr 13 x XOR word_rotr 22 x"
definition Sig1 :: "32 word \<Rightarrow> 32 word" where "Sig1 x = word_rotr 6 x XOR word_rotr 11 x XOR word_rotr 25 x"
definition sig0 :: "32 word \<Rightarrow> 32 word" where "sig0 x = word_rotr 7 x XOR word_rotr 18 x XOR drop_bit 3 x"
definition sig1 :: "32 word \<Rightarrow> 32 word" where "sig1 x = word_rotr 17 x XOR word_rotr 19 x XOR drop_bit 10 x"

text \<open>The message schedule (6.2.2, step 1): \<open>schedule 48\<close> extends a block of sixteen
  words to 64, each new word computed from the words already there.\<close>

definition sched_next :: "32 word list \<Rightarrow> 32 word" where
  "sched_next w =
     (let t = length w in sig1 (w ! (t - 2)) + w ! (t - 7) + sig0 (w ! (t - 15)) + w ! (t - 16))"

fun schedule :: "nat \<Rightarrow> 32 word list \<Rightarrow> 32 word list" where
  "schedule 0 w = w"
| "schedule (Suc n) w = schedule n (w @ [sched_next w])"

text \<open>One round (6.2.2, step 3), the compression of a block (steps 2 and 4), and the hash
  of a padded message from the initial value (5.3.3).\<close>

definition sha_round :: "h256 \<Rightarrow> 32 word \<times> 32 word \<Rightarrow> h256" where
  "sha_round s kw =
     (let t1 = hh s + Sig1 (he s) + ((he s AND hf s) XOR (NOT (he s) AND hg s)) + fst kw + snd kw;
          t2 = Sig0 (ha s) + ((ha s AND hb s) XOR (ha s AND hc s) XOR (hb s AND hc s))
      in \<lparr>ha = t1 + t2, hb = ha s, hc = hb s, hd = hc s, he = hd s + t1, hf = he s, hg = hf s, hh = hg s\<rparr>)"

definition compress :: "h256 \<Rightarrow> 32 word list \<Rightarrow> h256" where
  "compress h blk =
     (let s = foldl sha_round h (zip k256 (schedule 48 blk))
      in \<lparr>ha = ha h + ha s, hb = hb h + hb s, hc = hc h + hc s, hd = hd h + hd s,
          he = he h + he s, hf = hf h + hf s, hg = hg h + hg s, hh = hh h + hh s\<rparr>)"

definition sha256 :: "8 word list \<Rightarrow> h256" where
  "sha256 m = foldl compress h256_0 (blocks (be_words (sha_pad m)))"

text \<open>\<^verbatim>\<open>digest('hex')\<close>: each word as eight lowercase hex digits, most significant
  first.\<close>

definition hex_word :: "32 word \<Rightarrow> string" where
  "hex_word w = map (\<lambda>i. hex_digit (unat (drop_bit (4 * (7 - i)) w AND 0xF))) [0..<8]"

definition hex_digest :: "h256 \<Rightarrow> string" where
  "hex_digest h = concat (map hex_word [ha h, hb h, hc h, hd h, he h, hf h, hg h, hh h])"

text \<open>Lines 197--201 (and 38--42): \<^verbatim>\<open>hash.digest('hex').substring(0, 10)\<close>.\<close>

definition generate_unique_seed :: "string \<Rightarrow> nat \<Rightarrow> string \<Rightarrow> string" where
  "generate_unique_seed input now random =
     take 10 (hex_digest (sha256 (utf8_encode (input @ nat_str now @ random))))"

text \<open>The alphabet of \<^verbatim>\<open>digest('hex')\<close>.\<close>

definition lower_hex :: string where
  "lower_hex = ''0123456789abcdef''"

section \<open>Lemmas\<close>

lemma sha_pad_length: "length (sha_pad m) = (length m + 72) div 64 * 64"
proof -
  define q l where "q = length m div 64" and "l = length m mod 64"
  have n: "length m = 64 * q + l" and "l < 64" by (simp_all add: q_def l_def)
  have len: "length (sha_pad m) = length m + 9 + (if l \<le> 55 then 55 - l else 119 - l)"
    by (simp add: sha_pad_def be_bytes_def Let_def l_def)
  show ?thesis
  proof (cases "l \<le> 55")
    case True
    then have "length m + 72 = 64 * (q + 1) + (l + 8)" "l + 8 < 64" using n by simp_all
    then have "(length m + 72) div 64 = q + 1" by simp
    then show ?thesis using len True n by simp
  next
    case False
    then have "length m + 72 = 64 * (q + 2) + (l - 56)" "l - 56 < 64" using n \<open>l < 64\<close> by simp_all
    then have "(length m + 72) div 64 = q + 2" by simp
    then show ?thesis using len False n by simp
  qed
qed

lemma sha_pad_prefix: "take (length m) (sha_pad m) = m" "sha_pad m ! length m = 0x80"
  by (simp_all add: sha_pad_def nth_append Let_def)

lemma be_words_length: "length (be_words bs) = length bs div 4"
  by (induction bs rule: be_words.induct) auto

lemma concat_blocks: "concat (blocks ws) = ws"
proof (induction ws rule: blocks.induct)
  case (2 w ws)
  then show ?case by (simp only: blocks.simps concat.simps append_take_drop_id)
qed simp

lemma blocks_nonempty: "ws \<noteq> [] \<Longrightarrow> blocks ws = take 16 ws # blocks (drop 16 ws)"
  by (metis blocks.simps(2) neq_Nil_conv)

lemma blocks_full:
  "length ws = 16 * k \<Longrightarrow> list_all (\<lambda>b. length b = 16) (blocks ws) \<and> length (blocks ws) = k"
proof (induction k arbitrary: ws)
  case (Suc k)
  then have "ws \<noteq> []" "length (drop 16 ws) = 16 * k" by auto
  then show ?case using Suc.IH [of "drop 16 ws"] Suc.prems by (simp add: blocks_nonempty)
qed simp

lemma be_words_sha_pad: "length (be_words (sha_pad m)) = 16 * ((length m + 72) div 64)"
  by (simp add: be_words_length sha_pad_length)

text \<open>Every block the compression receives has sixteen words, and a message of \<open>n\<close>
  bytes gives \<open>(n + 72) div 64\<close> blocks.\<close>

lemma sha_blocks:
  "list_all (\<lambda>b. length b = 16) (blocks (be_words (sha_pad m))) \<and>
   length (blocks (be_words (sha_pad m))) = (length m + 72) div 64"
  by (rule blocks_full) (rule be_words_sha_pad)

lemma schedule_length: "length (schedule n w) = length w + n"
  by (induction n arbitrary: w) auto

lemma schedule_snoc: "schedule (Suc n) w = schedule n w @ [sched_next (schedule n w)]"
proof (induction n arbitrary: w)
  case (Suc n)
  have "schedule (Suc (Suc n)) w = schedule (Suc n) (w @ [sched_next w])"
    by (simp only: schedule.simps(2))
  also have "\<dots> = schedule n (w @ [sched_next w]) @ [sched_next (schedule n (w @ [sched_next w]))]"
    by (rule Suc.IH)
  also have "schedule n (w @ [sched_next w]) = schedule (Suc n) w"
    by simp
  finally show ?case .
qed simp

lemma sched_next_snoc:
  assumes "16 \<le> length v"
  shows "sched_next v = sig1 ((v @ [x]) ! (length v - 2)) + (v @ [x]) ! (length v - 7) +
                       sig0 ((v @ [x]) ! (length v - 15)) + (v @ [x]) ! (length v - 16)"
proof -
  have "length v - 2 < length v" "length v - 7 < length v" "length v - 15 < length v"
    "length v - 16 < length v" using assms by simp_all
  then show ?thesis by (simp add: sched_next_def nth_append Let_def)
qed

text \<open>The accumulated schedule satisfies the recurrence of FIPS 180-4 6.2.2: every word
  after the sixteenth is \<open>\<sigma>\<^sub>1(W\<^sub>t\<^sub>-\<^sub>2) + W\<^sub>t\<^sub>-\<^sub>7 +
  \<sigma>\<^sub>0(W\<^sub>t\<^sub>-\<^sub>1\<^sub>5) + W\<^sub>t\<^sub>-\<^sub>1\<^sub>6\<close>, and the block is
  its prefix.\<close>

lemma schedule_prefix: "take (length w) (schedule n w) = w"
proof (induction n)
  case (Suc n)
  then show ?case using schedule_length [of n w] by (simp add: schedule_snoc del: schedule.simps(2))
qed simp

lemma schedule_recurrence:
  assumes "16 \<le> length w" "length w \<le> t" "t < length w + n"
  shows "schedule n w ! t = sig1 (schedule n w ! (t - 2)) + schedule n w ! (t - 7) +
                            sig0 (schedule n w ! (t - 15)) + schedule n w ! (t - 16)"
  using assms
proof (induction n)
  case (Suc n)
  define v where "v = schedule n w"
  have lv: "length v = length w + n" by (simp add: v_def schedule_length)
  have sv: "schedule (Suc n) w = v @ [sched_next v]"
    by (simp add: v_def schedule_snoc del: schedule.simps(2))
  show ?case
  proof (cases "t < length v")
    case True
    then have "t - 2 < length v" "t - 7 < length v" "t - 15 < length v" "t - 16 < length v" by simp_all
    moreover have "v ! t = sig1 (v ! (t - 2)) + v ! (t - 7) + sig0 (v ! (t - 15)) + v ! (t - 16)"
      using Suc True lv by (simp add: v_def)
    ultimately show ?thesis using True by (simp add: sv nth_append del: schedule.simps(2))
  next
    case False
    then have "t = length v" using Suc.prems lv by simp
    then show ?thesis using Suc.prems lv sched_next_snoc [of v "sched_next v"]
      by (simp add: sv nth_append del: schedule.simps(2))
  qed
qed simp

lemma lower_hex_digits: "lower_hex = map hex_digit [0..<16]"
  by (simp add: lower_hex_def hex_digit_def upt_rec char_of_def bit_0)

lemma hex_digit_lower: "d < 16 \<Longrightarrow> hex_digit d \<in> set lower_hex"
  by (simp add: lower_hex_digits)

lemma nibble_less: "unat (x AND 0xF :: 32 word) < 16"
proof -
  have "x AND 0xF \<le> (0xF :: 32 word)" by (rule word_and_le1)
  then have "unat (x AND 0xF) \<le> unat (0xF :: 32 word)" by (simp add: word_le_nat_alt)
  then show ?thesis by simp
qed

lemma hex_word_chars: "length (hex_word w) = 8 \<and> list_all (\<lambda>c. c \<in> set lower_hex) (hex_word w)"
  by (simp add: hex_word_def list_all_iff hex_digit_lower nibble_less)

lemma hex_digest_chars: "length (hex_digest h) = 64 \<and> list_all (\<lambda>c. c \<in> set lower_hex) (hex_digest h)"
  by (simp add: hex_digest_def hex_word_chars)

end
