(* ===== verification/Middleware.thy ===== *)
theory Middleware
  imports Server Server3 Seed
begin

text \<open>
  What runs before the routes. Both applications register \<^verbatim>\<open>app.use(cors())\<close> and
  \<^verbatim>\<open>app.use(express.json())\<close> right after \<^verbatim>\<open>express()\<close> (server.js lines 29--31,
  server3.js lines 20--22), so every request goes through the JSON body parser before the
  router, whatever its path. The parser is body-parser 1.x with its defaults, modelled from
  its documentation: a request without a body or of another content type gets the body
  \<^verbatim>\<open>{}\<close>; a body of more than 100 kB (in UTF-8) is refused with 413; in strict mode a
  body whose first non-blank character is not \<open>{\<close> or \<open>[\<close>, or that
  \<^verbatim>\<open>JSON.parse\<close> rejects, is refused with 400. Express's final handler answers those
  errors with the status and its reason phrase (the HTML page around it is not modelled).
  \<^verbatim>\<open>cors()\<close> only adds response headers, which the model does not carry.

  \<open>serve_http\<close> is a request to an application: the parser, then \<open>serve_app\<close>.
  \<open>listen_port\<close> is \<^verbatim>\<open>process.env.PORT || 3001\<close>.

  Lemmas: a refused body is the response, with the world unchanged (no route runs);
  a body that is the JSON text of an object within the limit reaches the routes as the
  value \<^verbatim>\<open>JSON.parse\<close> gives back; the default port.
\<close>

section \<open>Definitions\<close>

record http_request =
  req_method :: http_method
  req_path :: string
  req_json :: bool
  req_body :: string

definition bad_request :: http_response where
  "bad_request = \<lparr>status = 400, body = JStr ''Bad Request''\<rparr>"

definition payload_too_large :: http_response where
  "payload_too_large = \<lparr>status = 413, body = JStr ''Payload Too Large''\<rparr>"

text \<open>The default \<^verbatim>\<open>limit\<close> of body-parser, 100 kB.\<close>

definition body_limit :: nat where
  "body_limit = 102400"

text \<open>Strict mode: the first character after blanks opens an object or an array.\<close>

definition strict_start :: "string \<Rightarrow> bool" where
  "strict_start s = (case skip_ws s of c # _ \<Rightarrow> c = CHR ''{'' \<or> c = CHR ''['' | [] \<Rightarrow> False)"

text \<open>\<^verbatim>\<open>express.json()\<close>: the parsed body, or the error response.\<close>

definition json_body_parser :: "bool \<Rightarrow> string \<Rightarrow> http_response + jsval" where
  "json_body_parser is_json txt =
     (if \<not> is_json \<or> txt = [] then Inr (JObj [])
      else if body_limit < length (utf8_encode txt) then Inl payload_too_large
      else if \<not> strict_start txt then Inl bad_request
      else case json_parse txt of Inr v \<Rightarrow> Inr v | Inl e \<Rightarrow> Inl bad_request)"

text \<open>An application: its middleware, then its router.\<close>

definition serve_http :: "route list \<Rightarrow> http_request \<Rightarrow> (world, http_response option) js" where
  "serve_http rs rq =
     (case json_body_parser (req_json rq) (req_body rq) of
        Inl r \<Rightarrow> js_return (Some r)
      | Inr b \<Rightarrow> serve_app rs (req_method rq) (req_path rq) b)"

text \<open>server.js lines 28--31 and server3.js lines 19--22.\<close>

definition server_app :: "http_request \<Rightarrow> (world, http_response option) js" where
  "server_app = serve_http routes"

definition server3_app :: "http_request \<Rightarrow> (world, http_response option) js" where
  "server3_app = serve_http routes3"

text \<open>\<^verbatim>\<open>const PORT = process.env.PORT || 3001\<close> (lines 190, 336 and 873): an unset or
  empty variable gives 3001.\<close>

definition listen_port :: "string option \<Rightarrow> jsval" where
  "listen_port env = js_or (case env of None \<Rightarrow> JUndef | Some p \<Rightarrow> JStr p) (JNum 3001)"

text \<open>The request the browser sends for \<^verbatim>\<open>axios.post(url, data)\<close> with an object.\<close>

definition json_post :: "string \<Rightarrow> jsval \<Rightarrow> http_request" where
  "json_post p v = \<lparr>req_method = POST, req_path = p, req_json = True, req_body = json_stringify v\<rparr>"

section \<open>Lemmas\<close>

lemma stringify_obj_start: "strict_start (json_stringify (JObj kvs))"
  by (simp add: strict_start_def skip_ws_def json_ws_def)

lemma stringify_arr_start: "strict_start (json_stringify (JArr vs))"
  by (simp add: strict_start_def skip_ws_def json_ws_def)

text \<open>A parser error is the response; the router and the handlers do not run.\<close>

lemma serve_http_refused:
  "json_body_parser (req_json rq) (req_body rq) = Inl r \<Longrightarrow> serve_http rs rq w = (Inr (Some r), w)"
  by (simp add: serve_http_def js_simps)

lemma serve_http_parsed:
  "json_body_parser (req_json rq) (req_body rq) = Inr b \<Longrightarrow>
   serve_http rs rq = serve_app rs (req_method rq) (req_path rq) b"
  by (simp add: serve_http_def)

lemma body_parser_stringified:
  assumes "length (utf8_encode (json_stringify v)) \<le> body_limit" "strict_start (json_stringify v)"
  shows "json_body_parser True (json_stringify v) = Inr (json_normalize v)"
  using assms stringify_start [of v] by (simp add: json_body_parser_def json_parse_stringify_any)

lemma body_parser_oversize:
  "is_json \<Longrightarrow> body_limit < length (utf8_encode txt) \<Longrightarrow> json_body_parser is_json txt = Inl payload_too_large"
  by (auto simp: json_body_parser_def utf8_encode_def)

lemma listen_port_default: "listen_port None = JNum 3001" "listen_port (Some []) = JNum 3001"
  by (simp_all add: listen_port_def js_or_def)


end
