(* ===== verification/Spec2Isabelle.thy ===== *)
theory Spec2Isabelle
  imports Js_Base Encoding Providers Voice Json Cleaning Images Generate Hash Visual Legacy Server Server3 App View Seed Middleware
begin

text \<open>
  \<^bold>\<open>Vocalise-AI: a verification development of the backend and the frontend.\<close>

  \<^bold>\<open>The program.\<close> The browser app (src/frontend/src/App.jsx) records a spoken product
  idea and posts it as \<^verbatim>\<open>{userPrompt}\<close> to \<^verbatim>\<open>POST /api/generate\<close> of the Express
  backend (src/backend/server.js). The orchestrator of that route (lines 520--794) asks
  Gemini for a brand identity, fans out two DALL-E image requests (with picsum placeholders
  when they fail), picks an ElevenLabs voice and synthesises the slogan. A second route turns
  a reference image into a visual concept with Gemini's multimodal model (797--870). The file
  also keeps earlier drafts of these routes, and server3.js is a smaller separate app.

  \<^bold>\<open>Theories and what they model\<close> (each opens with its own description):
  \<^item> \<open>Js_Base\<close> (prelude): JavaScript values, exceptions (\<open>ReferenceError\<close>,
    \<open>TypeError\<close>, \<open>RangeError\<close>, axios and Gemini errors), truthiness, property
    access, string methods, and an exception-and-state monad \<open>('w, 'a) js\<close> for async code:
    \<open>js_bind\<close> is \<^verbatim>\<open>await\<close>, \<open>js_catch\<close> is \<^verbatim>\<open>try/catch\<close>, and \<open>undeclared\<close>
    is a read of an unbound name. The collection \<open>js_simps\<close> evaluates them.
  \<^item> \<open>Providers\<close>: the outside world as a record of reply queues plus a log
    \<open>calls\<close> of every outbound request, so that properties can count and order calls.
  \<^item> \<open>Json\<close>, \<open>Encoding\<close>: \<^verbatim>\<open>JSON.parse\<close>/\<^verbatim>\<open>JSON.stringify\<close> and base64, from their
    specifications.
  \<^item> \<open>Cleaning\<close>: the fence-stripping regex of lines 549--551, as a matcher proved equal to
    the regex's leftmost greedy match.
  \<^item> \<open>Images\<close>: \<^verbatim>\<open>generateImageWithDallE\<close> and \<^verbatim>\<open>generateUniqueImagesWithGemini\<close> (356--471).
  \<^item> \<open>Voice\<close>: voice choice and synthesis (566--780).
  \<^item> \<open>Generate\<close>: the orchestrator \<open>handle_generate\<close>.
  \<^item> \<open>Hash\<close>: \<^verbatim>\<open>generateUniqueHash\<close> on \<open>32 word\<close>.
  \<^item> \<open>Seed\<close>: \<^verbatim>\<open>generateUniqueSeed\<close> (38--42, 197--201) over SHA-256 as FIPS 180-4
    defines it: UTF-8, padding, big-endian words, the message schedule and 64 rounds on
    \<open>32 word\<close>, and the hex digest.
  \<^item> \<open>Visual\<close>: the visual-concept route.
  \<^item> \<open>Legacy\<close>: the AIService class, the two \<^verbatim>\<open>{brandName, brandInfo, imageType}\<close>
    handlers, the ElevenLabs test route and the voice listing. Also the draft
    \<^verbatim>\<open>generateImageWithDallE\<close> of 225--248, which hoisting overrides; it equals
    \<^verbatim>\<open>AIService.generateImage\<close> and differs from the declaration in force only in the
    error it throws.
  \<^item> \<open>Server\<close>: the route table of server.js in registration order, Express's first-match
    dispatch, and \<^verbatim>\<open>/health\<close> with \<^verbatim>\<open>toISOString\<close>.
  \<^item> \<open>Middleware\<close>: \<^verbatim>\<open>app.use(express.json())\<close> of both apps, the strict
    JSON body parser that runs before every route (400, or 413 over 100 kB), composed with
    the router as \<open>serve_http\<close>; and the \<^verbatim>\<open>PORT\<close> choice.
  \<^item> \<open>Server3\<close>: server3.js, its \<^verbatim>\<open>AIService\<close> class (proved equal to the one of
    server.js) and its three routes over the same dispatch.
  \<^item> \<open>App\<close>: the React state, \<^verbatim>\<open>handleGenerate\<close> and
    \<^verbatim>\<open>handleGenerateVisualConcept\<close> split at their \<^verbatim>\<open>await\<close>, and the step relation
    \<open>sys_step\<close>. That relation interleaves clicks, replies, interval ticks and timers,
    composed with the backend through \<open>axios_post\<close> and \<open>serve\<close>. Also: the mount
    effects with the theme kept in localStorage, the tooltips, the stop button, and the
    backend address of config.js, which the app does not use.
  \<^item> \<open>View\<close>: the render function as \<open>exn + element list\<close>, with React's rules for
    children, because a throw during render unmounts the page. Also \<^verbatim>\<open>downloadAssets\<close>.

  \<^bold>\<open>What the lemmas show.\<close>
  \<^item> Every request to the orchestrator and the visual route is answered once, with status
    200, 400 or 500.
  \<^item> The voiceover never carries audio: the success path reads the undeclared
    \<^verbatim>\<open>elevenlabsResponse\<close>, and the retry reads the undeclared \<^verbatim>\<open>voices\<close>.
  \<^item> A DALL-E outage turns the whole request into a 500, because the fallback calls
    \<^verbatim>\<open>brandName.replace\<close> on an undefined name.
  \<^item> The shift-and-subtract hash equals the base-31 polynomial modulo \<open>2^32\<close>.
  \<^item> Parse and stringify round-trip, and the bytes sent to Gemini decode to the bytes fetched.
  \<^item> Express runs the first registered handler of a path. So the frontend's request is
    answered 400 by the legacy handler of line 129, and in every reachable state of the
    composed system the app holds no results.
  \<^item> A body the JSON parser refuses is answered before any route runs
    (\<open>serve_http_refused\<close>); the JSON text of an object within the size limit reaches
    the routes as \<^verbatim>\<open>JSON.parse\<close> gives it back (\<open>body_parser_stringified\<close>).
  \<^item> The app's spinner, progress bar and interval satisfy an invariant on every run.
  \<^item> The app refines an abstract machine of four phases: ready, generating, error and
    results.
  \<^item> The progress interval stops after at most six ticks.
  \<^item> SHA-256 (for \<^verbatim>\<open>generateUniqueSeed\<close>): the padded message is whole 64-byte
    blocks, every block has sixteen words, the schedule satisfies the recurrence of
    FIPS 180-4, and a digest is 64 lowercase hex digits. No theorem computes a digest.
  \<^item> Typing in the transcript box changes nothing, although the page says the text can
    be edited: \<^verbatim>\<open>onChange\<close> assigns \<^verbatim>\<open>event.target\<close>, which has no setter, and
    dispatching sets the target to \<^verbatim>\<open>window\<close>. This follows from the DOM and
    ECMAScript rules \<open>set_accessor\<close> and \<open>dispatch_event\<close>.
  \<^item> \<open>JSON.parse\<close> of the model knows integers only; every theorem that assumes a
    failed parse assumes a text that does not begin like a JSON value, which the real
    parser refuses as well.
  \<^item> The orchestrator's reply would render with the audio-unavailable note. A concept without a \<^verbatim>\<open>colorPalette\<close> array blanks the page.

  \<^bold>\<open>Fuel and bounds.\<close>
  \<^item> The JSON parser gets fuel \<open>2 * length s + 1\<close>; it consumes input on each nested call,
    and \<open>parse_fuel_mono\<close> shows that more fuel gives the same result.
  \<^item> \<open>year_split\<close> and \<open>month_split\<close> terminate by measures; month and day are in
    range (\<open>date_fields_bounds\<close>).
  \<^item> Times above 8.64e15 ms raise the \<open>RangeError\<close>.
  \<^item> Voice settings are in hundredths.
  \<^item> SHA-256 runs \<open>schedule 48\<close> on each block of sixteen words, which gives the 64
    words that the 64 constants \<open>k256\<close> pair with. The digest was checked against the
    FIPS test vector of ``abc'' by evaluation, outside the development, because the
    simplifier cannot evaluate 64 rounds in time.

  \<^bold>\<open>Not modelled.\<close>
  \<^item> Logging and start-up: dotenv, \<^verbatim>\<open>app.listen\<close>, and the response headers of
    \<^verbatim>\<open>cors()\<close> (responses carry a status and a body only).
  \<^item> server.js as a whole does not parse: it declares \<^verbatim>\<open>const PORT\<close> three times and
    keeps stray fragments. The model follows the complete drafts of each function, with
    hoisting resolved as JavaScript does.
  \<^item> In App.jsx: the speech-recognition library (listening and the transcript are
    inputs); the DOM (element boxes are parameters,
    scrolling into view is omitted); static markup; the local time zone of the footer's year (UTC is used).
  \<^item> Floating-point progress values: \<open>progress_tick\<close> computes \<open>step * 20\<close> exactly,
    where JavaScript gives 60.00000000000001 at step 3.
\<close>


end
